theory Spec2Isabelle
  imports Complex_Main "HOL-Library.AList"
begin

section \<open>Property model\<close>

text \<open>
  The main process of the sticky-notes application keeps two registries, \<open>cards\<close> (card id to
  Card) and \<open>avatars\<close> (avatar url to Avatar), in \<^verbatim>\<open>modules_main/card.ts\<close>; the window
  handlers that act on them are in \<^verbatim>\<open>main.ts\<close>.

  Modelled from the spec: the property types of \<^verbatim>\<open>modules_common/cardprop\<close>, which is
  imported by the sources but is not among them. Section 3 of the spec gives their fields:
  a geometry (x, y, width, height, z-order), a style (background colour, opacity, derived
  ui colour), a condition (locked flag) and timestamps. Coordinates are JavaScript numbers;
  they are modelled as integers. The fields \<open>x\<close>, \<open>y\<close>, \<open>z\<close> and \<open>id\<close> carry a prime.
\<close>

record Geometry =
  x' :: int
  y' :: int
  z' :: int
  width :: int
  height :: int

record CardStyle =
  uiColor :: string
  backgroundColor :: string
  opacity :: real

record CardCondition =
  locked :: bool

record CardDate =
  createdDate :: string
  modifiedDate :: string

text \<open>The placement feature that \<open>updateAvatar\<close> builds: geometry, style, condition, date.\<close>

record TransformableFeature =
  geometry :: Geometry
  style :: CardStyle
  condition :: CardCondition
  date :: CardDate

text \<open>An AvatarProp is a placement feature together with its url and a copy of the content.\<close>

record AvatarProp = TransformableFeature +
  url :: string
  data :: string

text \<open>
  A CardProp: id, content, and the placements by location. \<open>avatars\<close> is a JavaScript object;
  its keys are kept in insertion order (location keys are not integer-like), an assignment
  to a present key keeps the key's place and an assignment to a new key appends it, which is
  what \<open>AList.update\<close> does.
\<close>

record CardProp =
  id' :: string
  data :: string
  avatars :: "(string \<times> TransformableFeature) list"

section \<open>Errors, promises, effects\<close>

text \<open>
  \<open>Error\<close> and \<open>TypeError\<close> are thrown by the sources themselves. \<open>NotFound\<close>,
  \<open>ValidationError\<close> and \<open>IOFailure\<close> are the kinds of section 7 of the spec, raised by
  the persistence layer and by hydration.
\<close>

datatype error =
    Error string
  | TypeError string
  | NotFound string
  | ValidationError string
  | IOFailure string

fun message :: "error \<Rightarrow> string" where
  "message (Error m) = m"
| "message (TypeError m) = m"
| "message (NotFound m) = m"
| "message (ValidationError m) = m"
| "message (IOFailure m) = m"

text \<open>
  The state of the promise an async function returns once the event loop is idle: fulfilled
  with a value, rejected with an error, or never settled.
\<close>

datatype 'a result = Returns 'a | Throws error | Pending

text \<open>
  What the outside world answers to one asynchronous request (a persistence call, the
  load-and-render handshake of a window). The world carries the answers still to come.
\<close>

datatype outcome = Fulfils | Rejects string | NeverSettles

text \<open>
  What the main process does to the outside: console errors, timers, calls on native
  windows (by window handle), messages to a window's renderer, persistence calls.
  \<open>console.debug\<close> lines are left out.
\<close>

datatype effect =
    ConsoleError string
  | Sleep nat
  | WindowCreated nat
  | WindowDestroyed nat
  | WindowBlur nat
  | WindowFocus nat
  | WindowMoveTop nat
  | WindowLoadURL nat
  | Send nat string
  | CardIO string string

section \<open>Cards, avatars and the process state\<close>

datatype CardInitializeType = New | Load

record Card =
  cardInitializeType :: CardInitializeType
  prop' :: CardProp

text \<open>
  An Avatar owns one native window (a handle) and the three one-shot flags. \<open>indexUrl\<close>,
  the context menu and the navigation guards are not modelled.
\<close>

record Avatar =
  prop' :: AvatarProp
  window :: nat
  suppressFocusEventOnce :: bool
  suppressBlurEventOnce :: bool
  recaptureGlobalFocusEventAfterLocalFocusEvent :: bool
  renderingCompleted :: bool

text \<open>
  The functions and constants the sources import from modules that are not among them, as
  parameters: the url decomposition of \<^verbatim>\<open>cardprop\<close>, the truth of JavaScript's
  \<^verbatim>\<open>loc.match(workspaceUrl)\<close>, the placements of \<^verbatim>\<open>new CardProp(id)\<close> and the
  placement \<^verbatim>\<open>new AvatarProp(url, data, undefined)\<close> takes.
\<close>

record Env =
  getIdFromUrl :: "string \<Rightarrow> string"
  getAvatarLocation :: "string \<Rightarrow> string"
  strMatch :: "string \<Rightarrow> string \<Rightarrow> bool"
  defaultAvatars :: "(string \<times> TransformableFeature) list"
  defaultFeature :: TransformableFeature

text \<open>
  The process state. \<open>cards\<close> and \<open>avatars\<close> are JavaScript Maps, kept as association lists
  in insertion order. The workspace fields stand for \<^verbatim>\<open>modules_main/workspace\<close>
  (\<open>currentWorkspace\<close> is the \<open>avatars\<close> array of \<^verbatim>\<open>getCurrentWorkspace()\<close>, \<open>None\<close> when
  that is undefined). \<open>cardStore\<close> and \<open>avatarUrlStore\<close> are what the persistence layer
  holds. \<open>outcomes\<close> and \<open>uuidSource\<close> are the answers of the outside world still to come;
  \<open>effects\<close> is what the process has done so far.
\<close>

record World =
  cards :: "(string \<times> Card) list"
  avatars :: "(string \<times> Avatar) list"
  globalFocusListenerPermission :: bool
  currentWorkspaceId :: string
  currentWorkspaceUrl :: string
  currentWorkspace :: "string list option"
  cardStore :: "(string \<times> CardProp) list"
  avatarUrlStore :: "(string \<times> string list) list"
  outcomes :: "outcome list"
  uuidSource :: "nat \<Rightarrow> string"
  uuidCount :: nat
  nextWindow :: nat
  destroyed :: "nat list"
  effects :: "effect list"

definition emit :: "effect \<Rightarrow> World \<Rightarrow> World" where
  "emit ev s = s\<lparr>effects := effects s @ [ev]\<rparr>"

text \<open>The effects of a run from \<open>s\<close> to \<open>t\<close>.\<close>

definition since :: "World \<Rightarrow> World \<Rightarrow> effect list" where
  "since s t = drop (length (effects s)) (effects t)"

text \<open>The lines that \<^verbatim>\<open>console.error\<close> wrote among some effects, in order.\<close>

definition logged :: "effect list \<Rightarrow> string list" where
  "logged es = [m. ConsoleError m \<leftarrow> es]"

section \<open>Focus control\<close>

definition setGlobalFocusEventListenerPermission :: "bool \<Rightarrow> World \<Rightarrow> World" where
  "setGlobalFocusEventListenerPermission canExecuteFocusEventListener s =
     s\<lparr>globalFocusListenerPermission := canExecuteFocusEventListener\<rparr>"

definition getGlobalFocusEventListenerPermission :: "World \<Rightarrow> bool" where
  "getGlobalFocusEventListenerPermission s = globalFocusListenerPermission s"

text \<open>
  \<^verbatim>\<open>Avatar._focusListener\<close> and \<^verbatim>\<open>Avatar._blurListener\<close>: the avatar \<open>this\<close> is passed
  and returned, since the listeners assign its flags.
\<close>

definition focusListener :: "Avatar \<Rightarrow> World \<Rightarrow> Avatar \<times> World" where
  "focusListener this s =
     (let (this1, s1) =
            (if recaptureGlobalFocusEventAfterLocalFocusEvent this
             then (this\<lparr>recaptureGlobalFocusEventAfterLocalFocusEvent := False\<rparr>,
                   setGlobalFocusEventListenerPermission True s)
             else (this, s))
      in if suppressFocusEventOnce this1
         then (this1\<lparr>suppressFocusEventOnce := False\<rparr>, s1)
         else if \<not> getGlobalFocusEventListenerPermission s1
         then (this1, s1)
         else (this1, emit (Send (window this1) ''card-focused'') s1))"

definition blurListener :: "Avatar \<Rightarrow> World \<Rightarrow> Avatar \<times> World" where
  "blurListener this s =
     (if suppressBlurEventOnce this
      then (this\<lparr>suppressBlurEventOnce := False\<rparr>, s)
      else (this, emit (Send (window this) ''card-blurred'') s))"

text \<open>
  The native window of the avatar registered under \<open>u\<close> emits \<open>focus\<close> (resp. \<open>blur\<close>): the
  listener runs on that avatar, whose flags change in place.
\<close>

definition focusEvent :: "string \<Rightarrow> World \<Rightarrow> World" where
  "focusEvent u s =
     (case map_of (avatars s) u of
        None \<Rightarrow> s
      | Some avatar \<Rightarrow>
          (let (avatar1, s1) = focusListener avatar s
           in s1\<lparr>avatars := AList.update u avatar1 (avatars s1)\<rparr>))"

definition blurEvent :: "string \<Rightarrow> World \<Rightarrow> World" where
  "blurEvent u s =
     (case map_of (avatars s) u of
        None \<Rightarrow> s
      | Some avatar \<Rightarrow>
          (let (avatar1, s1) = blurListener avatar s
           in s1\<lparr>avatars := AList.update u avatar1 (avatars s1)\<rparr>))"

text \<open>
  The handlers \<^verbatim>\<open>blur-and-focus-with-suppress-events\<close> and
  \<^verbatim>\<open>blur-and-focus-with-suppress-focus-event\<close> of \<^verbatim>\<open>main.ts\<close>. \<open>window.blur()\<close> and
  \<open>window.focus()\<close> are requests to the window system; the events they cause arrive later,
  as \<open>blurEvent\<close> and \<open>focusEvent\<close>.
\<close>

definition blurAndFocusWithSuppressEvents :: "string \<Rightarrow> World \<Rightarrow> World" where
  "blurAndFocusWithSuppressEvents u s =
     (case map_of (avatars s) u of
        None \<Rightarrow> s
      | Some avatar \<Rightarrow>
          (let s1 = setGlobalFocusEventListenerPermission False s;
               avatar1 = avatar\<lparr>suppressBlurEventOnce := True\<rparr>;
               s2 = emit (WindowBlur (window avatar1)) s1;
               avatar2 = avatar1\<lparr>suppressFocusEventOnce := True,
                                 recaptureGlobalFocusEventAfterLocalFocusEvent := True\<rparr>;
               s3 = emit (WindowFocus (window avatar2)) s2
           in s3\<lparr>avatars := AList.update u avatar2 (avatars s3)\<rparr>))"

definition blurAndFocusWithSuppressFocusEvent :: "string \<Rightarrow> World \<Rightarrow> World" where
  "blurAndFocusWithSuppressFocusEvent u s =
     (case map_of (avatars s) u of
        None \<Rightarrow> s
      | Some avatar \<Rightarrow>
          (let s1 = setGlobalFocusEventListenerPermission False s;
               s2 = emit (WindowBlur (window avatar)) s1;
               avatar1 = avatar\<lparr>recaptureGlobalFocusEventAfterLocalFocusEvent := True\<rparr>;
               s3 = emit (WindowFocus (window avatar1)) s2
           in s3\<lparr>avatars := AList.update u avatar1 (avatars s3)\<rparr>))"

section \<open>Persistence\<close>

text \<open>
  Each asynchronous request takes the next answer of the outside world; with no answer
  left, the request is fulfilled.
\<close>

definition nextOutcome :: "World \<Rightarrow> outcome \<times> World" where
  "nextOutcome s =
     (case outcomes s of
        [] \<Rightarrow> (Fulfils, s)
      | oc # ocs \<Rightarrow> (oc, s\<lparr>outcomes := ocs\<rparr>))"

text \<open>The next request will be fulfilled.\<close>

definition nextFulfils :: "World \<Rightarrow> bool" where
  "nextFulfils s = (case outcomes s of [] \<Rightarrow> True | oc # ocs \<Rightarrow> oc = Fulfils)"

text \<open>
  Modelled from the spec: the persistence layer \<open>CardIO\<close> of \<^verbatim>\<open>modules_main/io\<close>, which
  is imported by the sources but is not among them. Section 4.2 of the spec: reading a card
  gives its CardProp or fails with NotFound; writing upserts and returns the id; deleting
  removes and fails with NotFound if absent; per workspace, the ordered set of avatar urls
  is added to, deleted from and listed. Any call may also fail with an IOFailure
  (section 7), here when the outside world rejects it.
\<close>

definition CardIO_getCardData :: "string \<Rightarrow> World \<Rightarrow> CardProp result \<times> World" where
  "CardIO_getCardData i s =
     (case nextOutcome (emit (CardIO ''getCardData'' i) s) of
        (Rejects m, s1) \<Rightarrow> (Throws (IOFailure m), s1)
      | (NeverSettles, s1) \<Rightarrow> (Pending, s1)
      | (Fulfils, s1) \<Rightarrow>
          (case map_of (cardStore s1) i of
             None \<Rightarrow> (Throws (NotFound i), s1)
           | Some p \<Rightarrow> (Returns p, s1)))"

text \<open>
  Modelled from the spec: the two halves of \<open>CardIO.getCardData\<close>, for a caller that does
  not await it at once. The call makes the request; the answer settles the promise in a
  later turn of the event loop, from the store as it is then.
\<close>

definition CardIO_getCardData_request :: "string \<Rightarrow> World \<Rightarrow> World" where
  "CardIO_getCardData_request i s = emit (CardIO ''getCardData'' i) s"

definition CardIO_getCardData_answer :: "string \<Rightarrow> World \<Rightarrow> CardProp result \<times> World" where
  "CardIO_getCardData_answer i s =
     (case nextOutcome s of
        (Rejects m, s1) \<Rightarrow> (Throws (IOFailure m), s1)
      | (NeverSettles, s1) \<Rightarrow> (Pending, s1)
      | (Fulfils, s1) \<Rightarrow>
          (case map_of (cardStore s1) i of
             None \<Rightarrow> (Throws (NotFound i), s1)
           | Some p \<Rightarrow> (Returns p, s1)))"

definition CardIO_updateOrCreateCardData :: "CardProp \<Rightarrow> World \<Rightarrow> string result \<times> World" where
  "CardIO_updateOrCreateCardData p s =
     (case nextOutcome (emit (CardIO ''updateOrCreateCardData'' (id' p)) s) of
        (Rejects m, s1) \<Rightarrow> (Throws (IOFailure m), s1)
      | (NeverSettles, s1) \<Rightarrow> (Pending, s1)
      | (Fulfils, s1) \<Rightarrow>
          (Returns (id' p), s1\<lparr>cardStore := AList.update (id' p) p (cardStore s1)\<rparr>))"

definition CardIO_deleteCardData :: "string \<Rightarrow> World \<Rightarrow> string result \<times> World" where
  "CardIO_deleteCardData i s =
     (case nextOutcome (emit (CardIO ''deleteCardData'' i) s) of
        (Rejects m, s1) \<Rightarrow> (Throws (IOFailure m), s1)
      | (NeverSettles, s1) \<Rightarrow> (Pending, s1)
      | (Fulfils, s1) \<Rightarrow>
          (case map_of (cardStore s1) i of
             None \<Rightarrow> (Throws (NotFound i), s1)
           | Some p \<Rightarrow> (Returns i, s1\<lparr>cardStore := AList.delete i (cardStore s1)\<rparr>)))"

definition urlList :: "string \<Rightarrow> World \<Rightarrow> string list" where
  "urlList ws s = (case map_of (avatarUrlStore s) ws of None \<Rightarrow> [] | Some us \<Rightarrow> us)"

definition CardIO_getAvatarUrlList :: "string \<Rightarrow> World \<Rightarrow> string list result \<times> World" where
  "CardIO_getAvatarUrlList ws s =
     (case nextOutcome (emit (CardIO ''getAvatarUrlList'' ws) s) of
        (Rejects m, s1) \<Rightarrow> (Throws (IOFailure m), s1)
      | (NeverSettles, s1) \<Rightarrow> (Pending, s1)
      | (Fulfils, s1) \<Rightarrow> (Returns (urlList ws s1), s1))"

definition CardIO_addAvatarUrl :: "string \<Rightarrow> string \<Rightarrow> World \<Rightarrow> unit result \<times> World" where
  "CardIO_addAvatarUrl ws u s =
     (case nextOutcome (emit (CardIO ''addAvatarUrl'' u) s) of
        (Rejects m, s1) \<Rightarrow> (Throws (IOFailure m), s1)
      | (NeverSettles, s1) \<Rightarrow> (Pending, s1)
      | (Fulfils, s1) \<Rightarrow>
          (Returns (),
           s1\<lparr>avatarUrlStore :=
                 AList.update ws
                   (if u \<in> set (urlList ws s1) then urlList ws s1 else urlList ws s1 @ [u])
                   (avatarUrlStore s1)\<rparr>))"

definition CardIO_deleteAvatarUrl :: "string \<Rightarrow> string \<Rightarrow> World \<Rightarrow> unit result \<times> World" where
  "CardIO_deleteAvatarUrl ws u s =
     (case nextOutcome (emit (CardIO ''deleteAvatarUrl'' u) s) of
        (Rejects m, s1) \<Rightarrow> (Throws (IOFailure m), s1)
      | (NeverSettles, s1) \<Rightarrow> (Pending, s1)
      | (Fulfils, s1) \<Rightarrow>
          (Returns (),
           s1\<lparr>avatarUrlStore :=
                 AList.update ws (filter (\<lambda>v. v \<noteq> u) (urlList ws s1)) (avatarUrlStore s1)\<rparr>))"

section \<open>The card registry\<close>

definition getCardFromUrl :: "Env \<Rightarrow> string \<Rightarrow> World \<Rightarrow> Card option" where
  "getCardFromUrl e u s = map_of (cards s) (getIdFromUrl e u)"

text \<open>
  \<^verbatim>\<open>uuidv4()\<close> of the package \<open>uuid\<close>: the outside world hands out the identifiers.
\<close>

definition generateNewCardId :: "World \<Rightarrow> string \<times> World" where
  "generateNewCardId s = (uuidSource s (uuidCount s), s\<lparr>uuidCount := Suc (uuidCount s)\<rparr>)"

definition getCardData :: "Env \<Rightarrow> string \<Rightarrow> World \<Rightarrow> string option" where
  "getCardData e avatarUrl s =
     (case getCardFromUrl e avatarUrl s of
        None \<Rightarrow> None
      | Some card' \<Rightarrow> Some (CardProp.data (Card.prop' card')))"

definition getAvatarProp :: "Env \<Rightarrow> string \<Rightarrow> World \<Rightarrow> TransformableFeature option" where
  "getAvatarProp e avatarUrl s =
     (case getCardFromUrl e avatarUrl s of
        None \<Rightarrow> None
      | Some card' \<Rightarrow> map_of (CardProp.avatars (Card.prop' card')) (getAvatarLocation e avatarUrl))"

text \<open>
  Modelled from the spec: the constructors \<^verbatim>\<open>new CardProp(id)\<close> and
  \<^verbatim>\<open>new AvatarProp(url, data, feature)\<close> of \<^verbatim>\<open>modules_common/cardprop\<close>, which is not
  among the sources. A new card has empty content (section 3); its placements are the
  parameter \<open>defaultAvatars\<close>. An AvatarProp holds the url, the content and the placement
  it is given; for an undefined content it is empty, for an undefined placement it is the
  parameter \<open>defaultFeature\<close>.
\<close>

definition new_CardProp :: "Env \<Rightarrow> string \<Rightarrow> CardProp" where
  "new_CardProp e i = \<lparr>id' = i, CardProp.data = [], CardProp.avatars = defaultAvatars e\<rparr>"

definition new_AvatarProp ::
  "Env \<Rightarrow> string \<Rightarrow> string option \<Rightarrow> TransformableFeature option \<Rightarrow> AvatarProp" where
  "new_AvatarProp e u d f =
     (let ft = (case f of None \<Rightarrow> defaultFeature e | Some g \<Rightarrow> g)
      in \<lparr>geometry = geometry ft, style = style ft, condition = condition ft, date = date ft,
          url = u, AvatarProp.data = (case d of None \<Rightarrow> [] | Some c \<Rightarrow> c)\<rparr>)"

text \<open>
  The constructor of Card, by its first argument. The second argument is a CardProp, an
  id string or undefined. For \<open>New\<close> the card is complete; for \<open>Load\<close> the constructor only
  keeps the id, and \<open>loadOrCreateCardData\<close> reads the CardProp later.
\<close>

datatype CardArg = Undefined | OfCardProp CardProp | OfString string

definition new_Card_New :: "Env \<Rightarrow> CardArg \<Rightarrow> World \<Rightarrow> (error + Card) \<times> World" where
  "new_Card_New e arg s =
     (case arg of
        Undefined \<Rightarrow>
          (let (i, s1) = generateNewCardId s
           in (Inr \<lparr>cardInitializeType = New, Card.prop' = new_CardProp e i\<rparr>, s1))
      | OfCardProp p \<Rightarrow>
          (if id' p = []
           then (let (i, s1) = generateNewCardId s
                 in (Inr \<lparr>cardInitializeType = New, Card.prop' = p\<lparr>id' := i\<rparr>\<rparr>, s1))
           else (Inr \<lparr>cardInitializeType = New, Card.prop' = p\<rparr>, s))
      | OfString v \<Rightarrow>
          (Inl (TypeError ''Second parameter must be CardProp when creating new card.''), s))"

definition new_Card_Load :: "CardArg \<Rightarrow> error + string" where
  "new_Card_Load arg =
     (case arg of
        OfString i \<Rightarrow> Inr i
      | Undefined \<Rightarrow> Inl (TypeError ''Second parameter must be id string when loading the card.'')
      | OfCardProp p \<Rightarrow> Inl (TypeError ''Second parameter must be id string when loading the card.''))"

text \<open>The id of the card that \<open>New\<close> makes of a CardProp: a fresh one when the id is empty.\<close>

definition newCardKey :: "World \<Rightarrow> CardProp \<Rightarrow> string" where
  "newCardKey s p = (if id' p = [] then uuidSource s (uuidCount s) else id' p)"

text \<open>\<open>loadOrCreateCardData\<close> of a \<open>Load\<close> card that was constructed for the id \<open>i\<close>.\<close>

definition loadOrCreateCardData :: "string \<Rightarrow> World \<Rightarrow> Card result \<times> World" where
  "loadOrCreateCardData i s =
     (case CardIO_getCardData i s of
        (Returns p, s1) \<Rightarrow> (Returns \<lparr>cardInitializeType = Load, Card.prop' = p\<rparr>, s1)
      | (Throws err, s1) \<Rightarrow> (Throws err, s1)
      | (Pending, s1) \<Rightarrow> (Pending, s1))"

text \<open>
  The same in two halves: the call of \<open>loadOrCreateCardData\<close> requests the read, and the
  rest of it runs when the read is answered.
\<close>

definition loadOrCreateCardData_request :: "string \<Rightarrow> World \<Rightarrow> World" where
  "loadOrCreateCardData_request i s = CardIO_getCardData_request i s"

definition loadOrCreateCardData_answer :: "string \<Rightarrow> World \<Rightarrow> Card result \<times> World" where
  "loadOrCreateCardData_answer i s =
     (case CardIO_getCardData_answer i s of
        (Returns p, s1) \<Rightarrow> (Returns \<lparr>cardInitializeType = Load, Card.prop' = p\<rparr>, s1)
      | (Throws err, s1) \<Rightarrow> (Throws err, s1)
      | (Pending, s1) \<Rightarrow> (Pending, s1))"

text \<open>The constructor of Avatar: a new native window, all flags false.\<close>

definition new_Avatar :: "AvatarProp \<Rightarrow> World \<Rightarrow> Avatar \<times> World" where
  "new_Avatar p s =
     (\<lparr>Avatar.prop' = p, window = nextWindow s,
       suppressFocusEventOnce = False, suppressBlurEventOnce = False,
       recaptureGlobalFocusEventAfterLocalFocusEvent = False, renderingCompleted = False\<rparr>,
      emit (WindowCreated (nextWindow s)) (s\<lparr>nextWindow := Suc (nextWindow s)\<rparr>))"

text \<open>
  \<open>window.destroy()\<close>: the window is gone and emits \<open>closed\<close>, whose listener (set in the
  constructor of Avatar) deletes the entry of the avatar's own url.
\<close>

definition windowDestroy :: "Avatar \<Rightarrow> World \<Rightarrow> World" where
  "windowDestroy avatar s =
     (let s1 = emit (WindowDestroyed (window avatar)) (s\<lparr>destroyed := window avatar # destroyed s\<rparr>)
      in s1\<lparr>avatars := AList.delete (url (Avatar.prop' avatar)) (avatars s1)\<rparr>)"

text \<open>The handler \<^verbatim>\<open>finish-render-card\<close> of \<^verbatim>\<open>main.ts\<close>.\<close>

definition finishRenderCard :: "string \<Rightarrow> World \<Rightarrow> World" where
  "finishRenderCard u s =
     (case map_of (avatars s) u of
        None \<Rightarrow> s
      | Some avatar \<Rightarrow>
          s\<lparr>avatars := AList.update u (avatar\<lparr>renderingCompleted := True\<rparr>) (avatars s)\<rparr>)"

text \<open>
  \<open>Avatar.render\<close>: the window loads the shell, the renderer is sent \<open>render-card\<close>, and the
  promise is fulfilled once the renderer has acknowledged through \<open>finish-render-card\<close>. It
  is rejected when the load fails, and never settles when the renderer never answers: the
  whole handshake takes one answer of the outside world.
\<close>

definition render :: "Avatar \<Rightarrow> World \<Rightarrow> unit result \<times> World" where
  "render this s =
     (case nextOutcome (emit (WindowLoadURL (window this)) s) of
        (Rejects m, s1) \<Rightarrow> (Throws (Error (''Error in render(): '' @ m)), s1)
      | (NeverSettles, s1) \<Rightarrow> (Pending, s1)
      | (Fulfils, s1) \<Rightarrow>
          (Returns (),
           finishRenderCard (url (Avatar.prop' this)) (emit (Send (window this) ''render-card'') s1)))"

definition saveCard :: "CardProp \<Rightarrow> World \<Rightarrow> unit result \<times> World" where
  "saveCard cardProp s =
     (case CardIO_updateOrCreateCardData cardProp s of
        (Returns v, s1) \<Rightarrow> (Returns (), s1)
      | (Throws err, s1) \<Rightarrow> (Returns (), emit (ConsoleError (message err)) s1)
      | (Pending, s1) \<Rightarrow> (Pending, s1))"

text \<open>
  \<open>Promise.all\<close>: rejected with a rejection of its promises (the first of the array is
  taken), else pending while one is pending, else fulfilled.
\<close>

definition promiseAll :: "unit result list \<Rightarrow> unit result" where
  "promiseAll rs =
     (case [err. Throws err \<leftarrow> rs] of
        err # errs \<Rightarrow> Throws err
      | [] \<Rightarrow> (if Pending \<in> set rs then Pending else Returns ()))"

text \<open>
  The loop of \<open>createCard\<close> over the locations of the card. Each promise is run as it is
  made and its final state is kept in \<open>promises\<close>. \<^verbatim>\<open>getCurrentWorkspace()!\<close> throws a
  TypeError when there is no current workspace.
\<close>

fun createCard_loop ::
  "Env \<Rightarrow> string \<Rightarrow> string list \<Rightarrow> unit result list \<Rightarrow> World \<Rightarrow> (error + unit result list) \<times> World" where
  "createCard_loop e cardId [] promises s = (Inr promises, s)"
| "createCard_loop e cardId (loc # locs) promises s =
     (if strMatch e loc (currentWorkspaceUrl s)
      then (let avatarUrl = loc @ cardId;
                (avatar, s1) = new_Avatar (new_AvatarProp e avatarUrl (getCardData e avatarUrl s)
                                             (getAvatarProp e avatarUrl s)) s;
                s2 = s1\<lparr>avatars := AList.update avatarUrl avatar (avatars s1)\<rparr>;
                (r1, s3) = render avatar s2
            in case currentWorkspace s3 of
                 None \<Rightarrow> (Inl (TypeError ''Cannot read property avatars of undefined''), s3)
               | Some ws \<Rightarrow>
                   (let s4 = s3\<lparr>currentWorkspace := Some (ws @ [avatarUrl])\<rparr>;
                        (r2, s5) = CardIO_addAvatarUrl (currentWorkspaceId s4) avatarUrl s4
                    in createCard_loop e cardId locs (promises @ [r1, r2]) s5))
      else createCard_loop e cardId locs promises s)"

text \<open>The locations of a list that match the current workspace.\<close>

definition matching :: "Env \<Rightarrow> World \<Rightarrow> string list \<Rightarrow> string list" where
  "matching e s locs = filter (\<lambda>loc. strMatch e loc (currentWorkspaceUrl s)) locs"

text \<open>
  \<open>createCard\<close>. The hydration \<^verbatim>\<open>CardProp.fromObject\<close> is a parameter. The CardProp
  \<open>prop\<close> and \<open>card.prop\<close> are one object, so the id returned is the card's.
\<close>

definition createCard ::
  "Env \<Rightarrow> ('o \<Rightarrow> error + CardProp) \<Rightarrow> 'o \<Rightarrow> World \<Rightarrow> string result \<times> World" where
  "createCard e fromObject propObject s =
     (case fromObject propObject of
        Inl err \<Rightarrow> (Throws err, s)
      | Inr prop \<Rightarrow>
          (case new_Card_New e (OfCardProp prop) s of
             (Inl err, s0) \<Rightarrow> (Throws err, s0)
           | (Inr card', s0) \<Rightarrow>
               (let s1 = s0\<lparr>cards := AList.update (id' (Card.prop' card')) card' (cards s0)\<rparr>
                in case createCard_loop e (id' (Card.prop' card'))
                          (map fst (CardProp.avatars (Card.prop' card'))) [] s1 of
                     (Inl err, s2) \<Rightarrow> (Throws err, s2)
                   | (Inr promises, s2) \<Rightarrow>
                       (case promiseAll promises of
                          Pending \<Rightarrow> (Pending, s2)
                        | Throws err \<Rightarrow>
                            (case saveCard (Card.prop' card')
                                    (emit (ConsoleError (''Error in createCard: '' @ message err)) s2) of
                               (Returns v, s4) \<Rightarrow> (Returns (id' (Card.prop' card')), s4)
                             | (Throws err2, s4) \<Rightarrow> (Throws err2, s4)
                             | (Pending, s4) \<Rightarrow> (Pending, s4))
                        | Returns v \<Rightarrow>
                            (case saveCard (Card.prop' card') s2 of
                               (Returns v, s4) \<Rightarrow> (Returns (id' (Card.prop' card')), s4)
                             | (Throws err2, s4) \<Rightarrow> (Throws err2, s4)
                             | (Pending, s4) \<Rightarrow> (Pending, s4))))))"

text \<open>
  The loop of \<open>deleteCard\<close> over the keys of \<open>card.prop.avatars\<close>, which are locations: each
  key is looked up in the \<open>avatars\<close> registry as it is.
\<close>

fun deleteCard_loop :: "string list \<Rightarrow> World \<Rightarrow> World" where
  "deleteCard_loop [] s = s"
| "deleteCard_loop (key # keys) s =
     (case map_of (avatars s) key of
        None \<Rightarrow> deleteCard_loop keys s
      | Some avatar \<Rightarrow>
          deleteCard_loop keys
            (windowDestroy avatar (s\<lparr>avatars := AList.delete key (avatars s)\<rparr>)))"

text \<open>
  \<open>deleteCard\<close>. A failure of the persistence delete is wrapped by the first \<open>catch\<close> and
  again by the last one; the card leaves the registry only after a delete that succeeded.
\<close>

definition deleteCard :: "string \<Rightarrow> World \<Rightarrow> unit result \<times> World" where
  "deleteCard cardId s =
     (case map_of (cards s) cardId of
        None \<Rightarrow>
          (Returns (), emit (ConsoleError (''Error in deleteCard: card does not exist: '' @ cardId)) s)
      | Some card' \<Rightarrow>
          (let s1 = deleteCard_loop (map fst (CardProp.avatars (Card.prop' card'))) s
           in case CardIO_deleteCardData cardId s1 of
                (Throws err, s2) \<Rightarrow>
                  (Throws (Error (''Error in destroy window: '' @ ''Error in delete-card: '' @ message err)), s2)
              | (Pending, s2) \<Rightarrow> (Pending, s2)
              | (Returns v, s2) \<Rightarrow> (Returns (), s2\<lparr>cards := AList.delete cardId (cards s2)\<rparr>)))"

text \<open>
  \<open>deleteCardWithRetry\<close>: the loop \<^verbatim>\<open>for (let i = 0; i < 5; i++)\<close>. The \<open>catch\<close> logs
  the error and sets \<open>doRetry\<close>; \<open>sleep(1000)\<close> is the effect \<open>Sleep 1000\<close>.
\<close>

function deleteCardWithRetry_loop :: "nat \<Rightarrow> string \<Rightarrow> World \<Rightarrow> unit result \<times> World" where
  "deleteCardWithRetry_loop i cardId s =
     (if i < 5
      then (case deleteCard cardId s of
              (Returns v, s1) \<Rightarrow> (Returns (), s1)
            | (Throws err, s1) \<Rightarrow>
                deleteCardWithRetry_loop (Suc i) cardId
                  (emit (Sleep 1000) (emit (ConsoleError (message err)) s1))
            | (Pending, s1) \<Rightarrow> (Pending, s1))
      else (Returns (), s))"
  by pat_completeness auto
termination
  by (relation "measure (\<lambda>(i, cardId, s). 5 - i)") auto

definition deleteCardWithRetry :: "string \<Rightarrow> World \<Rightarrow> unit result \<times> World" where
  "deleteCardWithRetry cardId s = deleteCardWithRetry_loop 0 cardId s"

text \<open>
  What a run has done, read off its effects: the calls of \<open>CardIO.deleteCardData\<close> for a
  card, and the milliseconds slept.
\<close>

definition attempts :: "string \<Rightarrow> effect list \<Rightarrow> nat" where
  "attempts cardId es = length (filter (\<lambda>ev. ev = CardIO ''deleteCardData'' cardId) es)"

definition sleeps :: "effect list \<Rightarrow> nat list" where
  "sleeps es = [ms. Sleep ms \<leftarrow> es]"


text \<open>
  \<open>deleteAvatar\<close>. The rejection of \<open>CardIO.deleteAvatarUrl\<close> is not caught. The card found
  for the url is changed in place, in the registry entry it was read from.
\<close>

definition deleteAvatar_card :: "Env \<Rightarrow> string \<Rightarrow> World \<Rightarrow> unit result \<times> World" where
  "deleteAvatar_card e u s =
     (case getCardFromUrl e u s of
        None \<Rightarrow> (Returns (), s)
      | Some card' \<Rightarrow>
          (let card1 = card'\<lparr>Card.prop' := (Card.prop' card')
                        \<lparr>CardProp.avatars :=
                           AList.delete (getAvatarLocation e u) (CardProp.avatars (Card.prop' card'))\<rparr>\<rparr>;
               s1 = s\<lparr>cards := AList.update (getIdFromUrl e u) card1 (cards s)\<rparr>
           in saveCard (Card.prop' card1) s1))"

definition deleteAvatar :: "Env \<Rightarrow> string \<Rightarrow> World \<Rightarrow> unit result \<times> World" where
  "deleteAvatar e u s =
     (case map_of (avatars s) u of
        None \<Rightarrow> deleteAvatar_card e u s
      | Some avatar \<Rightarrow>
          (let s1 = windowDestroy avatar (s\<lparr>avatars := AList.delete u (avatars s)\<rparr>)
           in case CardIO_deleteAvatarUrl (currentWorkspaceId s1) u s1 of
                (Throws err, s2) \<Rightarrow> (Throws err, s2)
              | (Pending, s2) \<Rightarrow> (Pending, s2)
              | (Returns v, s2) \<Rightarrow>
                  deleteAvatar_card e u
                    (s2\<lparr>currentWorkspace :=
                          (case currentWorkspace s2 of
                             None \<Rightarrow> None
                           | Some ws \<Rightarrow> Some (filter (\<lambda>avatarUrl. avatarUrl \<noteq> u) ws))\<rparr>)))"

text \<open>\<open>updateAvatar\<close>. The hydration \<^verbatim>\<open>AvatarProp.fromObject\<close> is a parameter.\<close>

definition updateAvatar ::
  "Env \<Rightarrow> ('o \<Rightarrow> error + AvatarProp) \<Rightarrow> 'o \<Rightarrow> World \<Rightarrow> unit result \<times> World" where
  "updateAvatar e fromObject avatarPropObj s =
     (case fromObject avatarPropObj of
        Inl err \<Rightarrow> (Throws err, s)
      | Inr prop \<Rightarrow>
          (case getCardFromUrl e (url prop) s of
             None \<Rightarrow> (Throws (Error (''The card is not registered in cards: '' @ url prop)), s)
           | Some card' \<Rightarrow>
               (let feature = \<lparr>geometry = geometry prop, style = style prop,
                               condition = condition prop, date = date prop\<rparr>;
                    card1 = card'\<lparr>Card.prop' := (Card.prop' card')
                              \<lparr>CardProp.data := AvatarProp.data prop,
                               CardProp.avatars :=
                                 AList.update (getAvatarLocation e (url prop)) feature
                                   (CardProp.avatars (Card.prop' card'))\<rparr>\<rparr>;
                    s1 = s\<lparr>cards := AList.update (getIdFromUrl e (url prop)) card1 (cards s)\<rparr>
                in saveCard (Card.prop' card1) s1)))"

section \<open>Z order\<close>

text \<open>
  \<^verbatim>\<open>[...avatars.keys()].sort(...)\<close> compares two keys by the \<open>geometry.z\<close> of their
  avatars. A Map holds one avatar per key, so the entries are sorted here; the sort of an
  array is stable, as the insertion sort \<open>sort_key\<close> is.
\<close>

definition zOf :: "string \<times> Avatar \<Rightarrow> int" where
  "zOf entry = z' (geometry (Avatar.prop' (snd entry)))"

definition backToFront :: "World \<Rightarrow> (string \<times> Avatar) list" where
  "backToFront s = sort_key zOf (avatars s)"

text \<open>
  \<open>geometry.z\<close> is a JavaScript number, an IEEE 754 double with a significand of 53 bits;
  the model keeps it as an integer. \<open>toNumber n\<close> is the number that the arithmetic of
  JavaScript gives when the exact result is the integer \<open>n\<close>: the multiple of \<open>ulp\<close>, the
  spacing of the doubles at the magnitude of \<open>n\<close>, that is nearest to \<open>n\<close>, a tie going to
  the even multiple. Up to the magnitude 2^53 every integer is a double, and
  \<^verbatim>\<open>Number.isSafeInteger\<close> holds below it. The overflow to \<^verbatim>\<open>Infinity\<close>, from the
  magnitude 2^1024 on, is not modelled.
\<close>

function ulp :: "int \<Rightarrow> int" where
  "ulp a = (if a < 2 ^ 53 then 1 else 2 * ulp (a div 2))"
  by pat_completeness auto
termination
  by (relation "measure nat") auto

definition toNumber :: "int \<Rightarrow> int" where
  "toNumber n =
     (let q = ulp (abs n); d = abs n div q; r = abs n mod q
      in sgn n * ((if 2 * r < q \<or> (2 * r = q \<and> even d) then d else d + 1) * q))"

definition isSafeInteger :: "int \<Rightarrow> bool" where
  "isSafeInteger n = (abs n \<le> 2 ^ 53 - 1)"

text \<open>
  \<^verbatim>\<open>keys.splice(keys.indexOf(url), 1)\<close>: the first occurrence is removed; for an
  absent url \<open>indexOf\<close> is -1 and the last element is removed.
\<close>

definition spliceOut :: "string \<Rightarrow> string list \<Rightarrow> string list" where
  "spliceOut u keys = (if u \<in> set keys then remove1 u keys else butlast keys)"

text \<open>
  The loop that sets \<open>suppressFocusEventOnce\<close> on every avatar of the list and focuses its
  window. \<^verbatim>\<open>avatars.get(key)!\<close> throws a TypeError for an absent key.
\<close>

fun focusAll :: "string list \<Rightarrow> World \<Rightarrow> (error + unit) \<times> World" where
  "focusAll [] s = (Inr (), s)"
| "focusAll (key # keys) s =
     (case map_of (avatars s) key of
        None \<Rightarrow> (Inl (TypeError ''Cannot set property suppressFocusEventOnce of undefined''), s)
      | Some avatar \<Rightarrow>
          focusAll keys
            (emit (WindowFocus (window avatar))
               (s\<lparr>avatars := AList.update key (avatar\<lparr>suppressFocusEventOnce := True\<rparr>) (avatars s)\<rparr>)))"

text \<open>The handlers \<^verbatim>\<open>bring-to-front\<close> and \<^verbatim>\<open>send-to-back\<close> of \<^verbatim>\<open>main.ts\<close>.\<close>

definition bringToFront :: "string \<Rightarrow> bool \<Rightarrow> World \<Rightarrow> (error + int option) \<times> World" where
  "bringToFront u rearrange s =
     (case map_of (avatars s) u of
        None \<Rightarrow> (Inr None, s)
      | Some avatar \<Rightarrow>
          (case backToFront s of
             [] \<Rightarrow> (Inl (TypeError ''Cannot read property prop of undefined''), s)
           | entry # entries \<Rightarrow>
               (let newZ = toNumber (zOf (last (entry # entries)) + 1);
                    keys = spliceOut u (map fst (entry # entries)) @ [u]
                in if rearrange
                   then (case focusAll keys s of
                           (Inl err, s1) \<Rightarrow> (Inl err, s1)
                         | (Inr v, s1) \<Rightarrow> (Inr (Some newZ), s1))
                   else (Inr (Some newZ), s))))"

definition sendToBack :: "string \<Rightarrow> World \<Rightarrow> (error + int option) \<times> World" where
  "sendToBack u s =
     (case map_of (avatars s) u of
        None \<Rightarrow> (Inr None, s)
      | Some avatar \<Rightarrow>
          (case backToFront s of
             [] \<Rightarrow> (Inl (TypeError ''Cannot read property prop of undefined''), s)
           | entry # entries \<Rightarrow>
               (let newZ = toNumber (zOf entry - 1);
                    keys = u # spliceOut u (map fst (entry # entries))
                in case focusAll keys s of
                     (Inl err, s1) \<Rightarrow> (Inl err, s1)
                   | (Inr v, s1) \<Rightarrow> (Inr (Some newZ), s1))))"

section \<open>Startup\<close>

text \<open>\<^verbatim>\<open>[...new Set(ids)]\<close>: a Set keeps the first insertion of each value, in order.\<close>

definition unique :: "string list \<Rightarrow> string list" where
  "unique vs = fold (\<lambda>v acc. if v \<in> set acc then acc else acc @ [v]) vs []"

text \<open>
  The branch of \<open>ready\<close> for an empty list: a new default card, one avatar url per
  location of it. \<open>loadOrCreateCardData\<close> of a \<open>New\<close> card is \<^verbatim>\<open>Promise.resolve()\<close> and
  has no effect. \<open>CardIO.addAvatarUrl\<close> is not awaited there and its promise is dropped.
\<close>

fun ready_newCard_loop ::
  "string \<Rightarrow> string list \<Rightarrow> string list \<Rightarrow> World \<Rightarrow> (error + string list) \<times> World" where
  "ready_newCard_loop cardId [] avatarIdArray s = (Inr avatarIdArray, s)"
| "ready_newCard_loop cardId (loc # locs) avatarIdArray s =
     (case currentWorkspace s of
        None \<Rightarrow> (Inl (TypeError ''Cannot read property avatars of undefined''), s)
      | Some ws \<Rightarrow>
          (let s1 = s\<lparr>currentWorkspace := Some (ws @ [loc @ cardId])\<rparr>;
               (r, s2) = CardIO_addAvatarUrl (currentWorkspaceId s1) (loc @ cardId) s1
           in ready_newCard_loop cardId locs (avatarIdArray @ [loc @ cardId]) s2))"

definition ready_newCard :: "Env \<Rightarrow> World \<Rightarrow> string list result \<times> World" where
  "ready_newCard e s =
     (case new_Card_New e Undefined s of
        (Inl err, s1) \<Rightarrow> (Throws err, s1)
      | (Inr card', s1) \<Rightarrow>
          (case ready_newCard_loop (id' (Card.prop' card'))
                  (map fst (CardProp.avatars (Card.prop' card'))) [] s1 of
             (Inl err, s2) \<Rightarrow> (Throws err, s2)
           | (Inr avatarIdArray, s2) \<Rightarrow>
               (case CardIO_updateOrCreateCardData (Card.prop' card')
                       (s2\<lparr>cards := AList.update (id' (Card.prop' card')) card' (cards s2)\<rparr>) of
                  (Returns v, s3) \<Rightarrow> (Returns avatarIdArray, s3)
                | (Throws err, s3) \<Rightarrow> (Returns avatarIdArray, emit (ConsoleError (message err)) s3)
                | (Pending, s3) \<Rightarrow> (Pending, s3))))"

text \<open>
  The branch for a non-empty list: one \<open>Load\<close> card per unique id.
  \<^verbatim>\<open>loadCard(new Card('Load', id))\<close> runs up to its \<open>await\<close>: the array of loaders is made
  with every read requested, in the order of the ids, and none answered yet. A loader is
  kept as the id that it reads.
\<close>

fun ready_loaders ::
  "string list \<Rightarrow> string list \<Rightarrow> World \<Rightarrow> (error + string list) \<times> World" where
  "ready_loaders [] loaders s = (Inr loaders, s)"
| "ready_loaders (cardId # cardIds) loaders s =
     (case new_Card_Load (OfString cardId) of
        Inl err \<Rightarrow> (Inl err, s)
      | Inr i \<Rightarrow> ready_loaders cardIds (loaders @ [i]) (loadOrCreateCardData_request i s))"

text \<open>The rest of \<open>loadCard\<close>, once the read of the card is answered.\<close>

definition loadCard_answer :: "string \<Rightarrow> World \<Rightarrow> unit result \<times> World" where
  "loadCard_answer i s =
     (case loadOrCreateCardData_answer i s of
        (Returns card', s1) \<Rightarrow>
          (Returns (), s1\<lparr>cards := AList.update (id' (Card.prop' card')) card' (cards s1)\<rparr>)
      | (Throws err, s1) \<Rightarrow> (Throws err, s1)
      | (Pending, s1) \<Rightarrow> (Pending, s1))"

text \<open>
  \<^verbatim>\<open>Promise.all(loaders)\<close>. The reads are answered in the order of their requests, each in
  a turn of its own. The first loader that is rejected rejects \<open>Promise.all\<close> at once, and
  the loaders after it are still in flight then: they are returned with the result. A
  loader that never settles (\<open>stuck\<close>) leaves \<open>Promise.all\<close> pending unless a later one is
  rejected.
\<close>

fun promiseAll_loaders ::
  "string list \<Rightarrow> bool \<Rightarrow> World \<Rightarrow> (unit result \<times> string list) \<times> World" where
  "promiseAll_loaders [] stuck s = ((if stuck then Pending else Returns (), []), s)"
| "promiseAll_loaders (i # loaders) stuck s =
     (case loadCard_answer i s of
        (Returns v, s1) \<Rightarrow> promiseAll_loaders loaders stuck s1
      | (Throws err, s1) \<Rightarrow> ((Throws err, loaders), s1)
      | (Pending, s1) \<Rightarrow> promiseAll_loaders loaders True s1)"

text \<open>
  The loaders in flight after \<open>Promise.all\<close> was rejected: each registers its card when its
  read is answered, and a rejection among them is dropped.
\<close>

fun lateLoaders :: "string list \<Rightarrow> World \<Rightarrow> World" where
  "lateLoaders [] s = s"
| "lateLoaders (i # loaders) s = lateLoaders loaders (snd (loadCard_answer i s))"

text \<open>
  The branch itself: the urls to go on with, and the loaders that are in flight when the
  listener goes on.
\<close>

definition ready_loadCards ::
  "Env \<Rightarrow> string list \<Rightarrow> World \<Rightarrow> (string list result \<times> string list) \<times> World" where
  "ready_loadCards e avatarIdArray s =
     (case ready_loaders (unique (map (getIdFromUrl e) avatarIdArray)) [] s of
        (Inl err, s1) \<Rightarrow> ((Throws err, []), s1)
      | (Inr loaders, s1) \<Rightarrow>
          (case promiseAll_loaders loaders False s1 of
             ((Pending, inflight), s2) \<Rightarrow> ((Pending, inflight), s2)
           | ((Throws err, inflight), s2) \<Rightarrow>
               ((Returns avatarIdArray, inflight),
                emit (ConsoleError (''Error while loading cards in ready event: '' @ message err)) s2)
           | ((Returns v, inflight), s2) \<Rightarrow> ((Returns avatarIdArray, inflight), s2)))"

text \<open>One Avatar per url of the list, registered under its url.\<close>

fun ready_avatars :: "Env \<Rightarrow> string list \<Rightarrow> World \<Rightarrow> World" where
  "ready_avatars e [] s = s"
| "ready_avatars e (avatarUrl # avatarUrls) s =
     (let (avatar, s1) = new_Avatar (new_AvatarProp e avatarUrl (getCardData e avatarUrl s)
                                      (getAvatarProp e avatarUrl s)) s
      in ready_avatars e avatarUrls (s1\<lparr>avatars := AList.update avatarUrl avatar (avatars s1)\<rparr>))"

fun ready_renderers :: "Avatar list \<Rightarrow> unit result list \<Rightarrow> World \<Rightarrow> unit result list \<times> World" where
  "ready_renderers [] renderers s = (renderers, s)"
| "ready_renderers (avatar # rest) renderers s =
     (let (r, s1) = render avatar s
      in ready_renderers rest (renderers @ [r]) s1)"

fun ready_moveTop :: "string list \<Rightarrow> World \<Rightarrow> World" where
  "ready_moveTop [] s = s"
| "ready_moveTop (key # keys) s =
     (case map_of (avatars s) key of
        None \<Rightarrow> ready_moveTop keys s
      | Some avatar \<Rightarrow>
          (if window avatar \<in> set (destroyed s)
           then ready_moveTop keys s
           else ready_moveTop keys (emit (WindowMoveTop (window avatar)) s)))"

text \<open>
  The rest of the listener: the avatars, their renders, and the windows raised back to
  front. The loaders in flight are answered while the listener awaits the renders, whose
  requests came after theirs; they emit nothing and touch no avatar, so they are run here
  right after the avatars are made.
\<close>

definition ready_windows ::
  "Env \<Rightarrow> string list \<Rightarrow> string list \<Rightarrow> World \<Rightarrow> unit result \<times> World" where
  "ready_windows e avatarIdArray inflight s =
     (let s1 = lateLoaders inflight (ready_avatars e avatarIdArray s);
          (renderers, s2) = ready_renderers (map snd (avatars s1)) [] s1
      in case promiseAll renderers of
           Pending \<Rightarrow> (Pending, s2)
         | Throws err \<Rightarrow>
             (let s3 = emit (ConsoleError (''Error while rendering cards in ready event: '' @ message err)) s2
              in (Returns (), ready_moveTop (map fst (backToFront s3)) s3))
         | Returns v \<Rightarrow> (Returns (), ready_moveTop (map fst (backToFront s2)) s2))"

definition ready_from :: "Env \<Rightarrow> string list \<Rightarrow> World \<Rightarrow> unit result \<times> World" where
  "ready_from e avatarIdArray s =
     (case (if avatarIdArray = []
            then (case ready_newCard e s of (r, s1) \<Rightarrow> ((r, []), s1))
            else ready_loadCards e avatarIdArray s) of
        ((Returns urls, inflight), s1) \<Rightarrow> ready_windows e urls inflight s1
      | ((Throws err, inflight), s1) \<Rightarrow> (Throws err, s1)
      | ((Pending, inflight), s1) \<Rightarrow> (Pending, s1))"

text \<open>
  The listener of \<^verbatim>\<open>app.on('ready')\<close> in \<^verbatim>\<open>main.ts\<close>, from the load of the list of
  avatar urls on. The global store, the settings window and the task tray are not modelled.
\<close>

definition ready :: "Env \<Rightarrow> World \<Rightarrow> unit result \<times> World" where
  "ready e s =
     (case CardIO_getAvatarUrlList (currentWorkspaceId s) s of
        (Returns avatarIdArray, s1) \<Rightarrow> ready_from e avatarIdArray s1
      | (Throws err, s1) \<Rightarrow>
          ready_from e [] (emit (ConsoleError (''Cannot load a list of cards: '' @ message err)) s1)
      | (Pending, s1) \<Rightarrow> (Pending, s1))"

text \<open>
  What a run of \<open>ready\<close> has done, read off its effects: the card ids read from the
  persistence layer, the windows created, and the windows raised, each in order.
\<close>

definition reads :: "effect list \<Rightarrow> string list" where
  "reads es = [i. CardIO c i \<leftarrow> es, c = ''getCardData'']"

definition created :: "effect list \<Rightarrow> nat list" where
  "created es = [w. WindowCreated w \<leftarrow> es]"

definition raised :: "effect list \<Rightarrow> nat list" where
  "raised es = [w. WindowMoveTop w \<leftarrow> es]"

text \<open>
  The state at launch: both registries are empty and no window has been destroyed; here
  also with a current workspace and an outside world that fulfils every request.
\<close>

definition atLaunch :: "World \<Rightarrow> bool" where
  "atLaunch s = (cards s = [] \<and> avatars s = [] \<and> destroyed s = [] \<and> outcomes s = [] \<and>
                 currentWorkspace s \<noteq> None)"

text \<open>
  Every url on the placement list of the current workspace has the record of its card in
  the store, under the id of the card.
\<close>

definition recorded :: "Env \<Rightarrow> World \<Rightarrow> bool" where
  "recorded e s =
     (\<forall>u \<in> set (urlList (currentWorkspaceId s) s).
        case map_of (cardStore s) (getIdFromUrl e u) of
          None \<Rightarrow> False
        | Some p \<Rightarrow> id' p = getIdFromUrl e u)"

section \<open>A concrete state\<close>

text \<open>
  Modelled from the spec: a url decomposition for the concrete states below, since
  \<^verbatim>\<open>getIdFromUrl\<close> and \<^verbatim>\<open>getAvatarLocation\<close> of \<^verbatim>\<open>modules_common/cardprop\<close> are not
  among the sources. The spec's glossary has a location-url as placement prefix followed by
  card id, and its scenario has the location \<^verbatim>\<open>loc1/\<close>: the id is taken to be what follows
  the last slash, the location what comes up to it.
\<close>

definition idAfterLastSlash :: "string \<Rightarrow> string" where
  "idAfterLastSlash u = rev (takeWhile (\<lambda>c. c \<noteq> CHR ''/'') (rev u))"

definition prefixToLastSlash :: "string \<Rightarrow> string" where
  "prefixToLastSlash u = rev (dropWhile (\<lambda>c. c \<noteq> CHR ''/'') (rev u))"

definition exampleFeature :: "int \<Rightarrow> TransformableFeature" where
  "exampleFeature zv =
     \<lparr>geometry = \<lparr>x' = 70, y' = 70, z' = zv, width = 300, height = 300\<rparr>,
      style = \<lparr>uiColor = ''#f5f5a0'', backgroundColor = ''#ffffa0'', opacity = 1\<rparr>,
      condition = \<lparr>locked = False\<rparr>,
      date = \<lparr>createdDate = ''2020-08-01 10:00:00'', modifiedDate = ''2020-08-01 10:00:00''\<rparr>\<rparr>"

definition exampleEnv :: Env where
  "exampleEnv =
     \<lparr>getIdFromUrl = idAfterLastSlash, getAvatarLocation = prefixToLastSlash,
      strMatch = (\<lambda>loc ws. take (length ws) loc = ws),
      defaultAvatars = [(''ws1/'', exampleFeature 0)],
      defaultFeature = exampleFeature 0\<rparr>"

definition exampleCardProp :: CardProp where
  "exampleCardProp =
     \<lparr>id' = ''c1'', CardProp.data = ''hello'',
      CardProp.avatars = [(''ws1/'', exampleFeature 1), (''ws2/'', exampleFeature 2)]\<rparr>"

definition exampleCard :: Card where
  "exampleCard = \<lparr>cardInitializeType = Load, Card.prop' = exampleCardProp\<rparr>"

definition exampleAvatar :: "string \<Rightarrow> int \<Rightarrow> nat \<Rightarrow> Avatar" where
  "exampleAvatar u zv w =
     \<lparr>Avatar.prop' = new_AvatarProp exampleEnv u (Some ''hello'') (Some (exampleFeature zv)),
      window = w, suppressFocusEventOnce = False, suppressBlurEventOnce = False,
      recaptureGlobalFocusEventAfterLocalFocusEvent = False, renderingCompleted = True\<rparr>"

text \<open>
  One card \<open>c1\<close> with the placements \<open>ws1/\<close> and \<open>ws2/\<close>, both registered as avatars, in
  the workspace \<open>ws1/\<close>; the card is persisted; the outside world fulfils every request.
\<close>

definition exampleWorld :: World where
  "exampleWorld =
     \<lparr>cards = [(''c1'', exampleCard)],
      avatars = [(''ws1/c1'', exampleAvatar ''ws1/c1'' 1 0), (''ws2/c1'', exampleAvatar ''ws2/c1'' 2 1)],
      globalFocusListenerPermission = True,
      currentWorkspaceId = ''1'',
      currentWorkspaceUrl = ''ws1/'',
      currentWorkspace = Some [''ws1/c1'', ''ws2/c1''],
      cardStore = [(''c1'', exampleCardProp)],
      avatarUrlStore = [(''1'', [''ws1/c1'', ''ws2/c1''])],
      outcomes = [],
      uuidSource = (\<lambda>n. ''0f8fad5b-d9cb-469f-a165-70867728950e''),
      uuidCount = 0,
      nextWindow = 2,
      destroyed = [],
      effects = []\<rparr>"

text \<open>An avatar with both suppression flags set, alone in the registry.\<close>

definition suppressedAvatar :: Avatar where
  "suppressedAvatar =
     (exampleAvatar ''ws1/c1'' 1 0)\<lparr>suppressFocusEventOnce := True, suppressBlurEventOnce := True\<rparr>"

definition suppressedWorld :: World where
  "suppressedWorld = exampleWorld\<lparr>avatars := [(''ws1/c1'', suppressedAvatar)]\<rparr>"

text \<open>The concrete state with a persistence layer that rejects the next five requests.\<close>

definition failingWorld :: World where
  "failingWorld = exampleWorld\<lparr>outcomes := replicate 5 (Rejects ''EIO'')\<rparr>"

text \<open>The concrete state with a persistence layer that rejects the next request only.\<close>

definition retryWorld :: World where
  "retryWorld = exampleWorld\<lparr>outcomes := [Rejects ''EIO'']\<rparr>"

text \<open>The concrete state without the record of the card \<open>c1\<close>, which is still registered.\<close>

definition noRecordWorld :: World where
  "noRecordWorld = exampleWorld\<lparr>cardStore := []\<rparr>"

text \<open>An AvatarProp for the placement \<open>ws1/\<close> of \<open>c1\<close>, with new content and a new z.\<close>

definition editedAvatarProp :: AvatarProp where
  "editedAvatarProp = new_AvatarProp exampleEnv ''ws1/c1'' (Some ''edited'') (Some (exampleFeature 7))"

text \<open>
  The concrete state with a window whose load fails: the first request (the render of the
  new avatar) is rejected, the next two are fulfilled.
\<close>

definition renderFailsWorld :: World where
  "renderFailsWorld = exampleWorld\<lparr>outcomes := [Rejects ''ERR_FAILED'', Fulfils, Fulfils]\<rparr>"

text \<open>
  The concrete state in which both requests for the new avatar are rejected, the render
  and the addition to the placement list, and the write of the card is fulfilled.
\<close>

definition bothFailWorld :: World where
  "bothFailWorld = exampleWorld\<lparr>outcomes := [Rejects ''ERR_FAILED'', Rejects ''EIO'', Fulfils]\<rparr>"



text \<open>
  A launch state whose placement list names a card \<open>c9\<close> that has no record, before the
  placement of \<open>c1\<close>.
\<close>

definition missingRecordWorld :: World where
  "missingRecordWorld =
     exampleWorld\<lparr>cards := [], avatars := [], nextWindow := 0,
                  avatarUrlStore := [(''1'', [''ws1/c9'', ''ws1/c1''])]\<rparr>"

section \<open>Focus suppression\<close>

lemmas focus_defs = focusListener_def blurListener_def since_def emit_def
  setGlobalFocusEventListenerPermission_def getGlobalFocusEventListenerPermission_def

lemma focusListener_flags:
  "\<not> recaptureGlobalFocusEventAfterLocalFocusEvent (fst (focusListener a s)) \<and>
   \<not> suppressFocusEventOnce (fst (focusListener a s))"
  by (simp add: focusListener_def Let_def)

lemma blurListener_flag: "\<not> suppressBlurEventOnce (fst (blurListener a s))"
  by (simp add: blurListener_def)

lemma blur_twice:
  assumes "suppressBlurEventOnce a"
  shows "since s (snd (blurListener a s)) = [] \<and>
     since (snd (blurListener a s)) (snd (blurListener (fst (blurListener a s)) (snd (blurListener a s))))
       = [Send (window a) ''card-blurred'']"
  using assms by (simp add: focus_defs)

lemma focus_twice:
  assumes "suppressFocusEventOnce a"
  shows "since s (snd (focusListener a s)) = [] \<and>
     since (snd (focusListener a s)) (snd (focusListener (fst (focusListener a s)) (snd (focusListener a s))))
       = (if globalFocusListenerPermission (snd (focusListener a s))
          then [Send (window a) ''card-focused''] else [])"
  using assms by (simp add: focus_defs Let_def)

lemma handler_scenario:
  assumes "map_of (avatars s) u = Some a"
  shows "let s1 = blurAndFocusWithSuppressEvents u s; s2 = blurEvent u s1; s3 = focusEvent u s2;
             s4 = blurEvent u s3; s5 = focusEvent u s4
    in since s1 s3 = [] \<and> globalFocusListenerPermission s3 \<and>
       since s3 s5 = [Send (window a) ''card-blurred'', Send (window a) ''card-focused'']"
  using assms
  by (simp add: Let_def blurAndFocusWithSuppressEvents_def blurEvent_def focusEvent_def
      update_conv' focus_defs)

text \<open>
  Claim C3. Whatever the flags were, after the focus listener has run
  \<open>recaptureGlobalFocusEventAfterLocalFocusEvent\<close> and \<open>suppressFocusEventOnce\<close> are false, and
  after the blur listener has run \<open>suppressBlurEventOnce\<close> is false. With
  \<open>suppressBlurEventOnce\<close> set, the first blur event sends nothing and the second sends
  \<open>card-blurred\<close>. With \<open>suppressFocusEventOnce\<close> set, the first focus event sends nothing and
  the second is handled as any focus event is: it sends \<open>card-focused\<close> when the global
  permission holds then. After the handler \<open>blur-and-focus-with-suppress-events\<close> for a
  registered avatar, the blur and the focus event it causes send nothing and leave the
  global permission on, and the next blur and focus events are sent to the renderer.
\<close>

theorem once_flags_suppress_one_event:
  "\<not> recaptureGlobalFocusEventAfterLocalFocusEvent (fst (focusListener a s)) \<and>
   \<not> suppressFocusEventOnce (fst (focusListener a s)) \<and>
   \<not> suppressBlurEventOnce (fst (blurListener a s)) \<and>
   (suppressBlurEventOnce a \<longrightarrow>
      since s (snd (blurListener a s)) = [] \<and>
      since (snd (blurListener a s))
            (snd (blurListener (fst (blurListener a s)) (snd (blurListener a s))))
        = [Send (window a) ''card-blurred'']) \<and>
   (suppressFocusEventOnce a \<longrightarrow>
      since s (snd (focusListener a s)) = [] \<and>
      since (snd (focusListener a s))
            (snd (focusListener (fst (focusListener a s)) (snd (focusListener a s))))
        = (if globalFocusListenerPermission (snd (focusListener a s))
           then [Send (window a) ''card-focused''] else [])) \<and>
   (map_of (avatars s) u = Some a \<longrightarrow>
      (let s1 = blurAndFocusWithSuppressEvents u s; s2 = blurEvent u s1; s3 = focusEvent u s2;
           s4 = blurEvent u s3; s5 = focusEvent u s4
       in since s1 s3 = [] \<and> globalFocusListenerPermission s3 \<and>
          since s3 s5 = [Send (window a) ''card-blurred'', Send (window a) ''card-focused'']))"
  using focusListener_flags [of a s] blurListener_flag [of a s] blur_twice [of a s]
    focus_twice [of a s] handler_scenario [of s u a]
  by blast

lemmas example_defs = exampleWorld_def exampleAvatar_def exampleCard_def exampleCardProp_def
  exampleEnv_def exampleFeature_def new_AvatarProp_def

text \<open>The statement of C3 at the avatar with both flags set.\<close>

theorem once_flags_suppress_one_event_witness:
  "suppressBlurEventOnce suppressedAvatar \<and> suppressFocusEventOnce suppressedAvatar \<and>
   map_of (avatars suppressedWorld) ''ws1/c1'' = Some suppressedAvatar \<and>
   since suppressedWorld (snd (blurListener suppressedAvatar suppressedWorld)) = [] \<and>
   since (snd (blurListener suppressedAvatar suppressedWorld))
     (snd (blurListener (fst (blurListener suppressedAvatar suppressedWorld))
                        (snd (blurListener suppressedAvatar suppressedWorld))))
     = [Send 0 ''card-blurred''] \<and>
   since (snd (focusListener suppressedAvatar suppressedWorld))
     (snd (focusListener (fst (focusListener suppressedAvatar suppressedWorld))
                        (snd (focusListener suppressedAvatar suppressedWorld))))
     = [Send 0 ''card-focused''] \<and>
   since (focusEvent ''ws1/c1'' (blurEvent ''ws1/c1'' (blurAndFocusWithSuppressEvents ''ws1/c1'' suppressedWorld)))
     (focusEvent ''ws1/c1'' (blurEvent ''ws1/c1'' (focusEvent ''ws1/c1'' (blurEvent ''ws1/c1''
        (blurAndFocusWithSuppressEvents ''ws1/c1'' suppressedWorld)))))
     = [Send 0 ''card-blurred'', Send 0 ''card-focused'']"
proof -
  have b: "suppressBlurEventOnce suppressedAvatar" and f: "suppressFocusEventOnce suppressedAvatar"
    by (simp_all add: suppressedAvatar_def)
  have m: "map_of (avatars suppressedWorld) ''ws1/c1'' = Some suppressedAvatar"
    by (simp add: suppressedWorld_def)
  have w: "window suppressedAvatar = 0"
    by (simp add: suppressedAvatar_def exampleAvatar_def)
  have g: "globalFocusListenerPermission (snd (focusListener suppressedAvatar suppressedWorld))"
    by (simp add: focus_defs Let_def suppressedAvatar_def suppressedWorld_def exampleWorld_def)
  show ?thesis
    using once_flags_suppress_one_event [of suppressedAvatar suppressedWorld "''ws1/c1''"] b f m w g
    by (simp add: Let_def)
qed

text \<open>
  Claim C9 as it is written: for every avatar with \<open>suppressBlurEventOnce\<close> false and the
  global permission off, the blur listener sends \<open>card-blurred\<close> and the focus listener
  sends nothing. It fails for an avatar whose
  \<open>recaptureGlobalFocusEventAfterLocalFocusEvent\<close> is set: its focus listener turns the
  permission on again and sends \<open>card-focused\<close>.
\<close>

theorem blur_ungated_counterexample:
  "\<not> (\<forall>a s. \<not> suppressBlurEventOnce a \<and> \<not> globalFocusListenerPermission s \<longrightarrow>
         since s (snd (blurListener a s)) = [Send (window a) ''card-blurred''] \<and>
         since s (snd (focusListener a s)) = [])"
proof
  assume h: "\<forall>a s. \<not> suppressBlurEventOnce a \<and> \<not> globalFocusListenerPermission s \<longrightarrow>
         since s (snd (blurListener a s)) = [Send (window a) ''card-blurred''] \<and>
         since s (snd (focusListener a s)) = []"
  let ?a = "(exampleAvatar ''ws1/c1'' 1 0)\<lparr>recaptureGlobalFocusEventAfterLocalFocusEvent := True\<rparr>"
  let ?s = "exampleWorld\<lparr>globalFocusListenerPermission := False\<rparr>"
  have "since ?s (snd (focusListener ?a ?s)) = [Send 0 ''card-focused'']"
    by (simp add: focus_defs Let_def exampleAvatar_def)
  moreover have "since ?s (snd (focusListener ?a ?s)) = []"
    using h [rule_format, of ?a ?s] by (simp add: exampleAvatar_def)
  ultimately show False by simp
qed

text \<open>
  Claim C9, amended. With \<open>suppressBlurEventOnce\<close> false and the global permission off, the
  blur listener sends \<open>card-blurred\<close>; the focus listener sends nothing provided the avatar's
  \<open>recaptureGlobalFocusEventAfterLocalFocusEvent\<close> is false; when that flag is set and
  \<open>suppressFocusEventOnce\<close> is not, the focus listener turns the permission on and sends
  \<open>card-focused\<close>.
\<close>

theorem blur_ungated_focus_gated:
  assumes "\<not> suppressBlurEventOnce a" and "\<not> globalFocusListenerPermission s"
  shows "since s (snd (blurListener a s)) = [Send (window a) ''card-blurred''] \<and>
     (\<not> recaptureGlobalFocusEventAfterLocalFocusEvent a \<longrightarrow> since s (snd (focusListener a s)) = []) \<and>
     (recaptureGlobalFocusEventAfterLocalFocusEvent a \<and> \<not> suppressFocusEventOnce a \<longrightarrow>
        since s (snd (focusListener a s)) = [Send (window a) ''card-focused''] \<and>
        globalFocusListenerPermission (snd (focusListener a s)))"
  using assms by (simp add: focus_defs Let_def)

text \<open>The amended C9 at an avatar with no flag set, the permission off.\<close>

theorem blur_ungated_focus_gated_witness:
  "\<not> suppressBlurEventOnce (exampleAvatar ''ws1/c1'' 1 0) \<and>
   \<not> globalFocusListenerPermission (exampleWorld\<lparr>globalFocusListenerPermission := False\<rparr>) \<and>
   \<not> recaptureGlobalFocusEventAfterLocalFocusEvent (exampleAvatar ''ws1/c1'' 1 0) \<and>
   since (exampleWorld\<lparr>globalFocusListenerPermission := False\<rparr>)
     (snd (blurListener (exampleAvatar ''ws1/c1'' 1 0) (exampleWorld\<lparr>globalFocusListenerPermission := False\<rparr>)))
     = [Send 0 ''card-blurred''] \<and>
   since (exampleWorld\<lparr>globalFocusListenerPermission := False\<rparr>)
     (snd (focusListener (exampleAvatar ''ws1/c1'' 1 0) (exampleWorld\<lparr>globalFocusListenerPermission := False\<rparr>)))
     = []"
proof -
  have b: "\<not> suppressBlurEventOnce (exampleAvatar ''ws1/c1'' 1 0)"
    and r: "\<not> recaptureGlobalFocusEventAfterLocalFocusEvent (exampleAvatar ''ws1/c1'' 1 0)"
    and w: "window (exampleAvatar ''ws1/c1'' 1 0) = 0"
    by (simp_all add: exampleAvatar_def)
  have g: "\<not> globalFocusListenerPermission (exampleWorld\<lparr>globalFocusListenerPermission := False\<rparr>)"
    by simp
  show ?thesis
    using blur_ungated_focus_gated [OF b g] b r w g by simp
qed

section \<open>Z order requests\<close>
lemma sorted_last_Max:
  "sorted (map f xs) \<Longrightarrow> xs \<noteq> [] \<Longrightarrow> f (last xs) = Max (f ` set xs)"
proof (induction xs)
  case Nil
  then show ?case by simp
next
  case (Cons v vs)
  show ?case
  proof (cases "vs = []")
    case True
    then show ?thesis by simp
  next
    case False
    with Cons have ih: "f (last vs) = Max (f ` set vs)" by simp
    have "f v \<le> f (last vs)" using Cons.prems(1) False by simp
    with ih False show ?thesis by (simp add: max_def)
  qed
qed

lemma sorted_hd_Min:
  "sorted (map f (v # vs)) \<Longrightarrow> f v = Min (f ` set (v # vs))"
  by (intro Min_eqI [symmetric]) auto

lemma set_spliceOut: "set (spliceOut u keys) \<subseteq> set keys"
  using set_remove1_subset [of u keys] by (auto simp: spliceOut_def dest: in_set_butlastD)

lemma focusAll_registered:
  "set keys \<subseteq> fst ` set (avatars s) \<Longrightarrow> \<exists>t. focusAll keys s = (Inr (), t)"
proof (induction keys arbitrary: s)
  case Nil
  then show ?case by simp
next
  case (Cons key keys)
  then obtain avatar where a: "map_of (avatars s) key = Some avatar"
    by (metis list.set_intros(1) subsetD map_of_eq_None_iff not_Some_eq)
  let ?s = "emit (WindowFocus (window avatar))
     (s\<lparr>avatars := AList.update key (avatar\<lparr>suppressFocusEventOnce := True\<rparr>) (avatars s)\<rparr>)"
  have "set keys \<subseteq> fst ` set (avatars ?s)"
    using Cons.prems by (auto simp: emit_def dom_update)
  from Cons.IH [OF this] a show ?case by simp
qed

lemma map_of_registered: "map_of al k = Some v \<Longrightarrow> k \<in> fst ` set al"
  by (metis map_of_eq_None_iff option.distinct(1))

declare ulp.simps [simp del]

lemma ulp_small: "a < 2 ^ 53 \<Longrightarrow> ulp a = 1"
  by (simp add: ulp.simps [of a])

lemma toNumber_exact: "abs n \<le> 2 ^ 53 \<Longrightarrow> toNumber n = n"
proof (cases "abs n < 2 ^ 53")
  case True
  then show ?thesis by (simp add: toNumber_def ulp_small Let_def abs_sgn mult.commute)
next
  case False
  assume "abs n \<le> 2 ^ 53"
  with False have a: "abs n = 2 ^ 53" by simp
  have "ulp (2 ^ 53) = 2 * ulp (2 ^ 52)" by (subst ulp.simps) simp
  also have "ulp (2 ^ 52) = 1" by (rule ulp_small) simp
  finally have u: "ulp (2 ^ 53) = 2" by simp
  have "toNumber n = sgn n * 2 ^ 53" using u by (simp add: toNumber_def a Let_def)
  also have "\<dots> = sgn n * abs n" by (simp only: a)
  also have "\<dots> = n" by (simp add: abs_sgn mult.commute)
  finally show ?thesis .
qed

text \<open>Beyond the safe integers the sum is rounded: 2^53 + 1 is not a double.\<close>

lemma toNumber_rounds: "toNumber (2 ^ 53 + 1) = 2 ^ 53"
proof -
  have "ulp (2 ^ 53 + 1) = 2 * ulp (2 ^ 52)" by (subst ulp.simps) simp
  also have "ulp (2 ^ 52) = 1" by (rule ulp_small) simp
  finally have u: "ulp (2 ^ 53 + 1) = 2" by simp
  show ?thesis using u by (simp add: toNumber_def Let_def)
qed

lemma safe_plus_one: "isSafeInteger n \<Longrightarrow> toNumber (n + 1) = n + 1"
  by (intro toNumber_exact) (simp add: isSafeInteger_def)

lemma safe_minus_one: "isSafeInteger n \<Longrightarrow> toNumber (n - 1) = n - 1"
  by (intro toNumber_exact) (simp add: isSafeInteger_def)

text \<open>
  Claim C8. For a url registered in \<open>avatars\<close>, when the \<open>geometry.z\<close> of the registered
  avatars are safe integers: \<open>bring-to-front\<close> returns one more than the greatest
  \<open>geometry.z\<close> of the registered avatars (whether or not it rearranges), and
  \<open>send-to-back\<close> returns one less than the least. For an unregistered url both return
  undefined and change nothing.
\<close>

theorem z_order_requests:
  "(map_of (avatars s) u = Some a \<and> (\<forall>entry \<in> set (avatars s). isSafeInteger (zOf entry)) \<longrightarrow>
      fst (bringToFront u rearrange s) = Inr (Some (Max (zOf ` set (avatars s)) + 1)) \<and>
      fst (sendToBack u s) = Inr (Some (Min (zOf ` set (avatars s)) - 1))) \<and>
   (map_of (avatars s) u = None \<longrightarrow>
      bringToFront u rearrange s = (Inr None, s) \<and> sendToBack u s = (Inr None, s))"
proof (intro conjI impI; (elim conjE)?)
  assume a: "map_of (avatars s) u = Some a"
    and safe: "\<forall>entry \<in> set (avatars s). isSafeInteger (zOf entry)"
  then have reg: "u \<in> fst ` set (avatars s)" using map_of_registered by fast
  have "set (backToFront s) = set (avatars s)" by (simp add: backToFront_def)
  with reg have ne: "backToFront s \<noteq> []" by auto
  then obtain entry entries where b: "backToFront s = entry # entries" by (cases "backToFront s") auto
  have srt: "sorted (map zOf (entry # entries))"
    using sorted_sort_key [of zOf "avatars s"] unfolding backToFront_def [symmetric] b .
  have st: "set (entry # entries) = set (avatars s)"
    using set_sort [of zOf "avatars s"] unfolding backToFront_def [symmetric] b .
  have "zOf (last (entry # entries)) = Max (zOf ` set (entry # entries))"
    by (rule sorted_last_Max [OF srt]) simp
  then have mx: "zOf (last (entry # entries)) = Max (zOf ` set (avatars s))"
    by (simp only: st)
  have mn: "zOf entry = Min (zOf ` set (avatars s))"
    using sorted_hd_Min [OF srt] by (simp only: st)
  have "last (entry # entries) \<in> set (entry # entries)" by (rule last_in_set) simp
  then have "isSafeInteger (zOf (last (entry # entries)))" using safe st by blast
  then have up: "toNumber (zOf (last (entry # entries)) + 1) = Max (zOf ` set (avatars s)) + 1"
    using safe_plus_one mx by simp
  have "entry \<in> set (avatars s)" using st by auto
  then have "isSafeInteger (zOf entry)" using safe by blast
  then have dn: "toNumber (zOf entry - 1) = Min (zOf ` set (avatars s)) - 1"
    using safe_minus_one mn by simp
  have keys: "fst ` set (entry # entries) = fst ` set (avatars s)" using st by simp
  have "set (spliceOut u (map fst (entry # entries)) @ [u]) \<subseteq> fst ` set (avatars s)"
    using set_spliceOut [of u "map fst (entry # entries)"] reg keys by auto
  from focusAll_registered [OF this] obtain t where
    f1: "focusAll (spliceOut u (map fst (entry # entries)) @ [u]) s = (Inr (), t)" by blast
  have "set (u # spliceOut u (map fst (entry # entries))) \<subseteq> fst ` set (avatars s)"
    using set_spliceOut [of u "map fst (entry # entries)"] reg keys by auto
  from focusAll_registered [OF this] obtain t' where
    f2: "focusAll (u # spliceOut u (map fst (entry # entries))) s = (Inr (), t')" by blast
  show "fst (bringToFront u rearrange s) = Inr (Some (Max (zOf ` set (avatars s)) + 1))"
    using a b f1 up by (simp add: bringToFront_def Let_def del: focusAll.simps last.simps)
  show "fst (sendToBack u s) = Inr (Some (Min (zOf ` set (avatars s)) - 1))"
    using a b f2 dn by (simp add: sendToBack_def Let_def del: focusAll.simps)
next
  assume "map_of (avatars s) u = None"
  then show "bringToFront u rearrange s = (Inr None, s)" by (simp add: bringToFront_def)
next
  assume "map_of (avatars s) u = None"
  then show "sendToBack u s = (Inr None, s)" by (simp add: sendToBack_def)
qed

text \<open>C8 in the concrete state, whose two avatars have z 1 and 2.\<close>

theorem z_order_requests_witness:
  "map_of (avatars exampleWorld) ''ws1/c1'' = Some (exampleAvatar ''ws1/c1'' 1 0) \<and>
   map_of (avatars exampleWorld) ''ws9/c9'' = None \<and>
   fst (bringToFront ''ws1/c1'' False exampleWorld) = Inr (Some 3) \<and>
   fst (sendToBack ''ws1/c1'' exampleWorld) = Inr (Some 0) \<and>
   bringToFront ''ws9/c9'' False exampleWorld = (Inr None, exampleWorld)"
proof -
  have a: "map_of (avatars exampleWorld) ''ws1/c1'' = Some (exampleAvatar ''ws1/c1'' 1 0)"
    and n: "map_of (avatars exampleWorld) ''ws9/c9'' = None"
    by (simp_all add: exampleWorld_def)
  have z: "zOf ` set (avatars exampleWorld) = {1, 2}"
    by (auto simp: example_defs zOf_def)
  have sf: "\<forall>entry \<in> set (avatars exampleWorld). isSafeInteger (zOf entry)"
    by (simp add: example_defs zOf_def isSafeInteger_def)
  show ?thesis
    using z_order_requests [of exampleWorld "''ws1/c1''" "exampleAvatar ''ws1/c1'' 1 0" False]
      z_order_requests [of exampleWorld "''ws9/c9''" "exampleAvatar ''ws1/c1'' 1 0" False] a n z sf
    by simp
qed

section \<open>Creating a card\<close>

lemmas io_defs = nextOutcome_def emit_def CardIO_getCardData_def CardIO_updateOrCreateCardData_def
  CardIO_deleteCardData_def CardIO_getAvatarUrlList_def CardIO_addAvatarUrl_def
  CardIO_deleteAvatarUrl_def

lemma emit_fields [simp]:
  "cards (emit ev s) = cards s"
  "avatars (emit ev s) = avatars s"
  "globalFocusListenerPermission (emit ev s) = globalFocusListenerPermission s"
  "currentWorkspaceId (emit ev s) = currentWorkspaceId s"
  "currentWorkspaceUrl (emit ev s) = currentWorkspaceUrl s"
  "currentWorkspace (emit ev s) = currentWorkspace s"
  "cardStore (emit ev s) = cardStore s"
  "avatarUrlStore (emit ev s) = avatarUrlStore s"
  "outcomes (emit ev s) = outcomes s"
  "uuidSource (emit ev s) = uuidSource s"
  "uuidCount (emit ev s) = uuidCount s"
  "nextWindow (emit ev s) = nextWindow s"
  "destroyed (emit ev s) = destroyed s"
  "effects (emit ev s) = effects s @ [ev]"
  by (simp_all add: emit_def)

lemma render_cards: "render a s = (r, t) \<Longrightarrow> cards t = cards s"
  by (auto simp: render_def finishRenderCard_def io_defs
      split: list.splits outcome.splits option.splits)

lemma addAvatarUrl_cards: "CardIO_addAvatarUrl ws u s = (r, t) \<Longrightarrow> cards t = cards s"
  by (auto simp: io_defs split: list.splits outcome.splits)

lemma saveCard_cards: "saveCard p s = (r, t) \<Longrightarrow> cards t = cards s"
  by (auto simp: saveCard_def io_defs split: list.splits outcome.splits)

lemma createCard_loop_cards:
  "createCard_loop e k locs ps s = (r, t) \<Longrightarrow> cards t = cards s"
proof (induction locs arbitrary: ps s)
  case Nil
  then show ?case by simp
next
  case (Cons loc locs)
  show ?case
  proof (cases "strMatch e loc (currentWorkspaceUrl s)")
    case False
    with Cons show ?thesis by simp
  next
    case True
    with Cons.prems show ?thesis
      by (auto simp: new_Avatar_def emit_def Let_def
          split: prod.splits option.splits
          dest!: render_cards addAvatarUrl_cards Cons.IH)
  qed
qed

lemma new_Card_New_OfCardProp:
  "new_Card_New e (OfCardProp p) s =
     (Inr \<lparr>cardInitializeType = New, Card.prop' = p\<lparr>id' := newCardKey s p\<rparr>\<rparr>,
      if id' p = [] then s\<lparr>uuidCount := Suc (uuidCount s)\<rparr> else s)"
  by (simp add: new_Card_New_def generateNewCardId_def newCardKey_def)

lemma createCard_cards:
  assumes "fromObject obj = Inr p" and "createCard e fromObject obj s = (r, t)"
  shows "cards t = AList.update (newCardKey s p)
           \<lparr>cardInitializeType = New, Card.prop' = p\<lparr>id' := newCardKey s p\<rparr>\<rparr> (cards s)"
  using assms
  by (auto simp: createCard_def new_Card_New_OfCardProp Let_def
      split: prod.splits sum.splits result.splits if_splits
      dest!: createCard_loop_cards saveCard_cards)

lemma createCard_returns:
  assumes "fromObject obj = Inr p" and "createCard e fromObject obj s = (Returns i, t)"
  shows "i = newCardKey s p"
  using assms
  by (auto simp: createCard_def new_Card_New_OfCardProp Let_def
      split: prod.splits sum.splits result.splits if_splits)

lemmas registry_defs = getCardFromUrl_def getCardData_def getAvatarProp_def new_Avatar_def
  render_def finishRenderCard_def saveCard_def promiseAll_def

text \<open>
  Claim C10. Provided the identifier that \<open>uuidv4\<close> hands out next is not empty: a \<open>New\<close>
  card made of a CardProp with the empty id gets that identifier as its id; \<open>createCard\<close>
  registers the card under its id, which is not empty, and returns that id if it returns.
  A \<open>New\<close> card given a string, and a \<open>Load\<close> card given nothing or a CardProp, throw a
  TypeError. (A \<open>New\<close> card given nothing takes the default CardProp.)
\<close>

theorem new_card_id_not_empty:
  assumes "uuidSource s (uuidCount s) \<noteq> []"
  shows "(id' p = [] \<longrightarrow>
           new_Card_New e (OfCardProp p) s =
             (Inr \<lparr>cardInitializeType = New, Card.prop' = p\<lparr>id' := uuidSource s (uuidCount s)\<rparr>\<rparr>,
              s\<lparr>uuidCount := Suc (uuidCount s)\<rparr>)) \<and>
         (fromObject obj = Inr p \<longrightarrow>
            newCardKey s p \<noteq> [] \<and>
            map_of (cards (snd (createCard e fromObject obj s))) (newCardKey s p) =
              Some \<lparr>cardInitializeType = New, Card.prop' = p\<lparr>id' := newCardKey s p\<rparr>\<rparr> \<and>
            (\<forall>i. fst (createCard e fromObject obj s) = Returns i \<longrightarrow> i = newCardKey s p)) \<and>
         fst (new_Card_New e (OfString v) s) =
           Inl (TypeError ''Second parameter must be CardProp when creating new card.'') \<and>
         new_Card_Load Undefined =
           Inl (TypeError ''Second parameter must be id string when loading the card.'') \<and>
         new_Card_Load (OfCardProp p) =
           Inl (TypeError ''Second parameter must be id string when loading the card.'')"
proof (intro conjI impI allI)
  show "new_Card_New e (OfCardProp p) s =
      (Inr \<lparr>cardInitializeType = New, Card.prop' = p\<lparr>id' := uuidSource s (uuidCount s)\<rparr>\<rparr>,
       s\<lparr>uuidCount := Suc (uuidCount s)\<rparr>)" if "id' p = []"
    using that by (simp add: new_Card_New_def generateNewCardId_def)
  show "newCardKey s p \<noteq> []"
    using assms by (simp add: newCardKey_def)
  show "map_of (cards (snd (createCard e fromObject obj s))) (newCardKey s p) =
      Some \<lparr>cardInitializeType = New, Card.prop' = p\<lparr>id' := newCardKey s p\<rparr>\<rparr>"
    if "fromObject obj = Inr p"
    using createCard_cards [where fromObject = fromObject and obj = obj and e = e and s = s, OF that]
    by (cases "createCard e fromObject obj s") (simp add: update_conv')
  show "i = newCardKey s p" if "fromObject obj = Inr p" "fst (createCard e fromObject obj s) = Returns i" for i
    using createCard_returns [where fromObject = fromObject and obj = obj and e = e and s = s, OF that(1)] that(2)
    by (cases "createCard e fromObject obj s") simp
qed (simp_all add: new_Card_New_def new_Card_Load_def)

text \<open>C10 for a CardProp with the empty id, hydrated as it is, in the concrete state.\<close>

theorem new_card_id_not_empty_witness:
  "uuidSource exampleWorld (uuidCount exampleWorld) \<noteq> [] \<and>
   id' (exampleCardProp\<lparr>id' := []\<rparr>) = [] \<and>
   fst (createCard exampleEnv Inr (exampleCardProp\<lparr>id' := []\<rparr>) exampleWorld) =
     Returns ''0f8fad5b-d9cb-469f-a165-70867728950e'' \<and>
   map_of (cards (snd (createCard exampleEnv Inr (exampleCardProp\<lparr>id' := []\<rparr>) exampleWorld)))
       ''0f8fad5b-d9cb-469f-a165-70867728950e'' =
     Some \<lparr>cardInitializeType = New,
           Card.prop' = exampleCardProp\<lparr>id' := ''0f8fad5b-d9cb-469f-a165-70867728950e''\<rparr>\<rparr>"
proof -
  have h: "uuidSource exampleWorld (uuidCount exampleWorld) \<noteq> []"
    by (simp add: exampleWorld_def)
  have k: "newCardKey exampleWorld (exampleCardProp\<lparr>id' := []\<rparr>) =
      ''0f8fad5b-d9cb-469f-a165-70867728950e''"
    by (simp add: newCardKey_def exampleWorld_def)
  have r: "fst (createCard exampleEnv Inr (exampleCardProp\<lparr>id' := []\<rparr>) exampleWorld) =
      Returns ''0f8fad5b-d9cb-469f-a165-70867728950e''"
    by (simp add: createCard_def new_Card_New_OfCardProp newCardKey_def exampleCardProp_def
        exampleWorld_def io_defs registry_defs exampleEnv_def Let_def new_AvatarProp_def)
  show ?thesis
    using new_card_id_not_empty [OF h, of "exampleCardProp\<lparr>id' := []\<rparr>" exampleEnv Inr
        "exampleCardProp\<lparr>id' := []\<rparr>"] h k r
    by simp
qed

section \<open>Deleting a card\<close>

text \<open>
  Claim C1, at the concrete state: the card \<open>c1\<close> is registered and persisted, and both
  registered avatars \<open>ws1/c1\<close> and \<open>ws2/c1\<close> have urls that decompose to \<open>c1\<close>.
  \<open>deleteCard\<close> removes the card from \<open>cards\<close> and deletes its record, so that reading it
  fails with NotFound; but it looks the avatars up under the location keys \<open>ws1/\<close> and
  \<open>ws2/\<close>, finds none, destroys no window and leaves both avatars registered.
\<close>

theorem deleteCard_leaves_avatars:
  "getIdFromUrl exampleEnv ''ws1/c1'' = ''c1'' \<and>
   getIdFromUrl exampleEnv ''ws2/c1'' = ''c1'' \<and>
   map_of (cards exampleWorld) ''c1'' = Some exampleCard \<and>
   fst (deleteCard ''c1'' exampleWorld) = Returns () \<and>
   avatars (snd (deleteCard ''c1'' exampleWorld)) = avatars exampleWorld \<and>
   destroyed (snd (deleteCard ''c1'' exampleWorld)) = [] \<and>
   since exampleWorld (snd (deleteCard ''c1'' exampleWorld)) = [CardIO ''deleteCardData'' ''c1''] \<and>
   cards (snd (deleteCard ''c1'' exampleWorld)) = [] \<and>
   fst (CardIO_getCardData ''c1'' (snd (deleteCard ''c1'' exampleWorld))) = Throws (NotFound ''c1'')"
  by (simp add: deleteCard_def example_defs io_defs windowDestroy_def since_def
      idAfterLastSlash_def Let_def AList.delete_eq)

lemma since_append: "effects t = effects s @ es \<Longrightarrow> since s t = es"
  by (simp add: since_def)

lemma since_refl [simp]: "since s s = []"
  by (simp add: since_def)

lemma windowDestroy_fields [simp]:
  "cards (windowDestroy a s) = cards s"
  "cardStore (windowDestroy a s) = cardStore s"
  "outcomes (windowDestroy a s) = outcomes s"
  "effects (windowDestroy a s) = effects s @ [WindowDestroyed (window a)]"
  by (simp_all add: windowDestroy_def Let_def)

lemma deleteCard_loop_fields [simp]:
  "cards (deleteCard_loop keys s) = cards s"
  "cardStore (deleteCard_loop keys s) = cardStore s"
  "outcomes (deleteCard_loop keys s) = outcomes s"
  by (induction keys arbitrary: s; simp split: option.splits)+

lemma deleteCard_loop_effects:
  "\<exists>ws. effects (deleteCard_loop keys s) = effects s @ map WindowDestroyed ws"
proof (induction keys arbitrary: s)
  case Nil
  show ?case by (rule exI [of _ "[]"]) simp
next
  case (Cons key keys)
  show ?case
  proof (cases "map_of (avatars s) key")
    case None
    with Cons show ?thesis by simp
  next
    case (Some avatar)
    let ?s = "windowDestroy avatar (s\<lparr>avatars := AList.delete key (avatars s)\<rparr>)"
    from Cons [of ?s] obtain ws where "effects (deleteCard_loop keys ?s) = effects ?s @ map WindowDestroyed ws"
      by blast
    with Some have "effects (deleteCard_loop (key # keys) s) = effects s @ map WindowDestroyed (window avatar # ws)"
      by simp
    then show ?thesis by blast
  qed
qed

lemma attempts_simps [simp]:
  "attempts cardId [] = 0"
  "attempts cardId (ev # es) =
     (if ev = CardIO ''deleteCardData'' cardId then 1 else 0) + attempts cardId es"
  "attempts cardId (es @ fs) = attempts cardId es + attempts cardId fs"
  "attempts cardId (map WindowDestroyed ws) = 0"
  by (simp_all add: attempts_def filter_map o_def)

lemma sleeps_simps [simp]:
  "sleeps [] = []"
  "sleeps (ev # es) = (case ev of Sleep n \<Rightarrow> [n] | _ \<Rightarrow> []) @ sleeps es"
  "sleeps (es @ fs) = sleeps es @ sleeps fs"
  "sleeps (map WindowDestroyed ws) = []"
  by (simp_all add: sleeps_def o_def)

lemma deleteCardData_spec:
  "CardIO_deleteCardData cardId s = (r, t) \<Longrightarrow>
     effects t = effects s @ [CardIO ''deleteCardData'' cardId] \<and> cards t = cards s \<and>
     outcomes t = tl (outcomes s) \<and>
     (case outcomes s of
        Rejects m # rest \<Rightarrow> r = Throws (IOFailure m) \<and> cardStore t = cardStore s
      | NeverSettles # rest \<Rightarrow> r = Pending \<and> cardStore t = cardStore s
      | rest \<Rightarrow>
          (case map_of (cardStore s) cardId of
             None \<Rightarrow> r = Throws (NotFound cardId) \<and> cardStore t = cardStore s
           | Some p \<Rightarrow> r = Returns cardId \<and> cardStore t = AList.delete cardId (cardStore s)))"
  by (auto simp: io_defs split: list.splits outcome.splits option.splits)

lemma deleteCard_effects:
  assumes "deleteCard cardId s = (r, t)"
  shows "\<exists>es. effects t = effects s @ es \<and> attempts cardId es \<le> 1 \<and> sleeps es = [] \<and>
     ((\<exists>err. r = Throws err) \<longrightarrow> attempts cardId es = 1)"
proof (cases "map_of (cards s) cardId")
  case None
  with assms have "effects t = effects s @ [ConsoleError (''Error in deleteCard: card does not exist: '' @ cardId)]"
    and "r = Returns ()"
    by (auto simp: deleteCard_def)
  then show ?thesis by (intro exI [of _ "[ConsoleError (''Error in deleteCard: card does not exist: '' @ cardId)]"]) simp
next
  case (Some c)
  let ?s1 = "deleteCard_loop (map fst (CardProp.avatars (Card.prop' c))) s"
  obtain ws where ws: "effects ?s1 = effects s @ map WindowDestroyed ws"
    using deleteCard_loop_effects by blast
  obtain r2 s2 where d: "CardIO_deleteCardData cardId ?s1 = (r2, s2)" by fastforce
  from deleteCardData_spec [OF d] have e2: "effects s2 = effects ?s1 @ [CardIO ''deleteCardData'' cardId]"
    by simp
  have "effects t = effects s2"
    using assms Some d by (auto simp: deleteCard_def Let_def split: result.splits)
  with e2 ws have "effects t = effects s @ (map WindowDestroyed ws @ [CardIO ''deleteCardData'' cardId])"
    by simp
  then show ?thesis by (intro exI [of _ "map WindowDestroyed ws @ [CardIO ''deleteCardData'' cardId]"]) simp
qed

declare deleteCardWithRetry_loop.simps [simp del]

lemma logged_simps [simp]:
  "logged [] = []"
  "logged (ev # es) = (case ev of ConsoleError m \<Rightarrow> [m] | _ \<Rightarrow> []) @ logged es"
  "logged (es @ fs) = logged es @ logged fs"
  "logged (map WindowDestroyed ws) = []"
  by (simp_all add: logged_def o_def)

lemma deleteCardWithRetry_loop_bound:
  "i \<le> 5 \<Longrightarrow> deleteCardWithRetry_loop i cardId s = (r, t) \<Longrightarrow>
     (\<forall>err. r \<noteq> Throws err) \<and>
     (\<exists>es. effects t = effects s @ es \<and> attempts cardId es \<le> 5 - i \<and>
           length (sleeps es) \<le> attempts cardId es \<and> attempts cardId es \<le> Suc (length (sleeps es)) \<and>
           set (sleeps es) \<subseteq> {1000} \<and> length (sleeps es) \<le> length (logged es))"
proof (induction i cardId s arbitrary: r t rule: deleteCardWithRetry_loop.induct)
  case (1 i cardId s)
  show ?case
  proof (cases "i < 5")
    case False
    with "1.prems" deleteCardWithRetry_loop.simps [of i cardId s] have "r = Returns ()" "t = s"
      by simp_all
    then show ?thesis by (simp add: exI [of _ "[]"])
  next
    case True
    obtain r1 s1 where d: "deleteCard cardId s = (r1, s1)" by fastforce
    from deleteCard_effects [OF d] obtain es1 where
      es1: "effects s1 = effects s @ es1" "attempts cardId es1 \<le> 1" "sleeps es1 = []"
        "(\<exists>err. r1 = Throws err) \<longrightarrow> attempts cardId es1 = 1"
      by blast
    show ?thesis
    proof (cases r1)
      case (Returns v)
      with "1.prems" True d deleteCardWithRetry_loop.simps [of i cardId s] have "r = Returns ()" "t = s1"
        by simp_all
      with es1 True show ?thesis by (auto intro!: exI [of _ es1])
    next
      case Pending
      with "1.prems" True d deleteCardWithRetry_loop.simps [of i cardId s] have "r = Pending" "t = s1"
        by simp_all
      with es1 True show ?thesis by (auto intro!: exI [of _ es1])
    next
      case (Throws err)
      let ?s2 = "emit (Sleep 1000) (emit (ConsoleError (message err)) s1)"
      from "1.prems" True d Throws deleteCardWithRetry_loop.simps [of i cardId s]
      have l: "deleteCardWithRetry_loop (Suc i) cardId ?s2 = (r, t)"
        by simp
      from True have "Suc i \<le> 5" by simp
      from "1.IH" [OF True d [symmetric] Throws this l]
      obtain es2 where es2: "\<forall>err. r \<noteq> Throws err" "effects t = effects ?s2 @ es2"
        "attempts cardId es2 \<le> 5 - Suc i" "length (sleeps es2) \<le> attempts cardId es2"
        "attempts cardId es2 \<le> Suc (length (sleeps es2))" "set (sleeps es2) \<subseteq> {1000}"
        "length (sleeps es2) \<le> length (logged es2)"
        by blast
      from es1 Throws have a1: "attempts cardId es1 = 1" by blast
      have "effects t = effects s @ (es1 @ [ConsoleError (message err), Sleep 1000] @ es2)"
        using es2(2) es1(1) by simp
      moreover have "attempts cardId (es1 @ [ConsoleError (message err), Sleep 1000] @ es2) = 1 + attempts cardId es2"
        using a1 by simp
      moreover have "sleeps (es1 @ [ConsoleError (message err), Sleep 1000] @ es2) = 1000 # sleeps es2"
        using es1(3) by simp
      moreover have "logged (es1 @ [ConsoleError (message err), Sleep 1000] @ es2) =
          logged es1 @ message err # logged es2"
        by simp
      ultimately show ?thesis
        using es2 True by (intro conjI exI [of _ "es1 @ [ConsoleError (message err), Sleep 1000] @ es2"]) auto
    qed
  qed
qed

lemma deleteCard_rejected:
  assumes "map_of (cards s) cardId = Some c" and "outcomes s = Rejects m # rest"
  shows "\<exists>t ws. deleteCard cardId s =
             (Throws (Error (''Error in destroy window: '' @ ''Error in delete-card: '' @ m)), t) \<and>
           effects t = effects s @ map WindowDestroyed ws @ [CardIO ''deleteCardData'' cardId] \<and>
           cards t = cards s \<and> cardStore t = cardStore s \<and> outcomes t = rest"
proof -
  let ?s1 = "deleteCard_loop (map fst (CardProp.avatars (Card.prop' c))) s"
  obtain ws where ws: "effects ?s1 = effects s @ map WindowDestroyed ws"
    using deleteCard_loop_effects by blast
  obtain r2 s2 where d: "CardIO_deleteCardData cardId ?s1 = (r2, s2)" by fastforce
  from deleteCardData_spec [OF d] assms(2)
  have "effects s2 = effects ?s1 @ [CardIO ''deleteCardData'' cardId]" "cards s2 = cards s"
    "outcomes s2 = rest" "r2 = Throws (IOFailure m)" "cardStore s2 = cardStore s"
    by simp_all
  with ws d assms(1) show ?thesis
    by (intro exI [of _ s2] exI [of _ ws]) (simp add: deleteCard_def Let_def)
qed

lemma deleteCard_fulfilled:
  assumes "map_of (cards s) cardId = Some c" and "map_of (cardStore s) cardId = Some p"
    and "nextFulfils s"
  shows "\<exists>t ws. deleteCard cardId s = (Returns (), t) \<and>
           effects t = effects s @ map WindowDestroyed ws @ [CardIO ''deleteCardData'' cardId] \<and>
           cards t = AList.delete cardId (cards s) \<and>
           cardStore t = AList.delete cardId (cardStore s)"
proof -
  let ?s1 = "deleteCard_loop (map fst (CardProp.avatars (Card.prop' c))) s"
  obtain ws where ws: "effects ?s1 = effects s @ map WindowDestroyed ws"
    using deleteCard_loop_effects by blast
  obtain r2 s2 where d: "CardIO_deleteCardData cardId ?s1 = (r2, s2)" by fastforce
  from deleteCardData_spec [OF d] assms(2,3)
  have "effects s2 = effects ?s1 @ [CardIO ''deleteCardData'' cardId]" "cards s2 = cards s"
    "r2 = Returns cardId" "cardStore s2 = AList.delete cardId (cardStore s)"
    by (auto simp: nextFulfils_def split: list.splits)
  with ws d assms(1) show ?thesis
    by (intro exI [of _ "s2\<lparr>cards := AList.delete cardId (cards s2)\<rparr>"] exI [of _ ws])
      (simp add: deleteCard_def Let_def)
qed

text \<open>The line that \<open>deleteCardWithRetry\<close> logs for a delete that the outside world rejected.\<close>

lemma deleteCardWithRetry_loop_all_fail:
  assumes "map_of (cards s) cardId = Some c" and "take (5 - i) (outcomes s) = map Rejects ms"
    and "length ms = 5 - i" and "i \<le> 5"
  shows "\<exists>t es. deleteCardWithRetry_loop i cardId s = (Returns (), t) \<and>
           effects t = effects s @ es \<and> attempts cardId es = 5 - i \<and>
           sleeps es = replicate (5 - i) 1000 \<and>
           logged es = map (\<lambda>m. ''Error in destroy window: '' @ ''Error in delete-card: '' @ m) ms \<and>
           cards t = cards s \<and> cardStore t = cardStore s"
  using assms
proof (induction ms arbitrary: i s)
  case Nil
  then have "i = 5" by simp
  then show ?case
    using deleteCardWithRetry_loop.simps [of i cardId s] by (simp add: exI [of _ "[]"])
next
  case (Cons m ms)
  then have i: "i < 5" and n: "5 - Suc i = length ms" by simp_all
  from Cons.prems(2) i obtain rest where o: "outcomes s = Rejects m # rest"
    and r: "take (5 - Suc i) rest = map Rejects ms"
    by (cases "outcomes s") (auto simp: take_Cons' split: if_splits)
  from deleteCard_rejected [OF Cons.prems(1) o] obtain s1 ws where
    d: "deleteCard cardId s =
          (Throws (Error (''Error in destroy window: '' @ ''Error in delete-card: '' @ m)), s1)"
    and s1: "effects s1 = effects s @ map WindowDestroyed ws @ [CardIO ''deleteCardData'' cardId]"
      "cards s1 = cards s" "cardStore s1 = cardStore s" "outcomes s1 = rest"
    by blast
  let ?w = "\<lambda>m. ''Error in destroy window: '' @ ''Error in delete-card: '' @ m"
  let ?err = "Error (''Error in destroy window: '' @ ''Error in delete-card: '' @ m)"
  let ?s2 = "emit (Sleep 1000) (emit (ConsoleError (message ?err)) s1)"
  have "\<exists>t es. deleteCardWithRetry_loop (Suc i) cardId ?s2 = (Returns (), t) \<and>
           effects t = effects ?s2 @ es \<and> attempts cardId es = 5 - Suc i \<and>
           sleeps es = replicate (5 - Suc i) 1000 \<and> logged es = map ?w ms \<and>
           cards t = cards ?s2 \<and> cardStore t = cardStore ?s2"
    using Cons.prems(1) r n i s1 by (intro Cons.IH) simp_all
  then obtain t es where
    l: "deleteCardWithRetry_loop (Suc i) cardId ?s2 = (Returns (), t)"
    and t: "effects t = effects ?s2 @ es" "attempts cardId es = 5 - Suc i"
      "sleeps es = replicate (5 - Suc i) 1000" "cards t = cards ?s2" "cardStore t = cardStore ?s2"
      "logged es = map ?w ms"
    by blast
  let ?es = "map WindowDestroyed ws @
      [CardIO ''deleteCardData'' cardId, ConsoleError (message ?err), Sleep 1000] @ es"
  have 1: "deleteCardWithRetry_loop i cardId s = (Returns (), t)"
    using deleteCardWithRetry_loop.simps [of i cardId s] i d l by simp
  have 2: "effects t = effects s @ ?es"
    using t(1) s1(1) by simp
  have 3: "attempts cardId ?es = 5 - i"
    using t(2) i by simp
  have "5 - i = Suc (5 - Suc i)" using i by simp
  then have 4: "sleeps ?es = replicate (5 - i) 1000"
    using t(3) by (simp del: replicate_Suc add: replicate_Suc [symmetric])
  have 5: "cards t = cards s" "cardStore t = cardStore s"
    using t(4,5) s1(2,3) by simp_all
  have 6: "logged ?es = map ?w (m # ms)"
    using t(6) by simp
  show ?case
    by (intro exI [of _ t] exI [of _ ?es] conjI) (fact 1 2 3 4 5 6)+
qed

lemma deleteCardWithRetry_loop_retries:
  assumes "map_of (cards s) cardId = Some c" and "map_of (cardStore s) cardId = Some p"
    and "outcomes s = map Rejects ms @ rest" and "i + length ms < 5"
    and "nextFulfils (s\<lparr>outcomes := rest\<rparr>)"
  shows "\<exists>t es. deleteCardWithRetry_loop i cardId s = (Returns (), t) \<and>
           effects t = effects s @ es \<and> attempts cardId es = Suc (length ms) \<and>
           sleeps es = replicate (length ms) 1000 \<and>
           logged es = map (\<lambda>m. ''Error in destroy window: '' @ ''Error in delete-card: '' @ m) ms \<and>
           cards t = AList.delete cardId (cards s) \<and>
           cardStore t = AList.delete cardId (cardStore s)"
  using assms
proof (induction ms arbitrary: i s)
  case Nil
  then have i: "i < 5" and f: "nextFulfils s" by (simp_all add: nextFulfils_def)
  from deleteCard_fulfilled [OF Nil.prems(1,2) f] obtain t ws where
    d: "deleteCard cardId s = (Returns (), t)"
    and t: "effects t = effects s @ map WindowDestroyed ws @ [CardIO ''deleteCardData'' cardId]"
      "cards t = AList.delete cardId (cards s)" "cardStore t = AList.delete cardId (cardStore s)"
    by blast
  let ?es = "map WindowDestroyed ws @ [CardIO ''deleteCardData'' cardId]"
  have 1: "deleteCardWithRetry_loop i cardId s = (Returns (), t)"
    using deleteCardWithRetry_loop.simps [of i cardId s] i d by simp
  have 2: "attempts cardId ?es = Suc (length ([] :: string list))"
    "sleeps ?es = replicate (length ([] :: string list)) 1000"
    "logged ?es = map (\<lambda>m. ''Error in destroy window: '' @ ''Error in delete-card: '' @ m) []"
    by simp_all
  show ?case
    by (intro exI [of _ t] exI [of _ ?es] conjI) (fact 1 t 2)+
next
  case (Cons m ms)
  then have i: "i < 5" and n: "Suc i + length ms < 5" by simp_all
  have o: "outcomes s = Rejects m # (map Rejects ms @ rest)" using Cons.prems(3) by simp
  from deleteCard_rejected [OF Cons.prems(1) o] obtain s1 ws where
    d: "deleteCard cardId s =
          (Throws (Error (''Error in destroy window: '' @ ''Error in delete-card: '' @ m)), s1)"
    and s1: "effects s1 = effects s @ map WindowDestroyed ws @ [CardIO ''deleteCardData'' cardId]"
      "cards s1 = cards s" "cardStore s1 = cardStore s" "outcomes s1 = map Rejects ms @ rest"
    by blast
  let ?w = "\<lambda>m. ''Error in destroy window: '' @ ''Error in delete-card: '' @ m"
  let ?err = "Error (''Error in destroy window: '' @ ''Error in delete-card: '' @ m)"
  let ?s2 = "emit (Sleep 1000) (emit (ConsoleError (message ?err)) s1)"
  have "\<exists>t es. deleteCardWithRetry_loop (Suc i) cardId ?s2 = (Returns (), t) \<and>
           effects t = effects ?s2 @ es \<and> attempts cardId es = Suc (length ms) \<and>
           sleeps es = replicate (length ms) 1000 \<and> logged es = map ?w ms \<and>
           cards t = AList.delete cardId (cards ?s2) \<and>
           cardStore t = AList.delete cardId (cardStore ?s2)"
    using Cons.prems(1,2,5) n s1 by (intro Cons.IH) (simp_all add: nextFulfils_def)
  then obtain t es where
    l: "deleteCardWithRetry_loop (Suc i) cardId ?s2 = (Returns (), t)"
    and t: "effects t = effects ?s2 @ es" "attempts cardId es = Suc (length ms)"
      "sleeps es = replicate (length ms) 1000" "cards t = AList.delete cardId (cards ?s2)"
      "cardStore t = AList.delete cardId (cardStore ?s2)" "logged es = map ?w ms"
    by blast
  let ?es = "map WindowDestroyed ws @
      [CardIO ''deleteCardData'' cardId, ConsoleError (message ?err), Sleep 1000] @ es"
  have 1: "deleteCardWithRetry_loop i cardId s = (Returns (), t)"
    using deleteCardWithRetry_loop.simps [of i cardId s] i d l by simp
  have 2: "effects t = effects s @ ?es"
    using t(1) s1(1) by simp
  have 3: "attempts cardId ?es = Suc (length (m # ms))"
    using t(2) by simp
  have 4: "sleeps ?es = replicate (length (m # ms)) 1000"
    using t(3) by simp
  have 5: "cards t = AList.delete cardId (cards s)" "cardStore t = AList.delete cardId (cardStore s)"
    using t(4,5) s1(2,3) by simp_all
  have 6: "logged ?es = map ?w (m # ms)"
    using t(6) by simp
  show ?case
    by (intro exI [of _ t] exI [of _ ?es] conjI) (fact 1 2 3 4 5 6)+
qed

lemma deleteCard_not_found:
  assumes "map_of (cards s) cardId = Some c" and "map_of (cardStore s) cardId = None"
    and "nextFulfils s"
  shows "\<exists>t ws. deleteCard cardId s =
             (Throws (Error (''Error in destroy window: '' @ ''Error in delete-card: '' @ cardId)), t) \<and>
           effects t = effects s @ map WindowDestroyed ws @ [CardIO ''deleteCardData'' cardId] \<and>
           cards t = cards s \<and> cardStore t = cardStore s \<and> outcomes t = tl (outcomes s)"
proof -
  let ?s1 = "deleteCard_loop (map fst (CardProp.avatars (Card.prop' c))) s"
  obtain ws where ws: "effects ?s1 = effects s @ map WindowDestroyed ws"
    using deleteCard_loop_effects by blast
  obtain r2 s2 where d: "CardIO_deleteCardData cardId ?s1 = (r2, s2)" by fastforce
  from deleteCardData_spec [OF d] assms(2,3)
  have "effects s2 = effects ?s1 @ [CardIO ''deleteCardData'' cardId]" "cards s2 = cards s"
    "r2 = Throws (NotFound cardId)" "cardStore s2 = cardStore s" "outcomes s2 = tl (outcomes s)"
    by (auto simp: nextFulfils_def split: list.splits)
  with ws d assms(1) show ?thesis
    by (intro exI [of _ s2] exI [of _ ws]) (simp add: deleteCard_def Let_def)
qed

lemma take_tl_subset: "set (take n (tl vs)) \<subseteq> set (take (Suc n) vs)"
  by (cases vs) auto

lemma deleteCardWithRetry_loop_not_found:
  assumes "n = 5 - i" and "map_of (cards s) cardId = Some c"
    and "map_of (cardStore s) cardId = None"
    and "set (take (5 - i) (outcomes s)) \<subseteq> {Fulfils}" and "i \<le> 5"
  shows "\<exists>t es. deleteCardWithRetry_loop i cardId s = (Returns (), t) \<and>
           effects t = effects s @ es \<and> attempts cardId es = 5 - i \<and>
           sleeps es = replicate (5 - i) 1000 \<and>
           logged es = replicate (5 - i) (''Error in destroy window: '' @ ''Error in delete-card: '' @ cardId) \<and>
           cards t = cards s \<and> cardStore t = cardStore s"
  using assms
proof (induction n arbitrary: i s)
  case 0
  then have "i = 5" by simp
  then show ?case
    using deleteCardWithRetry_loop.simps [of i cardId s] by (simp add: exI [of _ "[]"])
next
  case (Suc n)
  then have i: "i < 5" and n: "n = 5 - Suc i" by simp_all
  have si: "5 - i = Suc (5 - Suc i)" using i by simp
  have f: "nextFulfils s"
    using Suc.prems(4) unfolding si by (cases "outcomes s") (simp_all add: nextFulfils_def)
  from deleteCard_not_found [OF Suc.prems(2,3) f] obtain s1 ws where
    d: "deleteCard cardId s =
          (Throws (Error (''Error in destroy window: '' @ ''Error in delete-card: '' @ cardId)), s1)"
    and s1: "effects s1 = effects s @ map WindowDestroyed ws @ [CardIO ''deleteCardData'' cardId]"
      "cards s1 = cards s" "cardStore s1 = cardStore s" "outcomes s1 = tl (outcomes s)"
    by blast
  let ?w = "''Error in destroy window: '' @ ''Error in delete-card: '' @ cardId"
  let ?err = "Error (''Error in destroy window: '' @ ''Error in delete-card: '' @ cardId)"
  let ?s2 = "emit (Sleep 1000) (emit (ConsoleError (message ?err)) s1)"
  have o2: "set (take (5 - Suc i) (outcomes ?s2)) \<subseteq> {Fulfils}"
    using Suc.prems(4) take_tl_subset [of "5 - Suc i" "outcomes s"] unfolding si by (simp add: s1(4))
  have "\<exists>t es. deleteCardWithRetry_loop (Suc i) cardId ?s2 = (Returns (), t) \<and>
           effects t = effects ?s2 @ es \<and> attempts cardId es = 5 - Suc i \<and>
           sleeps es = replicate (5 - Suc i) 1000 \<and> logged es = replicate (5 - Suc i) ?w \<and>
           cards t = cards ?s2 \<and> cardStore t = cardStore ?s2"
    using Suc.prems(2,3) n i s1 o2 by (intro Suc.IH) simp_all
  then obtain t es where
    l: "deleteCardWithRetry_loop (Suc i) cardId ?s2 = (Returns (), t)"
    and t: "effects t = effects ?s2 @ es" "attempts cardId es = 5 - Suc i"
      "sleeps es = replicate (5 - Suc i) 1000" "cards t = cards ?s2" "cardStore t = cardStore ?s2"
      "logged es = replicate (5 - Suc i) ?w"
    by blast
  let ?es = "map WindowDestroyed ws @
      [CardIO ''deleteCardData'' cardId, ConsoleError (message ?err), Sleep 1000] @ es"
  have 1: "deleteCardWithRetry_loop i cardId s = (Returns (), t)"
    using deleteCardWithRetry_loop.simps [of i cardId s] i d l by simp
  have 2: "effects t = effects s @ ?es"
    using t(1) s1(1) by simp
  have 3: "attempts cardId ?es = 5 - i"
    using t(2) i by simp
  have 4: "sleeps ?es = replicate (5 - i) 1000"
    unfolding si using t(3) by simp
  have 5: "cards t = cards s" "cardStore t = cardStore s"
    using t(4,5) s1(2,3) by simp_all
  have 6: "logged ?es = replicate (5 - i) ?w"
    unfolding si using t(6) by simp
  show ?case
    by (intro exI [of _ t] exI [of _ ?es] conjI) (fact 1 2 3 4 5 6)+
qed

text \<open>
  Claim C2, amended. \<open>deleteCardWithRetry\<close> never rejects: whatever happens, no error reaches
  its caller. It calls the persistence delete at most 5 times; every attempt but the last
  is followed by a sleep, no sleep comes without a failed attempt before it, every sleep
  is of 1000 ms, and there is a logged line for every sleep. When the card is registered
  and the persistence layer rejects five deletes in a row, it makes five attempts, logs
  the five errors, sleeps five times, and returns normally with the card still registered
  and its record untouched. When the persistence layer rejects fewer than five deletes
  and fulfils the next one, it logs each of those errors, sleeps after each, stops at the
  attempt that succeeds, and the card and its record are gone. When the card is registered
  and has no record, so that every delete fails as not found, it makes five attempts, logs
  the five errors, sleeps five times, and returns normally with the card still registered.
\<close>

theorem deleteCardWithRetry_swallows_error:
  "(\<forall>err. fst (deleteCardWithRetry cardId s) \<noteq> Throws err) \<and>
   attempts cardId (since s (snd (deleteCardWithRetry cardId s))) \<le> 5 \<and>
   length (sleeps (since s (snd (deleteCardWithRetry cardId s))))
     \<le> attempts cardId (since s (snd (deleteCardWithRetry cardId s))) \<and>
   attempts cardId (since s (snd (deleteCardWithRetry cardId s)))
     \<le> Suc (length (sleeps (since s (snd (deleteCardWithRetry cardId s))))) \<and>
   set (sleeps (since s (snd (deleteCardWithRetry cardId s)))) \<subseteq> {1000} \<and>
   length (sleeps (since s (snd (deleteCardWithRetry cardId s))))
     \<le> length (logged (since s (snd (deleteCardWithRetry cardId s)))) \<and>
   (map_of (cards s) cardId = Some c \<and> take 5 (outcomes s) = map Rejects ms \<and> length ms = 5 \<longrightarrow>
      fst (deleteCardWithRetry cardId s) = Returns () \<and>
      attempts cardId (since s (snd (deleteCardWithRetry cardId s))) = 5 \<and>
      sleeps (since s (snd (deleteCardWithRetry cardId s))) = [1000, 1000, 1000, 1000, 1000] \<and>
      logged (since s (snd (deleteCardWithRetry cardId s))) =
        map (\<lambda>m. ''Error in destroy window: '' @ ''Error in delete-card: '' @ m) ms \<and>
      map_of (cards (snd (deleteCardWithRetry cardId s))) cardId = Some c \<and>
      cardStore (snd (deleteCardWithRetry cardId s)) = cardStore s) \<and>
   (map_of (cards s) cardId = Some c \<and> map_of (cardStore s) cardId = Some p \<and>
    outcomes s = map Rejects fs @ rest \<and> length fs < 5 \<and> nextFulfils (s\<lparr>outcomes := rest\<rparr>) \<longrightarrow>
      fst (deleteCardWithRetry cardId s) = Returns () \<and>
      attempts cardId (since s (snd (deleteCardWithRetry cardId s))) = Suc (length fs) \<and>
      sleeps (since s (snd (deleteCardWithRetry cardId s))) = replicate (length fs) 1000 \<and>
      logged (since s (snd (deleteCardWithRetry cardId s))) =
        map (\<lambda>m. ''Error in destroy window: '' @ ''Error in delete-card: '' @ m) fs \<and>
      map_of (cards (snd (deleteCardWithRetry cardId s))) cardId = None \<and>
      map_of (cardStore (snd (deleteCardWithRetry cardId s))) cardId = None) \<and>
   (map_of (cards s) cardId = Some c \<and> map_of (cardStore s) cardId = None \<and>
    set (take 5 (outcomes s)) \<subseteq> {Fulfils} \<longrightarrow>
      fst (deleteCardWithRetry cardId s) = Returns () \<and>
      attempts cardId (since s (snd (deleteCardWithRetry cardId s))) = 5 \<and>
      sleeps (since s (snd (deleteCardWithRetry cardId s))) = [1000, 1000, 1000, 1000, 1000] \<and>
      logged (since s (snd (deleteCardWithRetry cardId s))) =
        replicate 5 (''Error in destroy window: '' @ ''Error in delete-card: '' @ cardId) \<and>
      map_of (cards (snd (deleteCardWithRetry cardId s))) cardId = Some c \<and>
      cardStore (snd (deleteCardWithRetry cardId s)) = cardStore s)"
proof -
  obtain r t where rt: "deleteCardWithRetry cardId s = (r, t)" by fastforce
  then have l: "deleteCardWithRetry_loop 0 cardId s = (r, t)" by (simp add: deleteCardWithRetry_def)
  from deleteCardWithRetry_loop_bound [OF _ l] obtain es where
    b: "\<forall>err. r \<noteq> Throws err" "effects t = effects s @ es" "attempts cardId es \<le> 5"
      "length (sleeps es) \<le> attempts cardId es" "attempts cardId es \<le> Suc (length (sleeps es))"
      "set (sleeps es) \<subseteq> {1000}" "length (sleeps es) \<le> length (logged es)"
    by auto
  from b(2) have es: "since s t = es" by (rule since_append)
  have 1: "r = Returns () \<and> attempts cardId es = 5 \<and> sleeps es = [1000, 1000, 1000, 1000, 1000] \<and>
      logged es = map (\<lambda>m. ''Error in destroy window: '' @ ''Error in delete-card: '' @ m) ms \<and>
      map_of (cards t) cardId = Some c \<and> cardStore t = cardStore s"
    if h: "map_of (cards s) cardId = Some c" "take 5 (outcomes s) = map Rejects ms" "length ms = 5"
  proof -
    from deleteCardWithRetry_loop_all_fail [of s cardId c 0 ms] h obtain t' es' where
      "deleteCardWithRetry_loop 0 cardId s = (Returns (), t')" "effects t' = effects s @ es'"
      "attempts cardId es' = 5" "sleeps es' = replicate 5 1000"
      "logged es' = map (\<lambda>m. ''Error in destroy window: '' @ ''Error in delete-card: '' @ m) ms"
      "cards t' = cards s" "cardStore t' = cardStore s"
      by auto
    with l b(2) h(1) show ?thesis by (simp add: numeral_eq_Suc)
  qed
  have 2: "r = Returns () \<and> attempts cardId es = Suc (length fs) \<and>
      sleeps es = replicate (length fs) 1000 \<and>
      logged es = map (\<lambda>m. ''Error in destroy window: '' @ ''Error in delete-card: '' @ m) fs \<and>
      map_of (cards t) cardId = None \<and> map_of (cardStore t) cardId = None"
    if h: "map_of (cards s) cardId = Some c" "map_of (cardStore s) cardId = Some p"
      "outcomes s = map Rejects fs @ rest" "length fs < 5" "nextFulfils (s\<lparr>outcomes := rest\<rparr>)"
  proof -
    from deleteCardWithRetry_loop_retries [of s cardId c p fs rest 0] h obtain t' es' where
      "deleteCardWithRetry_loop 0 cardId s = (Returns (), t')" "effects t' = effects s @ es'"
      "attempts cardId es' = Suc (length fs)" "sleeps es' = replicate (length fs) 1000"
      "logged es' = map (\<lambda>m. ''Error in destroy window: '' @ ''Error in delete-card: '' @ m) fs"
      "cards t' = AList.delete cardId (cards s)" "cardStore t' = AList.delete cardId (cardStore s)"
      by auto
    with l b(2) show ?thesis by (simp add: delete_conv')
  qed
  have 3: "r = Returns () \<and> attempts cardId es = 5 \<and> sleeps es = [1000, 1000, 1000, 1000, 1000] \<and>
      logged es = replicate 5 (''Error in destroy window: '' @ ''Error in delete-card: '' @ cardId) \<and>
      map_of (cards t) cardId = Some c \<and> cardStore t = cardStore s"
    if h: "map_of (cards s) cardId = Some c" "map_of (cardStore s) cardId = None"
      "set (take 5 (outcomes s)) \<subseteq> {Fulfils}"
  proof -
    from deleteCardWithRetry_loop_not_found [of 5 0 s cardId c] h obtain t' es' where
      "deleteCardWithRetry_loop 0 cardId s = (Returns (), t')" "effects t' = effects s @ es'"
      "attempts cardId es' = 5" "sleeps es' = replicate 5 1000"
      "logged es' = replicate 5 (''Error in destroy window: '' @ ''Error in delete-card: '' @ cardId)"
      "cards t' = cards s" "cardStore t' = cardStore s"
      by auto
    with l b(2) h(1) show ?thesis by (simp add: numeral_eq_Suc)
  qed
  show ?thesis
    unfolding rt fst_conv snd_conv es using b(1,3-7) 1 2 3 by blast
qed

text \<open>
  The amended C2 in three concrete states: the persistence layer rejects five requests;
  it rejects one request and fulfils the next; the card has no record.
\<close>

theorem deleteCardWithRetry_swallows_error_witness:
  "map_of (cards failingWorld) ''c1'' = Some exampleCard \<and>
   take 5 (outcomes failingWorld) = map Rejects [''EIO'', ''EIO'', ''EIO'', ''EIO'', ''EIO''] \<and>
   fst (deleteCardWithRetry ''c1'' failingWorld) = Returns () \<and>
   sleeps (since failingWorld (snd (deleteCardWithRetry ''c1'' failingWorld)))
     = [1000, 1000, 1000, 1000, 1000] \<and>
   logged (since failingWorld (snd (deleteCardWithRetry ''c1'' failingWorld)))
     = [''Error in destroy window: Error in delete-card: EIO'',
        ''Error in destroy window: Error in delete-card: EIO'',
        ''Error in destroy window: Error in delete-card: EIO'',
        ''Error in destroy window: Error in delete-card: EIO'',
        ''Error in destroy window: Error in delete-card: EIO''] \<and>
   map_of (cards (snd (deleteCardWithRetry ''c1'' failingWorld))) ''c1'' = Some exampleCard \<and>
   map_of (cards retryWorld) ''c1'' = Some exampleCard \<and>
   map_of (cardStore retryWorld) ''c1'' = Some exampleCardProp \<and>
   outcomes retryWorld = map Rejects [''EIO''] @ [] \<and>
   nextFulfils (retryWorld\<lparr>outcomes := []\<rparr>) \<and>
   fst (deleteCardWithRetry ''c1'' retryWorld) = Returns () \<and>
   attempts ''c1'' (since retryWorld (snd (deleteCardWithRetry ''c1'' retryWorld))) = 2 \<and>
   sleeps (since retryWorld (snd (deleteCardWithRetry ''c1'' retryWorld))) = [1000] \<and>
   logged (since retryWorld (snd (deleteCardWithRetry ''c1'' retryWorld)))
     = [''Error in destroy window: Error in delete-card: EIO''] \<and>
   map_of (cards (snd (deleteCardWithRetry ''c1'' retryWorld))) ''c1'' = None \<and>
   map_of (cardStore (snd (deleteCardWithRetry ''c1'' retryWorld))) ''c1'' = None \<and>
   map_of (cards noRecordWorld) ''c1'' = Some exampleCard \<and>
   map_of (cardStore noRecordWorld) ''c1'' = None \<and>
   set (take 5 (outcomes noRecordWorld)) \<subseteq> {Fulfils} \<and>
   fst (deleteCardWithRetry ''c1'' noRecordWorld) = Returns () \<and>
   attempts ''c1'' (since noRecordWorld (snd (deleteCardWithRetry ''c1'' noRecordWorld))) = 5 \<and>
   logged (since noRecordWorld (snd (deleteCardWithRetry ''c1'' noRecordWorld)))
     = [''Error in destroy window: Error in delete-card: c1'',
        ''Error in destroy window: Error in delete-card: c1'',
        ''Error in destroy window: Error in delete-card: c1'',
        ''Error in destroy window: Error in delete-card: c1'',
        ''Error in destroy window: Error in delete-card: c1'']"
proof -
  have c: "map_of (cards failingWorld) ''c1'' = Some exampleCard"
    by (simp add: failingWorld_def exampleWorld_def)
  have o: "take 5 (outcomes failingWorld) = map Rejects [''EIO'', ''EIO'', ''EIO'', ''EIO'', ''EIO'']"
    by (simp add: failingWorld_def numeral_eq_Suc)
  have c': "map_of (cards retryWorld) ''c1'' = Some exampleCard"
    and p': "map_of (cardStore retryWorld) ''c1'' = Some exampleCardProp"
    and o': "outcomes retryWorld = map Rejects [''EIO''] @ []"
    and f': "nextFulfils (retryWorld\<lparr>outcomes := []\<rparr>)"
    by (simp_all add: retryWorld_def exampleWorld_def nextFulfils_def)
  have c'': "map_of (cards noRecordWorld) ''c1'' = Some exampleCard"
    and p'': "map_of (cardStore noRecordWorld) ''c1'' = None"
    and o'': "set (take 5 (outcomes noRecordWorld)) \<subseteq> {Fulfils}"
    by (simp_all add: noRecordWorld_def exampleWorld_def)
  show ?thesis
    using deleteCardWithRetry_swallows_error
      [of "''c1''" failingWorld exampleCard "[''EIO'', ''EIO'', ''EIO'', ''EIO'', ''EIO'']"
        exampleCardProp "[]" "[]"]
      deleteCardWithRetry_swallows_error
      [of "''c1''" retryWorld exampleCard "[]" exampleCardProp "[''EIO'']" "[]"]
      deleteCardWithRetry_swallows_error
      [of "''c1''" noRecordWorld exampleCard "[]" exampleCardProp "[]" "[]"]
      c o c' p' o' f' c'' p'' o''
    by (simp add: numeral_eq_Suc)
qed

text \<open>
  Claim C2 as it is written has the error surfaced to the caller once all attempts have
  failed. In the concrete state the persistence layer rejects all five deletes of the
  registered card \<open>c1\<close>, and \<open>deleteCardWithRetry\<close> returns normally: no error is thrown, the
  record is still there.
\<close>

theorem deleteCardWithRetry_counterexample:
  "map_of (cards failingWorld) ''c1'' = Some exampleCard \<and>
   outcomes failingWorld = [Rejects ''EIO'', Rejects ''EIO'', Rejects ''EIO'', Rejects ''EIO'', Rejects ''EIO''] \<and>
   attempts ''c1'' (since failingWorld (snd (deleteCardWithRetry ''c1'' failingWorld))) = 5 \<and>
   fst (deleteCardWithRetry ''c1'' failingWorld) = Returns () \<and>
   \<not> (\<exists>err. fst (deleteCardWithRetry ''c1'' failingWorld) = Throws err) \<and>
   map_of (cardStore (snd (deleteCardWithRetry ''c1'' failingWorld))) ''c1'' = Some exampleCardProp"
  by (simp add: deleteCardWithRetry_def deleteCardWithRetry_loop.simps deleteCard_def
      failingWorld_def example_defs io_defs windowDestroy_def since_def Let_def numeral_eq_Suc)

section \<open>Updating and deleting an avatar\<close>

lemma saveCard_spec:
  "saveCard p s = (r, t) \<Longrightarrow>
     cards t = cards s \<and> avatars t = avatars s \<and> currentWorkspace t = currentWorkspace s \<and>
     destroyed t = destroyed s \<and> avatarUrlStore t = avatarUrlStore s \<and>
     currentWorkspaceId t = currentWorkspaceId s \<and> outcomes t = tl (outcomes s) \<and>
     (case outcomes s of
        Rejects m # rest \<Rightarrow>
          r = Returns () \<and> cardStore t = cardStore s \<and>
          effects t = effects s @ [CardIO ''updateOrCreateCardData'' (id' p), ConsoleError m]
      | NeverSettles # rest \<Rightarrow>
          r = Pending \<and> cardStore t = cardStore s \<and>
          effects t = effects s @ [CardIO ''updateOrCreateCardData'' (id' p)]
      | rest \<Rightarrow>
          r = Returns () \<and> cardStore t = AList.update (id' p) p (cardStore s) \<and>
          effects t = effects s @ [CardIO ''updateOrCreateCardData'' (id' p)])"
  by (auto simp: saveCard_def io_defs split: list.splits outcome.splits)

lemma saveCard_called:
  "saveCard p s = (r, t) \<Longrightarrow>
     \<exists>rest. since s t = CardIO ''updateOrCreateCardData'' (id' p) # rest"
  by (auto simp: saveCard_def io_defs since_def split: list.splits outcome.splits)

lemma saveCard_fulfilled:
  "saveCard p s = (r, t) \<Longrightarrow> nextFulfils s \<Longrightarrow>
     r = Returns () \<and> cardStore t = AList.update (id' p) p (cardStore s)"
  by (auto simp: saveCard_def io_defs nextFulfils_def split: list.splits outcome.splits)

lemma updateAvatar_hydrated:
  assumes "fromObject obj = Inr p"
  shows "(getCardFromUrl e (url p) s = None \<longrightarrow>
            updateAvatar e fromObject obj s =
              (Throws (Error (''The card is not registered in cards: '' @ url p)), s)) \<and>
         (map_of (cards s) (getIdFromUrl e (url p)) = Some c \<longrightarrow>
            (let t = snd (updateAvatar e fromObject obj s);
                 feature = \<lparr>geometry = geometry p, style = style p,
                            condition = condition p, date = date p\<rparr>;
                 c1 = c\<lparr>Card.prop' := (Card.prop' c)
                        \<lparr>CardProp.data := AvatarProp.data p,
                         CardProp.avatars := AList.update (getAvatarLocation e (url p)) feature
                                               (CardProp.avatars (Card.prop' c))\<rparr>\<rparr>
             in cards t = AList.update (getIdFromUrl e (url p)) c1 (cards s) \<and>
                map_of (cards t) (getIdFromUrl e (url p)) = Some c1 \<and>
                map_of (CardProp.avatars (Card.prop' c1)) (getAvatarLocation e (url p)) = Some feature \<and>
                (\<forall>loc. loc \<noteq> getAvatarLocation e (url p) \<longrightarrow>
                   map_of (CardProp.avatars (Card.prop' c1)) loc =
                   map_of (CardProp.avatars (Card.prop' c)) loc) \<and>
                (\<forall>k. k \<noteq> getIdFromUrl e (url p) \<longrightarrow> map_of (cards t) k = map_of (cards s) k) \<and>
                avatars t = avatars s \<and>
                (\<exists>rest. since s t = CardIO ''updateOrCreateCardData'' (id' (Card.prop' c)) # rest) \<and>
                (nextFulfils s \<longrightarrow>
                   fst (updateAvatar e fromObject obj s) = Returns () \<and>
                   cardStore t = AList.update (id' (Card.prop' c)) (Card.prop' c1) (cardStore s))))"
proof (intro conjI impI)
  assume "getCardFromUrl e (url p) s = None"
  with assms show "updateAvatar e fromObject obj s =
      (Throws (Error (''The card is not registered in cards: '' @ url p)), s)"
    by (simp add: updateAvatar_def)
next
  assume c: "map_of (cards s) (getIdFromUrl e (url p)) = Some c"
  define feature where "feature = \<lparr>geometry = geometry p, style = style p,
                            condition = condition p, date = date p\<rparr>"
  define c1 where "c1 = c\<lparr>Card.prop' := (Card.prop' c)
                        \<lparr>CardProp.data := AvatarProp.data p,
                         CardProp.avatars := AList.update (getAvatarLocation e (url p)) feature
                                               (CardProp.avatars (Card.prop' c))\<rparr>\<rparr>"
  define s1 where "s1 = s\<lparr>cards := AList.update (getIdFromUrl e (url p)) c1 (cards s)\<rparr>"
  obtain r t where rt: "saveCard (Card.prop' c1) s1 = (r, t)" by fastforce
  have u: "updateAvatar e fromObject obj s = (r, t)"
    using assms c rt by (simp add: updateAvatar_def getCardFromUrl_def Let_def c1_def feature_def s1_def)
  have i: "id' (Card.prop' c1) = id' (Card.prop' c)" by (simp add: c1_def)
  from saveCard_spec [OF rt] have f: "cards t = cards s1" "avatars t = avatars s1" by simp_all
  from saveCard_called [OF rt] i obtain rest where
    call: "since s1 t = CardIO ''updateOrCreateCardData'' (id' (Card.prop' c)) # rest" by auto
  have e: "since s t = since s1 t" by (simp add: since_def s1_def)
  have n: "nextFulfils s1 = nextFulfils s" by (simp add: nextFulfils_def s1_def)
  have st: "cardStore s1 = cardStore s" by (simp add: s1_def)
  have "cards t = AList.update (getIdFromUrl e (url p)) c1 (cards s) \<and>
        map_of (cards t) (getIdFromUrl e (url p)) = Some c1 \<and>
        map_of (CardProp.avatars (Card.prop' c1)) (getAvatarLocation e (url p)) = Some feature \<and>
        (\<forall>loc. loc \<noteq> getAvatarLocation e (url p) \<longrightarrow>
           map_of (CardProp.avatars (Card.prop' c1)) loc = map_of (CardProp.avatars (Card.prop' c)) loc) \<and>
        (\<forall>k. k \<noteq> getIdFromUrl e (url p) \<longrightarrow> map_of (cards t) k = map_of (cards s) k) \<and>
        avatars t = avatars s \<and>
        (\<exists>rest. since s t = CardIO ''updateOrCreateCardData'' (id' (Card.prop' c)) # rest) \<and>
        (nextFulfils s \<longrightarrow> r = Returns () \<and>
           cardStore t = AList.update (id' (Card.prop' c)) (Card.prop' c1) (cardStore s))"
    using f call e n st i saveCard_fulfilled [OF rt]
    by (auto simp: s1_def update_conv' c1_def)
  then show "let t = snd (updateAvatar e fromObject obj s);
                 feature = \<lparr>geometry = geometry p, style = style p,
                            condition = condition p, date = date p\<rparr>;
                 c1 = c\<lparr>Card.prop' := (Card.prop' c)
                        \<lparr>CardProp.data := AvatarProp.data p,
                         CardProp.avatars := AList.update (getAvatarLocation e (url p)) feature
                                               (CardProp.avatars (Card.prop' c))\<rparr>\<rparr>
             in cards t = AList.update (getIdFromUrl e (url p)) c1 (cards s) \<and>
                map_of (cards t) (getIdFromUrl e (url p)) = Some c1 \<and>
                map_of (CardProp.avatars (Card.prop' c1)) (getAvatarLocation e (url p)) = Some feature \<and>
                (\<forall>loc. loc \<noteq> getAvatarLocation e (url p) \<longrightarrow>
                   map_of (CardProp.avatars (Card.prop' c1)) loc =
                   map_of (CardProp.avatars (Card.prop' c)) loc) \<and>
                (\<forall>k. k \<noteq> getIdFromUrl e (url p) \<longrightarrow> map_of (cards t) k = map_of (cards s) k) \<and>
                avatars t = avatars s \<and>
                (\<exists>rest. since s t = CardIO ''updateOrCreateCardData'' (id' (Card.prop' c)) # rest) \<and>
                (nextFulfils s \<longrightarrow>
                   fst (updateAvatar e fromObject obj s) = Returns () \<and>
                   cardStore t = AList.update (id' (Card.prop' c)) (Card.prop' c1) (cardStore s))"
    unfolding Let_def u c1_def feature_def by (simp add: update_conv')
qed

lemma updateAvatar_hydration_fails:
  "fromObject obj = Inl err \<Longrightarrow> updateAvatar e fromObject obj s = (Throws err, s)"
  by (simp add: updateAvatar_def)

text \<open>
  Claim C4. \<open>updateAvatar\<close> hydrates the payload and throws what the hydration throws. For a
  hydrated AvatarProp whose url's id is not registered in \<open>cards\<close> it throws the not-found
  error (an Error with the message \<open>The card is not registered in cards: \<close> and the url) and
  changes nothing. Otherwise the parent card, in its place in \<open>cards\<close>, gets the avatar's
  data as its data and the avatar's geometry, style, condition and date as the feature under
  the url's location; every other location of the card, every other card and the \<open>avatars\<close>
  registry stay as they were; the persistence layer is asked to write the parent's CardProp,
  and when that request is fulfilled \<open>updateAvatar\<close> returns and the record is the updated
  CardProp.
\<close>

theorem updateAvatar_overwrites_parent:
  "(fromObject obj = Inl err \<longrightarrow> updateAvatar e fromObject obj s = (Throws err, s)) \<and>
   (fromObject obj = Inr p \<longrightarrow>
      (getCardFromUrl e (url p) s = None \<longrightarrow>
         updateAvatar e fromObject obj s =
           (Throws (Error (''The card is not registered in cards: '' @ url p)), s)) \<and>
      (map_of (cards s) (getIdFromUrl e (url p)) = Some c \<longrightarrow>
         (let t = snd (updateAvatar e fromObject obj s);
              feature = \<lparr>geometry = geometry p, style = style p,
                         condition = condition p, date = date p\<rparr>;
              c1 = c\<lparr>Card.prop' := (Card.prop' c)
                     \<lparr>CardProp.data := AvatarProp.data p,
                      CardProp.avatars := AList.update (getAvatarLocation e (url p)) feature
                                            (CardProp.avatars (Card.prop' c))\<rparr>\<rparr>
          in cards t = AList.update (getIdFromUrl e (url p)) c1 (cards s) \<and>
             map_of (cards t) (getIdFromUrl e (url p)) = Some c1 \<and>
             map_of (CardProp.avatars (Card.prop' c1)) (getAvatarLocation e (url p)) = Some feature \<and>
             (\<forall>loc. loc \<noteq> getAvatarLocation e (url p) \<longrightarrow>
                map_of (CardProp.avatars (Card.prop' c1)) loc =
                map_of (CardProp.avatars (Card.prop' c)) loc) \<and>
             (\<forall>k. k \<noteq> getIdFromUrl e (url p) \<longrightarrow> map_of (cards t) k = map_of (cards s) k) \<and>
             avatars t = avatars s \<and>
             (\<exists>rest. since s t = CardIO ''updateOrCreateCardData'' (id' (Card.prop' c)) # rest) \<and>
             (nextFulfils s \<longrightarrow>
                fst (updateAvatar e fromObject obj s) = Returns () \<and>
                cardStore t = AList.update (id' (Card.prop' c)) (Card.prop' c1) (cardStore s)))))"
  using updateAvatar_hydration_fails [of fromObject obj err e s]
    updateAvatar_hydrated [of fromObject obj p e s c]
  by blast

text \<open>
  C4 in the concrete state: the placement \<open>ws1/\<close> of \<open>c1\<close> is updated, and an AvatarProp
  for the unregistered card \<open>c9\<close> is refused.
\<close>

theorem updateAvatar_overwrites_parent_witness:
  "map_of (cards exampleWorld) (getIdFromUrl exampleEnv (url editedAvatarProp)) = Some exampleCard \<and>
   nextFulfils exampleWorld \<and>
   fst (updateAvatar exampleEnv Inr editedAvatarProp exampleWorld) = Returns () \<and>
   cards (snd (updateAvatar exampleEnv Inr editedAvatarProp exampleWorld)) =
     [(''c1'', \<lparr>cardInitializeType = Load,
               Card.prop' = \<lparr>id' = ''c1'', CardProp.data = ''edited'',
                  CardProp.avatars = [(''ws1/'', exampleFeature 7), (''ws2/'', exampleFeature 2)]\<rparr>\<rparr>)] \<and>
   cardStore (snd (updateAvatar exampleEnv Inr editedAvatarProp exampleWorld)) =
     [(''c1'', \<lparr>id' = ''c1'', CardProp.data = ''edited'',
                  CardProp.avatars = [(''ws1/'', exampleFeature 7), (''ws2/'', exampleFeature 2)]\<rparr>)] \<and>
   getCardFromUrl exampleEnv ''ws1/c9'' exampleWorld = None \<and>
   updateAvatar exampleEnv Inr (editedAvatarProp\<lparr>url := ''ws1/c9''\<rparr>) exampleWorld =
     (Throws (Error ''The card is not registered in cards: ws1/c9''), exampleWorld)"
proof -
  have k: "getIdFromUrl exampleEnv (url editedAvatarProp) = ''c1''"
    and l: "getAvatarLocation exampleEnv (url editedAvatarProp) = ''ws1/''"
    by (simp_all add: editedAvatarProp_def exampleEnv_def new_AvatarProp_def idAfterLastSlash_def
        prefixToLastSlash_def Let_def)
  have c: "map_of (cards exampleWorld) (getIdFromUrl exampleEnv (url editedAvatarProp)) = Some exampleCard"
    by (simp add: k exampleWorld_def)
  have n: "nextFulfils exampleWorld" by (simp add: nextFulfils_def exampleWorld_def)
  have g: "getCardFromUrl exampleEnv (url (editedAvatarProp\<lparr>url := ''ws1/c9''\<rparr>)) exampleWorld = None"
    by (simp add: getCardFromUrl_def exampleEnv_def exampleWorld_def idAfterLastSlash_def)
  have f: "\<lparr>geometry = geometry editedAvatarProp, style = style editedAvatarProp,
            condition = condition editedAvatarProp, date = date editedAvatarProp\<rparr> = exampleFeature 7"
    by (simp add: editedAvatarProp_def new_AvatarProp_def exampleFeature_def Let_def)
  have d: "AvatarProp.data editedAvatarProp = ''edited''"
    by (simp add: editedAvatarProp_def new_AvatarProp_def Let_def)
  show ?thesis
    using updateAvatar_overwrites_parent [where fromObject = Inr and obj = editedAvatarProp
        and p = editedAvatarProp and e = exampleEnv and s = exampleWorld and c = exampleCard]
      updateAvatar_overwrites_parent [where fromObject = Inr
        and obj = "editedAvatarProp\<lparr>url := ''ws1/c9''\<rparr>"
        and p = "editedAvatarProp\<lparr>url := ''ws1/c9''\<rparr>"
        and e = exampleEnv and s = exampleWorld and c = exampleCard]
      c n g
    by (simp add: Let_def k l f d exampleWorld_def exampleCard_def exampleCardProp_def)
qed

lemma deleteAvatarUrl_spec:
  "CardIO_deleteAvatarUrl ws u s = (r, t) \<Longrightarrow>
     cards t = cards s \<and> avatars t = avatars s \<and> currentWorkspace t = currentWorkspace s \<and>
     destroyed t = destroyed s \<and> cardStore t = cardStore s \<and>
     currentWorkspaceId t = currentWorkspaceId s \<and> outcomes t = tl (outcomes s) \<and>
     (nextFulfils s \<longrightarrow>
        r = Returns () \<and>
        avatarUrlStore t = AList.update ws (filter (\<lambda>v. v \<noteq> u) (urlList ws s)) (avatarUrlStore s))"
  by (auto simp: io_defs nextFulfils_def urlList_def split: list.splits outcome.splits)

lemma windowDestroy_more [simp]:
  "avatars (windowDestroy a s) = AList.delete (url (Avatar.prop' a)) (avatars s)"
  "destroyed (windowDestroy a s) = window a # destroyed s"
  "currentWorkspace (windowDestroy a s) = currentWorkspace s"
  "currentWorkspaceId (windowDestroy a s) = currentWorkspaceId s"
  "avatarUrlStore (windowDestroy a s) = avatarUrlStore s"
  by (simp_all add: windowDestroy_def Let_def)

lemma delete_delete [simp]: "AList.delete k (AList.delete k al) = AList.delete k al"
  by (simp add: AList.delete_eq)

lemma keys_update_present:
  "map_of al k = Some v \<Longrightarrow> fst ` set (AList.update k w al) = fst ` set al"
  by (auto simp: dom_update dest: map_of_SomeD intro: rev_image_eqI)

lemma saveCard_store_keys:
  assumes "saveCard p s = (r, t)"
  shows "fst ` set (cardStore s) \<subseteq> fst ` set (cardStore t)"
proof -
  from saveCard_spec [OF assms]
  have "cardStore t = cardStore s \<or> cardStore t = AList.update (id' p) p (cardStore s)"
    by (auto split: list.splits outcome.splits)
  then show ?thesis
  proof
    assume "cardStore t = cardStore s"
    then show ?thesis by simp
  next
    assume h: "cardStore t = AList.update (id' p) p (cardStore s)"
    show ?thesis unfolding h dom_update by blast
  qed
qed

lemma deleteAvatar_card_keys:
  assumes "deleteAvatar_card e u s = (r, t)"
  shows "fst ` set (cards t) = fst ` set (cards s) \<and> fst ` set (cardStore s) \<subseteq> fst ` set (cardStore t)"
proof (cases "map_of (cards s) (getIdFromUrl e u)")
  case None
  with assms show ?thesis by (simp add: deleteAvatar_card_def getCardFromUrl_def)
next
  case (Some c)
  define c1 where "c1 = c\<lparr>Card.prop' := (Card.prop' c)
                    \<lparr>CardProp.avatars := AList.delete (getAvatarLocation e u)
                                           (CardProp.avatars (Card.prop' c))\<rparr>\<rparr>"
  let ?s1 = "s\<lparr>cards := AList.update (getIdFromUrl e u) c1 (cards s)\<rparr>"
  have rt: "saveCard (Card.prop' c1) ?s1 = (r, t)"
    using assms Some by (simp add: deleteAvatar_card_def getCardFromUrl_def Let_def c1_def)
  from saveCard_spec [OF rt] have "cards t = AList.update (getIdFromUrl e u) c1 (cards s)" by simp
  with keys_update_present [OF Some] saveCard_store_keys [OF rt] show ?thesis by simp
qed

lemma deleteAvatar_keeps_cards:
  "fst ` set (cards (snd (deleteAvatar e u s))) = fst ` set (cards s) \<and>
   fst ` set (cardStore s) \<subseteq> fst ` set (cardStore (snd (deleteAvatar e u s)))"
proof (cases "map_of (avatars s) u")
  case None
  then show ?thesis
    using deleteAvatar_card_keys [of e u s]
    by (cases "deleteAvatar_card e u s") (simp add: deleteAvatar_def)
next
  case (Some a)
  let ?s1 = "windowDestroy a (s\<lparr>avatars := AList.delete u (avatars s)\<rparr>)"
  obtain r2 s2 where d: "CardIO_deleteAvatarUrl (currentWorkspaceId ?s1) u ?s1 = (r2, s2)" by fastforce
  from deleteAvatarUrl_spec [OF d] have s2: "cards s2 = cards s" "cardStore s2 = cardStore s" by simp_all
  show ?thesis
  proof (cases r2)
    case (Returns v)
    let ?s3 = "s2\<lparr>currentWorkspace :=
                 (case currentWorkspace s2 of None \<Rightarrow> None
                  | Some ws \<Rightarrow> Some (filter (\<lambda>avatarUrl. avatarUrl \<noteq> u) ws))\<rparr>"
    obtain r t where rt: "deleteAvatar_card e u ?s3 = (r, t)" by fastforce
    have "deleteAvatar e u s = (r, t)"
      using Some d Returns rt by (simp add: deleteAvatar_def Let_def)
    with deleteAvatar_card_keys [OF rt] s2 show ?thesis by simp
  next
    case (Throws err)
    with Some d s2 show ?thesis by (simp add: deleteAvatar_def Let_def)
  next
    case Pending
    with Some d s2 show ?thesis by (simp add: deleteAvatar_def Let_def)
  qed
qed

lemma deleteAvatar_removes_one:
  assumes a: "map_of (avatars s) u = Some a" and inv: "url (Avatar.prop' a) = u"
    and c: "map_of (cards s) (getIdFromUrl e u) = Some c"
    and f1: "nextFulfils s"
  shows "let t = snd (deleteAvatar e u s);
             c1 = c\<lparr>Card.prop' := (Card.prop' c)
                    \<lparr>CardProp.avatars := AList.delete (getAvatarLocation e u)
                                           (CardProp.avatars (Card.prop' c))\<rparr>\<rparr>
         in avatars t = AList.delete u (avatars s) \<and>
            destroyed t = window a # destroyed s \<and>
            currentWorkspace t = map_option (filter (\<lambda>v. v \<noteq> u)) (currentWorkspace s) \<and>
            urlList (currentWorkspaceId s) t = filter (\<lambda>v. v \<noteq> u) (urlList (currentWorkspaceId s) s) \<and>
            cards t = AList.update (getIdFromUrl e u) c1 (cards s) \<and>
            (nextFulfils (s\<lparr>outcomes := tl (outcomes s)\<rparr>) \<longrightarrow>
               fst (deleteAvatar e u s) = Returns () \<and>
               cardStore t = AList.update (id' (Card.prop' c)) (Card.prop' c1) (cardStore s))"
proof -
  define c1 where "c1 = c\<lparr>Card.prop' := (Card.prop' c)
                    \<lparr>CardProp.avatars := AList.delete (getAvatarLocation e u)
                                           (CardProp.avatars (Card.prop' c))\<rparr>\<rparr>"
  let ?s1 = "windowDestroy a (s\<lparr>avatars := AList.delete u (avatars s)\<rparr>)"
  obtain r2 s2 where d: "CardIO_deleteAvatarUrl (currentWorkspaceId ?s1) u ?s1 = (r2, s2)" by fastforce
  have n1: "nextFulfils ?s1" using f1 by (simp add: nextFulfils_def)
  from deleteAvatarUrl_spec [OF d] n1 inv
  have s2: "cards s2 = cards s" "avatars s2 = AList.delete u (avatars s)"
    "currentWorkspace s2 = currentWorkspace s" "destroyed s2 = window a # destroyed s"
    "cardStore s2 = cardStore s" "currentWorkspaceId s2 = currentWorkspaceId s"
    "outcomes s2 = tl (outcomes s)" "r2 = Returns ()"
    "avatarUrlStore s2 = AList.update (currentWorkspaceId s)
        (filter (\<lambda>v. v \<noteq> u) (urlList (currentWorkspaceId s) s)) (avatarUrlStore s)"
    by (simp_all add: urlList_def)
  let ?s3 = "s2\<lparr>currentWorkspace :=
               (case currentWorkspace s2 of None \<Rightarrow> None
                | Some ws \<Rightarrow> Some (filter (\<lambda>avatarUrl. avatarUrl \<noteq> u) ws))\<rparr>"
  let ?s4 = "?s3\<lparr>cards := AList.update (getIdFromUrl e u) c1 (cards ?s3)\<rparr>"
  obtain r t where rt: "saveCard (Card.prop' c1) ?s4 = (r, t)" by fastforce
  have dc: "deleteAvatar_card e u ?s3 = (r, t)"
    using c s2(1) rt by (simp add: deleteAvatar_card_def getCardFromUrl_def Let_def c1_def)
  have da: "deleteAvatar e u s = (r, t)"
    using a d s2(8) dc by (simp add: deleteAvatar_def Let_def)
  have i: "id' (Card.prop' c1) = id' (Card.prop' c)" by (simp add: c1_def)
  have n4: "nextFulfils ?s4 = nextFulfils (s\<lparr>outcomes := tl (outcomes s)\<rparr>)"
    using s2(7) by (simp add: nextFulfils_def)
  from saveCard_spec [OF rt] s2
  have t: "cards t = AList.update (getIdFromUrl e u) c1 (cards s)"
    "avatars t = AList.delete u (avatars s)" "destroyed t = window a # destroyed s"
    "currentWorkspace t = map_option (filter (\<lambda>v. v \<noteq> u)) (currentWorkspace s)"
    "avatarUrlStore t = AList.update (currentWorkspaceId s)
        (filter (\<lambda>v. v \<noteq> u) (urlList (currentWorkspaceId s) s)) (avatarUrlStore s)"
    by (simp_all split: option.splits)
  have ul: "urlList (currentWorkspaceId s) t = filter (\<lambda>v. v \<noteq> u) (urlList (currentWorkspaceId s) s)"
    using t(5) by (simp add: urlList_def update_conv')
  have p: "nextFulfils (s\<lparr>outcomes := tl (outcomes s)\<rparr>) \<longrightarrow>
      r = Returns () \<and> cardStore t = AList.update (id' (Card.prop' c)) (Card.prop' c1) (cardStore s)"
    using saveCard_fulfilled [OF rt] n4 i s2(5) by simp
  show ?thesis
    unfolding Let_def da c1_def [symmetric] using t ul p by simp
qed

text \<open>
  Claim C6. Whatever the url and whatever the persistence layer answers, \<open>deleteAvatar\<close>
  leaves every card registered and deletes no persisted record. For a registered avatar
  (registered under its own url) of a registered card, when the delete of the url from the
  placement list is fulfilled: only this avatar leaves \<open>avatars\<close> and every other entry is
  as it was, only its window is destroyed, the url leaves the workspace's list in memory
  and in the persistence layer, the parent card stays in \<open>cards\<close> having lost only the
  url's location key, every other card is unchanged, and when the write of the parent is
  fulfilled too the record is the parent's new CardProp.
\<close>

theorem deleteAvatar_removes_one_placement:
  "fst ` set (cards (snd (deleteAvatar e u s))) = fst ` set (cards s) \<and>
   fst ` set (cardStore s) \<subseteq> fst ` set (cardStore (snd (deleteAvatar e u s))) \<and>
   (map_of (avatars s) u = Some a \<and> url (Avatar.prop' a) = u \<and>
    map_of (cards s) (getIdFromUrl e u) = Some c \<and> nextFulfils s \<longrightarrow>
      (let t = snd (deleteAvatar e u s);
           c1 = c\<lparr>Card.prop' := (Card.prop' c)
                  \<lparr>CardProp.avatars := AList.delete (getAvatarLocation e u)
                                         (CardProp.avatars (Card.prop' c))\<rparr>\<rparr>
       in avatars t = AList.delete u (avatars s) \<and>
          map_of (avatars t) u = None \<and>
          (\<forall>v. v \<noteq> u \<longrightarrow> map_of (avatars t) v = map_of (avatars s) v) \<and>
          destroyed t = window a # destroyed s \<and>
          currentWorkspace t = map_option (filter (\<lambda>v. v \<noteq> u)) (currentWorkspace s) \<and>
          urlList (currentWorkspaceId s) t = filter (\<lambda>v. v \<noteq> u) (urlList (currentWorkspaceId s) s) \<and>
          cards t = AList.update (getIdFromUrl e u) c1 (cards s) \<and>
          map_of (cards t) (getIdFromUrl e u) = Some c1 \<and>
          (\<forall>k. k \<noteq> getIdFromUrl e u \<longrightarrow> map_of (cards t) k = map_of (cards s) k) \<and>
          map_of (CardProp.avatars (Card.prop' c1)) (getAvatarLocation e u) = None \<and>
          (\<forall>loc. loc \<noteq> getAvatarLocation e u \<longrightarrow>
             map_of (CardProp.avatars (Card.prop' c1)) loc = map_of (CardProp.avatars (Card.prop' c)) loc) \<and>
          (nextFulfils (s\<lparr>outcomes := tl (outcomes s)\<rparr>) \<longrightarrow>
             fst (deleteAvatar e u s) = Returns () \<and>
             cardStore t = AList.update (id' (Card.prop' c)) (Card.prop' c1) (cardStore s))))"
proof (intro conjI impI)
  show "fst ` set (cards (snd (deleteAvatar e u s))) = fst ` set (cards s)"
    and "fst ` set (cardStore s) \<subseteq> fst ` set (cardStore (snd (deleteAvatar e u s)))"
    using deleteAvatar_keeps_cards [of e u s] by simp_all
next
  assume h: "map_of (avatars s) u = Some a \<and> url (Avatar.prop' a) = u \<and>
    map_of (cards s) (getIdFromUrl e u) = Some c \<and> nextFulfils s"
  then have "let t = snd (deleteAvatar e u s);
             c1 = c\<lparr>Card.prop' := (Card.prop' c)
                    \<lparr>CardProp.avatars := AList.delete (getAvatarLocation e u)
                                           (CardProp.avatars (Card.prop' c))\<rparr>\<rparr>
         in avatars t = AList.delete u (avatars s) \<and>
            destroyed t = window a # destroyed s \<and>
            currentWorkspace t = map_option (filter (\<lambda>v. v \<noteq> u)) (currentWorkspace s) \<and>
            urlList (currentWorkspaceId s) t = filter (\<lambda>v. v \<noteq> u) (urlList (currentWorkspaceId s) s) \<and>
            cards t = AList.update (getIdFromUrl e u) c1 (cards s) \<and>
            (nextFulfils (s\<lparr>outcomes := tl (outcomes s)\<rparr>) \<longrightarrow>
               fst (deleteAvatar e u s) = Returns () \<and>
               cardStore t = AList.update (id' (Card.prop' c)) (Card.prop' c1) (cardStore s))"
    by (intro deleteAvatar_removes_one) simp_all
  then show "let t = snd (deleteAvatar e u s);
           c1 = c\<lparr>Card.prop' := (Card.prop' c)
                  \<lparr>CardProp.avatars := AList.delete (getAvatarLocation e u)
                                         (CardProp.avatars (Card.prop' c))\<rparr>\<rparr>
       in avatars t = AList.delete u (avatars s) \<and>
          map_of (avatars t) u = None \<and>
          (\<forall>v. v \<noteq> u \<longrightarrow> map_of (avatars t) v = map_of (avatars s) v) \<and>
          destroyed t = window a # destroyed s \<and>
          currentWorkspace t = map_option (filter (\<lambda>v. v \<noteq> u)) (currentWorkspace s) \<and>
          urlList (currentWorkspaceId s) t = filter (\<lambda>v. v \<noteq> u) (urlList (currentWorkspaceId s) s) \<and>
          cards t = AList.update (getIdFromUrl e u) c1 (cards s) \<and>
          map_of (cards t) (getIdFromUrl e u) = Some c1 \<and>
          (\<forall>k. k \<noteq> getIdFromUrl e u \<longrightarrow> map_of (cards t) k = map_of (cards s) k) \<and>
          map_of (CardProp.avatars (Card.prop' c1)) (getAvatarLocation e u) = None \<and>
          (\<forall>loc. loc \<noteq> getAvatarLocation e u \<longrightarrow>
             map_of (CardProp.avatars (Card.prop' c1)) loc = map_of (CardProp.avatars (Card.prop' c)) loc) \<and>
          (nextFulfils (s\<lparr>outcomes := tl (outcomes s)\<rparr>) \<longrightarrow>
             fst (deleteAvatar e u s) = Returns () \<and>
             cardStore t = AList.update (id' (Card.prop' c)) (Card.prop' c1) (cardStore s))"
    by (simp add: Let_def update_conv' delete_conv')
qed

text \<open>
  C6 in the concrete state: the avatar \<open>ws1/c1\<close> of the card \<open>c1\<close>, which has the two
  placements \<open>ws1/\<close> and \<open>ws2/\<close>, is deleted; the avatar \<open>ws2/c1\<close> and the card stay.
\<close>

theorem deleteAvatar_removes_one_placement_witness:
  "map_of (avatars exampleWorld) ''ws1/c1'' = Some (exampleAvatar ''ws1/c1'' 1 0) \<and>
   url (Avatar.prop' (exampleAvatar ''ws1/c1'' 1 0)) = ''ws1/c1'' \<and>
   map_of (cards exampleWorld) (getIdFromUrl exampleEnv ''ws1/c1'') = Some exampleCard \<and>
   nextFulfils exampleWorld \<and>
   fst (deleteAvatar exampleEnv ''ws1/c1'' exampleWorld) = Returns () \<and>
   avatars (snd (deleteAvatar exampleEnv ''ws1/c1'' exampleWorld)) =
     [(''ws2/c1'', exampleAvatar ''ws2/c1'' 2 1)] \<and>
   destroyed (snd (deleteAvatar exampleEnv ''ws1/c1'' exampleWorld)) = [0] \<and>
   currentWorkspace (snd (deleteAvatar exampleEnv ''ws1/c1'' exampleWorld)) = Some [''ws2/c1''] \<and>
   cards (snd (deleteAvatar exampleEnv ''ws1/c1'' exampleWorld)) =
     [(''c1'', \<lparr>cardInitializeType = Load,
               Card.prop' = \<lparr>id' = ''c1'', CardProp.data = ''hello'',
                  CardProp.avatars = [(''ws2/'', exampleFeature 2)]\<rparr>\<rparr>)] \<and>
   cardStore (snd (deleteAvatar exampleEnv ''ws1/c1'' exampleWorld)) =
     [(''c1'', \<lparr>id' = ''c1'', CardProp.data = ''hello'',
                  CardProp.avatars = [(''ws2/'', exampleFeature 2)]\<rparr>)]"
proof -
  have k: "getIdFromUrl exampleEnv ''ws1/c1'' = ''c1''"
    and l: "getAvatarLocation exampleEnv ''ws1/c1'' = ''ws1/''"
    by (simp_all add: exampleEnv_def idAfterLastSlash_def prefixToLastSlash_def)
  have a: "map_of (avatars exampleWorld) ''ws1/c1'' = Some (exampleAvatar ''ws1/c1'' 1 0)"
    and c: "map_of (cards exampleWorld) (getIdFromUrl exampleEnv ''ws1/c1'') = Some exampleCard"
    by (simp_all add: k exampleWorld_def)
  have i: "url (Avatar.prop' (exampleAvatar ''ws1/c1'' 1 0)) = ''ws1/c1''"
    and w: "window (exampleAvatar ''ws1/c1'' 1 0) = 0"
    by (simp_all add: exampleAvatar_def new_AvatarProp_def Let_def)
  have n: "nextFulfils exampleWorld" "nextFulfils (exampleWorld\<lparr>outcomes := tl (outcomes exampleWorld)\<rparr>)"
    by (simp_all add: nextFulfils_def exampleWorld_def)
  show ?thesis
    using deleteAvatar_removes_one_placement [where e = exampleEnv and u = "''ws1/c1''"
        and s = exampleWorld and a = "exampleAvatar ''ws1/c1'' 1 0" and c = exampleCard] a c i n
    by (simp add: Let_def k l w exampleWorld_def exampleCard_def exampleCardProp_def AList.delete_eq)
qed

section \<open>Best-effort creation\<close>

lemma nextOutcome_spec:
  "nextOutcome s = (oc, t) \<Longrightarrow>
     t = s\<lparr>outcomes := tl (outcomes s)\<rparr> \<and>
     oc = (case outcomes s of [] \<Rightarrow> Fulfils | o1 # os \<Rightarrow> o1)"
  by (auto simp: nextOutcome_def split: list.splits)

lemma finishRenderCard_fields [simp]:
  "cards (finishRenderCard u s) = cards s"
  "cardStore (finishRenderCard u s) = cardStore s"
  "currentWorkspace (finishRenderCard u s) = currentWorkspace s"
  "currentWorkspaceUrl (finishRenderCard u s) = currentWorkspaceUrl s"
  "currentWorkspaceId (finishRenderCard u s) = currentWorkspaceId s"
  "outcomes (finishRenderCard u s) = outcomes s"
  "effects (finishRenderCard u s) = effects s"
  "destroyed (finishRenderCard u s) = destroyed s"
  by (simp_all add: finishRenderCard_def split: option.splits)

lemma render_spec:
  "render a s = (r, t) \<Longrightarrow>
     cards t = cards s \<and> cardStore t = cardStore s \<and> currentWorkspace t = currentWorkspace s \<and>
     currentWorkspaceUrl t = currentWorkspaceUrl s \<and> currentWorkspaceId t = currentWorkspaceId s \<and>
     destroyed t = destroyed s \<and>
     outcomes t = tl (outcomes s) \<and> (\<exists>es. effects t = effects s @ es) \<and>
     (case outcomes s of
        Rejects m # rest \<Rightarrow> r = Throws (Error (''Error in render(): '' @ m))
      | NeverSettles # rest \<Rightarrow> r = Pending
      | rest \<Rightarrow> r = Returns ())"
  by (auto simp: render_def nextOutcome_def split: list.splits outcome.splits)

lemma addAvatarUrl_spec:
  "CardIO_addAvatarUrl ws u s = (r, t) \<Longrightarrow>
     cards t = cards s \<and> cardStore t = cardStore s \<and> currentWorkspace t = currentWorkspace s \<and>
     currentWorkspaceUrl t = currentWorkspaceUrl s \<and> currentWorkspaceId t = currentWorkspaceId s \<and>
     destroyed t = destroyed s \<and> avatars t = avatars s \<and>
     outcomes t = tl (outcomes s) \<and> (\<exists>es. effects t = effects s @ es) \<and>
     (case outcomes s of
        Rejects m # rest \<Rightarrow> r = Throws (IOFailure m)
      | NeverSettles # rest \<Rightarrow> r = Pending
      | rest \<Rightarrow> r = Returns ())"
  by (auto simp: CardIO_addAvatarUrl_def nextOutcome_def split: list.splits outcome.splits)

lemma matching_simps [simp]:
  "matching e s [] = []"
  "matching e s (loc # locs) =
     (if strMatch e loc (currentWorkspaceUrl s) then loc # matching e s locs else matching e s locs)"
  by (simp_all add: matching_def)

lemma matching_cong: "currentWorkspaceUrl t = currentWorkspaceUrl s \<Longrightarrow> matching e t locs = matching e s locs"
  by (simp add: matching_def)

lemma in_take_Suc_Suc:
  "v \<in> set (take (Suc (Suc j)) vs) \<Longrightarrow>
     (vs \<noteq> [] \<and> v = hd vs) \<or> (tl vs \<noteq> [] \<and> v = hd (tl vs)) \<or> v \<in> set (take j (tl (tl vs)))"
  by (cases vs; cases "tl vs") auto

lemma in_set_tl: "v \<in> set (tl vs) \<Longrightarrow> v \<in> set vs"
  by (cases vs) auto

lemma rejected_throws:
  assumes "case os of Rejects m # rest \<Rightarrow> r = Throws (f m) | NeverSettles # rest \<Rightarrow> r = Pending
           | rest \<Rightarrow> r = Returns ()"
  shows "(os \<noteq> [] \<and> hd os = Rejects m \<longrightarrow> (\<exists>err. r = Throws err)) \<and>
         (r = Pending \<longrightarrow> NeverSettles \<in> set os)"
  using assms by (auto split: list.splits outcome.splits)

text \<open>One pass of the loop of createCard: two requests, whose answers decide the promises.\<close>

lemma createCard_loop_spec:
  assumes "currentWorkspace s \<noteq> None"
  shows "\<exists>promises' t es.
     createCard_loop e k locs promises s = (Inr promises', t) \<and>
     cards t = cards s \<and> cardStore t = cardStore s \<and> currentWorkspace t \<noteq> None \<and>
     currentWorkspaceUrl t = currentWorkspaceUrl s \<and>
     outcomes t = drop (2 * length (matching e s locs)) (outcomes s) \<and>
     effects t = effects s @ es \<and> set promises \<subseteq> set promises' \<and>
     (Pending \<in> set promises' \<longrightarrow> Pending \<in> set promises \<or> NeverSettles \<in> set (outcomes s)) \<and>
     ((\<exists>m. Rejects m \<in> set (take (2 * length (matching e s locs)) (outcomes s))) \<longrightarrow>
        (\<exists>err. Throws err \<in> set promises'))"
  using assms
proof (induction locs arbitrary: promises s)
  case Nil
  then show ?case by (simp add: exI [of _ "[]"])
next
  case (Cons loc locs)
  show ?case
  proof (cases "strMatch e loc (currentWorkspaceUrl s)")
    case False
    with Cons.IH [OF Cons.prems, of promises] show ?thesis by simp
  next
    case True
    obtain ws where ws: "currentWorkspace s = Some ws" using Cons.prems by (cases "currentWorkspace s") auto
    let ?avatarUrl = "loc @ k"
    obtain avatar s1 where na: "new_Avatar (new_AvatarProp e ?avatarUrl (getCardData e ?avatarUrl s)
                                             (getAvatarProp e ?avatarUrl s)) s = (avatar, s1)"
      by fastforce
    let ?s2 = "s1\<lparr>avatars := AList.update ?avatarUrl avatar (avatars s1)\<rparr>"
    obtain r1 s3 where rn: "render avatar ?s2 = (r1, s3)" by fastforce
    let ?s4 = "s3\<lparr>currentWorkspace := Some (ws @ [?avatarUrl])\<rparr>"
    obtain r2 s5 where ad: "CardIO_addAvatarUrl (currentWorkspaceId ?s4) ?avatarUrl ?s4 = (r2, s5)"
      by fastforce
    have s1: "cards s1 = cards s" "cardStore s1 = cardStore s" "currentWorkspace s1 = Some ws"
      "currentWorkspaceUrl s1 = currentWorkspaceUrl s" "outcomes s1 = outcomes s"
      "effects s1 = effects s @ [WindowCreated (nextWindow s)]"
      using na ws by (auto simp: new_Avatar_def)
    from render_spec [OF rn] s1 obtain es3 where
      s3: "cards s3 = cards s" "cardStore s3 = cardStore s" "currentWorkspace s3 = Some ws"
      "currentWorkspaceUrl s3 = currentWorkspaceUrl s" "outcomes s3 = tl (outcomes s)"
      "effects s3 = effects s @ [WindowCreated (nextWindow s)] @ es3"
      and r1: "(case outcomes s of
        Rejects m # rest \<Rightarrow> r1 = Throws (Error (''Error in render(): '' @ m))
      | NeverSettles # rest \<Rightarrow> r1 = Pending
      | rest \<Rightarrow> r1 = Returns ())"
      by auto
    from addAvatarUrl_spec [OF ad] s3 obtain es5 where
      s5: "cards s5 = cards s" "cardStore s5 = cardStore s" "currentWorkspace s5 = Some (ws @ [?avatarUrl])"
      "currentWorkspaceUrl s5 = currentWorkspaceUrl s" "outcomes s5 = tl (tl (outcomes s))"
      "effects s5 = effects s @ [WindowCreated (nextWindow s)] @ es3 @ es5"
      and r2: "(case tl (outcomes s) of
        Rejects m # rest \<Rightarrow> r2 = Throws (IOFailure m)
      | NeverSettles # rest \<Rightarrow> r2 = Pending
      | rest \<Rightarrow> r2 = Returns ())"
      by auto
    have step: "createCard_loop e k (loc # locs) promises s =
        createCard_loop e k locs (promises @ [r1, r2]) s5"
      using True na rn ws s3(3) ad by (simp add: Let_def)
    have m5: "matching e s5 locs = matching e s locs" using s5(4) by (rule matching_cong)
    have len: "2 * length (matching e s (loc # locs)) = Suc (Suc (2 * length (matching e s locs)))"
      using True by simp
    have "currentWorkspace s5 \<noteq> None" using s5(3) by simp
    from Cons.IH [OF this, of "promises @ [r1, r2]"] obtain promises' t es where
      ih: "createCard_loop e k locs (promises @ [r1, r2]) s5 = (Inr promises', t)"
      "cards t = cards s5" "cardStore t = cardStore s5" "currentWorkspace t \<noteq> None"
      "currentWorkspaceUrl t = currentWorkspaceUrl s5"
      "outcomes t = drop (2 * length (matching e s5 locs)) (outcomes s5)"
      "effects t = effects s5 @ es"
      "set (promises @ [r1, r2]) \<subseteq> set promises'"
      "Pending \<in> set promises' \<longrightarrow> Pending \<in> set (promises @ [r1, r2]) \<or> NeverSettles \<in> set (outcomes s5)"
      "(\<exists>m. Rejects m \<in> set (take (2 * length (matching e s5 locs)) (outcomes s5))) \<longrightarrow>
        (\<exists>err. Throws err \<in> set promises')"
      by blast
    have 1: "createCard_loop e k (loc # locs) promises s = (Inr promises', t)"
      using step ih(1) by simp
    have 2: "outcomes t = drop (2 * length (matching e s (loc # locs))) (outcomes s)"
      unfolding len ih(6) m5 s5(5) by (simp add: drop_Suc)
    have 3: "effects t = effects s @ ([WindowCreated (nextWindow s)] @ es3 @ es5 @ es)"
      using ih(7) s5(6) by simp
    have p1: "r1 = Pending \<longrightarrow> NeverSettles \<in> set (outcomes s)"
      using rejected_throws [OF r1] by simp
    have p2: "r2 = Pending \<longrightarrow> NeverSettles \<in> set (outcomes s)"
      using rejected_throws [OF r2] in_set_tl [of NeverSettles "outcomes s"] by blast
    have p3: "NeverSettles \<in> set (outcomes s5) \<longrightarrow> NeverSettles \<in> set (outcomes s)"
      unfolding s5(5) using in_set_tl [of NeverSettles "outcomes s"]
        in_set_tl [of NeverSettles "tl (outcomes s)"] by blast
    have 4: "Pending \<in> set promises' \<longrightarrow> Pending \<in> set promises \<or> NeverSettles \<in> set (outcomes s)"
      using ih(9) p1 p2 p3 by auto
    have 5: "\<exists>err. Throws err \<in> set promises'"
      if "Rejects m \<in> set (take (2 * length (matching e s (loc # locs))) (outcomes s))" for m
    proof -
      from that have "Rejects m \<in> set (take (Suc (Suc (2 * length (matching e s locs)))) (outcomes s))"
        unfolding len .
      from in_take_Suc_Suc [OF this]
      consider "outcomes s \<noteq> []" "hd (outcomes s) = Rejects m"
        | "tl (outcomes s) \<noteq> []" "hd (tl (outcomes s)) = Rejects m"
        | "Rejects m \<in> set (take (2 * length (matching e s locs)) (tl (tl (outcomes s))))"
        by metis
      then show ?thesis
      proof cases
        case 1
        with rejected_throws [OF r1, of m] obtain err where "r1 = Throws err" by auto
        with ih(8) show ?thesis by auto
      next
        case 2
        with rejected_throws [OF r2, of m] obtain err where "r2 = Throws err" by auto
        with ih(8) show ?thesis by auto
      next
        case 3
        with ih(10) m5 s5(5) show ?thesis by auto
      qed
    qed
    have 6: "set promises \<subseteq> set promises'" using ih(8) by simp
    have 7: "cards t = cards s" "cardStore t = cardStore s"
      "currentWorkspaceUrl t = currentWorkspaceUrl s"
      using ih(2,3,5) s5(1,2,4) by simp_all
    have 8: "(\<exists>m. Rejects m \<in> set (take (2 * length (matching e s (loc # locs))) (outcomes s))) \<longrightarrow>
        (\<exists>err. Throws err \<in> set promises')"
      using 5 by blast
    show ?thesis
      by (intro exI [of _ promises'] exI [of _ t]
          exI [of _ "[WindowCreated (nextWindow s)] @ es3 @ es5 @ es"] conjI)
        (fact 1 7 ih(4) 2 3 6 4 8)+
  qed
qed

lemma saveCard_settles:
  assumes "saveCard p s = (r, t)" and "NeverSettles \<notin> set (outcomes s)"
  shows "r = Returns () \<and> (\<exists>es. effects t = effects s @ CardIO ''updateOrCreateCardData'' (id' p) # es)"
  using saveCard_spec [OF assms(1)] assms(2)
  by (auto split: list.splits outcome.splits)

lemma thrown_nonempty: "Throws err \<in> set rs \<Longrightarrow> [x. Throws x \<leftarrow> rs] \<noteq> []"
  by (induction rs) (auto split: result.splits)

lemma promiseAll_thrown: "Throws err \<in> set rs \<Longrightarrow> \<exists>x. promiseAll rs = Throws x"
  using thrown_nonempty [of err rs] by (cases "[x. Throws x \<leftarrow> rs]") (auto simp: promiseAll_def)

lemma promiseAll_settles: "Pending \<notin> set rs \<Longrightarrow> promiseAll rs \<noteq> Pending"
  by (auto simp: promiseAll_def split: list.splits)

lemma render_logged:
  "render a s = (r, t) \<Longrightarrow> \<exists>es. effects t = effects s @ es \<and> logged es = []"
  by (auto simp: render_def nextOutcome_def emit_def split: list.splits outcome.splits)

lemma addAvatarUrl_logged:
  "CardIO_addAvatarUrl ws u s = (r, t) \<Longrightarrow> \<exists>es. effects t = effects s @ es \<and> logged es = []"
  by (auto simp: CardIO_addAvatarUrl_def nextOutcome_def emit_def split: list.splits outcome.splits)

lemma thrown_rejected:
  assumes "case os of Rejects m # rest \<Rightarrow> r = Throws (f m) | NeverSettles # rest \<Rightarrow> r = Pending
           | rest \<Rightarrow> r = Returns ()"
    and "r = Throws err"
  shows "\<exists>m rest. os = Rejects m # rest \<and> err = f m"
  using assms by (auto split: list.splits outcome.splits)

lemma in_take_tl_tl: "v \<in> set (take j (tl (tl vs))) \<Longrightarrow> v \<in> set (take (Suc (Suc j)) vs)"
  by (cases vs; cases "tl vs") auto

text \<open>
  The loop logs nothing, and a rejected promise of the array is a request of the loop that
  the outside world rejected.
\<close>

lemma createCard_loop_thrown:
  assumes "createCard_loop e k locs promises s = (Inr promises', t)"
  shows "(\<exists>es. effects t = effects s @ es \<and> logged es = []) \<and>
     (\<forall>err. Throws err \<in> set promises' \<longrightarrow>
        Throws err \<in> set promises \<or>
        (\<exists>m. Rejects m \<in> set (take (2 * length (matching e s locs)) (outcomes s)) \<and>
             (err = Error (''Error in render(): '' @ m) \<or> err = IOFailure m)))"
  using assms
proof (induction locs arbitrary: promises s)
  case Nil
  then show ?case by (simp add: exI [of _ "[]"])
next
  case (Cons loc locs)
  show ?case
  proof (cases "strMatch e loc (currentWorkspaceUrl s)")
    case False
    with Cons.IH [of promises s] Cons.prems show ?thesis by simp
  next
    case True
    let ?avatarUrl = "loc @ k"
    obtain avatar s1 where na: "new_Avatar (new_AvatarProp e ?avatarUrl (getCardData e ?avatarUrl s)
                                             (getAvatarProp e ?avatarUrl s)) s = (avatar, s1)"
      by fastforce
    let ?s2 = "s1\<lparr>avatars := AList.update ?avatarUrl avatar (avatars s1)\<rparr>"
    obtain r1 s3 where rn: "render avatar ?s2 = (r1, s3)" by fastforce
    obtain ws where ws: "currentWorkspace s3 = Some ws"
      using Cons.prems True na rn by (cases "currentWorkspace s3") (simp_all add: Let_def)
    let ?s4 = "s3\<lparr>currentWorkspace := Some (ws @ [?avatarUrl])\<rparr>"
    obtain r2 s5 where ad: "CardIO_addAvatarUrl (currentWorkspaceId ?s4) ?avatarUrl ?s4 = (r2, s5)"
      by fastforce
    have step: "createCard_loop e k locs (promises @ [r1, r2]) s5 = (Inr promises', t)"
      using Cons.prems True na rn ws ad by (simp add: Let_def)
    have s1: "currentWorkspaceUrl s1 = currentWorkspaceUrl s" "outcomes s1 = outcomes s"
      "effects s1 = effects s @ [WindowCreated (nextWindow s)]"
      using na by (auto simp: new_Avatar_def)
    from render_spec [OF rn] s1 have
      s3: "currentWorkspaceUrl s3 = currentWorkspaceUrl s" "outcomes s3 = tl (outcomes s)"
      and r1: "(case outcomes s of
        Rejects m # rest \<Rightarrow> r1 = Throws (Error (''Error in render(): '' @ m))
      | NeverSettles # rest \<Rightarrow> r1 = Pending
      | rest \<Rightarrow> r1 = Returns ())"
      by auto
    from render_logged [OF rn] s1(3) obtain es3 where
      e3: "effects s3 = effects s @ [WindowCreated (nextWindow s)] @ es3" "logged es3 = []"
      by auto
    from addAvatarUrl_spec [OF ad] s3 have
      s5: "currentWorkspaceUrl s5 = currentWorkspaceUrl s" "outcomes s5 = tl (tl (outcomes s))"
      and r2: "(case tl (outcomes s) of
        Rejects m # rest \<Rightarrow> r2 = Throws (IOFailure m)
      | NeverSettles # rest \<Rightarrow> r2 = Pending
      | rest \<Rightarrow> r2 = Returns ())"
      by auto
    from addAvatarUrl_logged [OF ad] e3(1) obtain es5 where
      e5: "effects s5 = effects s @ [WindowCreated (nextWindow s)] @ es3 @ es5" "logged es5 = []"
      by auto
    have m5: "matching e s5 locs = matching e s locs" using s5(1) by (rule matching_cong)
    have len: "2 * length (matching e s (loc # locs)) = Suc (Suc (2 * length (matching e s locs)))"
      using True by simp
    from Cons.IH [OF step] obtain es where
      ih: "effects t = effects s5 @ es" "logged es = []"
        "\<forall>err. Throws err \<in> set promises' \<longrightarrow>
           Throws err \<in> set (promises @ [r1, r2]) \<or>
           (\<exists>m. Rejects m \<in> set (take (2 * length (matching e s5 locs)) (outcomes s5)) \<and>
                (err = Error (''Error in render(): '' @ m) \<or> err = IOFailure m))"
      by blast
    have 1: "effects t = effects s @ ([WindowCreated (nextWindow s)] @ es3 @ es5 @ es)"
      using ih(1) e5(1) by simp
    have 2: "logged ([WindowCreated (nextWindow s)] @ es3 @ es5 @ es) = []"
      using e3(2) e5(2) ih(2) by simp
    have 3: "Throws err \<in> set promises \<or>
        (\<exists>m. Rejects m \<in> set (take (2 * length (matching e s (loc # locs))) (outcomes s)) \<and>
             (err = Error (''Error in render(): '' @ m) \<or> err = IOFailure m))"
      if h: "Throws err \<in> set promises'" for err
    proof -
      from ih(3) h consider "Throws err \<in> set promises" | "r1 = Throws err" | "r2 = Throws err"
        | m where "Rejects m \<in> set (take (2 * length (matching e s locs)) (tl (tl (outcomes s))))"
            "err = Error (''Error in render(): '' @ m) \<or> err = IOFailure m"
        unfolding m5 s5(2) by auto
      then show ?thesis
      proof cases
        case 1
        then show ?thesis by simp
      next
        case 2
        from thrown_rejected [OF r1 2] obtain m rest where
          "outcomes s = Rejects m # rest" "err = Error (''Error in render(): '' @ m)" by blast
        then have "Rejects m \<in> set (take (2 * length (matching e s (loc # locs))) (outcomes s))"
          unfolding len by simp
        with \<open>err = Error (''Error in render(): '' @ m)\<close> show ?thesis by blast
      next
        case 3
        from thrown_rejected [OF r2 3] obtain m rest where
          o: "tl (outcomes s) = Rejects m # rest" "err = IOFailure m" by blast
        then have "Rejects m \<in> set (take (2 * length (matching e s (loc # locs))) (outcomes s))"
          unfolding len by (cases "outcomes s") simp_all
        with o(2) show ?thesis by blast
      next
        case 4
        from in_take_tl_tl [OF 4(1)]
        have "Rejects m \<in> set (take (2 * length (matching e s (loc # locs))) (outcomes s))"
          unfolding len .
        with 4(2) show ?thesis by blast
      qed
    qed
    show ?thesis
      using 1 2 3 by blast
  qed
qed

lemma promiseAll_member: "promiseAll rs = Throws err \<Longrightarrow> Throws err \<in> set rs"
proof -
  assume a: "promiseAll rs = Throws err"
  have m: "x \<in> set [y. Throws y \<leftarrow> rs] \<Longrightarrow> Throws x \<in> set rs" for x
    by (induction rs) (auto split: result.splits)
  from a obtain errs where "[y. Throws y \<leftarrow> rs] = err # errs"
    by (cases "[y. Throws y \<leftarrow> rs]") (auto simp: promiseAll_def split: if_splits)
  then have "err \<in> set [y. Throws y \<leftarrow> rs]" by simp
  then show ?thesis by (rule m)
qed

text \<open>What \<open>saveCard\<close> logs: the message of the write, if the write is rejected.\<close>

lemma saveCard_logged:
  assumes "saveCard p s = (r, t)" and "NeverSettles \<notin> set (outcomes s)"
  shows "\<exists>es. effects t = effects s @ es \<and>
     logged es = (case outcomes s of Rejects m # rest \<Rightarrow> [m] | _ \<Rightarrow> [])"
proof (cases "outcomes s")
  case Nil
  with saveCard_spec [OF assms(1)]
  have "effects t = effects s @ [CardIO ''updateOrCreateCardData'' (id' p)]" by simp
  with Nil show ?thesis by (intro exI [of _ "[CardIO ''updateOrCreateCardData'' (id' p)]"]) simp
next
  case (Cons oc rest)
  show ?thesis
  proof (cases oc)
    case Fulfils
    with Cons saveCard_spec [OF assms(1)]
    have "effects t = effects s @ [CardIO ''updateOrCreateCardData'' (id' p)]" by simp
    with Cons Fulfils show ?thesis
      by (intro exI [of _ "[CardIO ''updateOrCreateCardData'' (id' p)]"]) simp
  next
    case (Rejects m)
    with Cons saveCard_spec [OF assms(1)]
    have "effects t = effects s @ [CardIO ''updateOrCreateCardData'' (id' p), ConsoleError m]" by simp
    with Cons Rejects show ?thesis
      by (intro exI [of _ "[CardIO ''updateOrCreateCardData'' (id' p), ConsoleError m]"]) simp
  next
    case NeverSettles
    with Cons assms(2) show ?thesis by simp
  qed
qed

lemma createCard_settled:
  assumes h: "fromObject obj = Inr p" and w: "currentWorkspace s \<noteq> None"
    and ns: "NeverSettles \<notin> set (outcomes s)"
  shows "fst (createCard e fromObject obj s) = Returns (newCardKey s p) \<and>
     CardIO ''updateOrCreateCardData'' (newCardKey s p) \<in> set (since s (snd (createCard e fromObject obj s))) \<and>
     ((\<exists>m. Rejects m \<in> set (take (2 * length (matching e s (map fst (CardProp.avatars p)))) (outcomes s))) \<longrightarrow>
        (\<exists>m. ConsoleError (''Error in createCard: '' @ m) \<in> set (since s (snd (createCard e fromObject obj s))))) \<and>
     (nextFulfils (s\<lparr>outcomes := drop (2 * length (matching e s (map fst (CardProp.avatars p)))) (outcomes s)\<rparr>) \<longrightarrow>
        map_of (cardStore (snd (createCard e fromObject obj s))) (newCardKey s p) =
          Some (p\<lparr>id' := newCardKey s p\<rparr>))"
proof -
  let ?k = "newCardKey s p"
  let ?n = "length (matching e s (map fst (CardProp.avatars p)))"
  define crd where "crd = \<lparr>cardInitializeType = New, Card.prop' = p\<lparr>id' := ?k\<rparr>\<rparr>"
  define s0 where "s0 = (if id' p = [] then s\<lparr>uuidCount := Suc (uuidCount s)\<rparr> else s)"
  define s1 where "s1 = s0\<lparr>cards := AList.update ?k crd (cards s0)\<rparr>"
  have s1: "currentWorkspace s1 \<noteq> None" "outcomes s1 = outcomes s" "effects s1 = effects s"
    "cardStore s1 = cardStore s" "currentWorkspaceUrl s1 = currentWorkspaceUrl s"
    using w by (simp_all add: s1_def s0_def)
  define Q where "Q = (\<lambda>promises s2 es.
     createCard_loop e ?k (map fst (CardProp.avatars p)) [] s1 = (Inr promises, s2) \<and>
     cards s2 = cards s1 \<and> cardStore s2 = cardStore s1 \<and> currentWorkspace s2 \<noteq> None \<and>
     currentWorkspaceUrl s2 = currentWorkspaceUrl s1 \<and>
     outcomes s2 = drop (2 * length (matching e s1 (map fst (CardProp.avatars p)))) (outcomes s1) \<and>
     effects s2 = effects s1 @ es \<and> set [] \<subseteq> set promises \<and>
     (Pending \<in> set promises \<longrightarrow> Pending \<in> set ([] :: unit result list) \<or> NeverSettles \<in> set (outcomes s1)) \<and>
     ((\<exists>m. Rejects m \<in> set (take (2 * length (matching e s1 (map fst (CardProp.avatars p)))) (outcomes s1))) \<longrightarrow>
        (\<exists>err. Throws err \<in> set promises)))"
  have "\<exists>promises s2 es. Q promises s2 es"
    unfolding Q_def by (rule createCard_loop_spec [OF s1(1)])
  then obtain promises s2 es where "Q promises s2 es" by blast
  then have all:
    "createCard_loop e ?k (map fst (CardProp.avatars p)) [] s1 = (Inr promises, s2) \<and>
     cards s2 = cards s1 \<and> cardStore s2 = cardStore s1 \<and> currentWorkspace s2 \<noteq> None \<and>
     currentWorkspaceUrl s2 = currentWorkspaceUrl s1 \<and>
     outcomes s2 = drop (2 * length (matching e s1 (map fst (CardProp.avatars p)))) (outcomes s1) \<and>
     effects s2 = effects s1 @ es \<and> set [] \<subseteq> set promises \<and>
     (Pending \<in> set promises \<longrightarrow> Pending \<in> set ([] :: unit result list) \<or> NeverSettles \<in> set (outcomes s1)) \<and>
     ((\<exists>m. Rejects m \<in> set (take (2 * length (matching e s1 (map fst (CardProp.avatars p)))) (outcomes s1))) \<longrightarrow>
        (\<exists>err. Throws err \<in> set promises))"
    unfolding Q_def .
  from all have l: "createCard_loop e ?k (map fst (CardProp.avatars p)) [] s1 = (Inr promises, s2)"
    and s2: "cardStore s2 = cardStore s1"
      "outcomes s2 = drop (2 * length (matching e s1 (map fst (CardProp.avatars p)))) (outcomes s1)"
      "effects s2 = effects s1 @ es"
    and pend: "Pending \<in> set promises \<longrightarrow> Pending \<in> set ([] :: unit result list) \<or> NeverSettles \<in> set (outcomes s1)"
    and rej: "(\<exists>m. Rejects m \<in> set (take (2 * length (matching e s1 (map fst (CardProp.avatars p)))) (outcomes s1))) \<longrightarrow>
        (\<exists>err. Throws err \<in> set promises)"
    by blast+
  have m1: "matching e s1 (map fst (CardProp.avatars p)) = matching e s (map fst (CardProp.avatars p))"
    using s1(5) by (rule matching_cong)
  have o2: "outcomes s2 = drop (2 * ?n) (outcomes s)" using s2(2) m1 s1(2) by simp
  have ns2: "NeverSettles \<notin> set (outcomes s2)"
    using ns o2 by (auto dest: in_set_dropD)
  have np: "promiseAll promises \<noteq> Pending"
    using pend ns s1(2) by (intro promiseAll_settles) auto
  have cc: "createCard e fromObject obj s =
      (case promiseAll promises of
         Pending \<Rightarrow> (Pending, s2)
       | Throws err \<Rightarrow>
           (case saveCard (Card.prop' crd)
                   (emit (ConsoleError (''Error in createCard: '' @ message err)) s2) of
              (Returns v, s4) \<Rightarrow> (Returns (id' (Card.prop' crd)), s4)
            | (Throws err2, s4) \<Rightarrow> (Throws err2, s4)
            | (Pending, s4) \<Rightarrow> (Pending, s4))
       | Returns v \<Rightarrow>
           (case saveCard (Card.prop' crd) s2 of
              (Returns v, s4) \<Rightarrow> (Returns (id' (Card.prop' crd)), s4)
            | (Throws err2, s4) \<Rightarrow> (Throws err2, s4)
            | (Pending, s4) \<Rightarrow> (Pending, s4)))"
    using h l unfolding crd_def s1_def s0_def
    by (simp add: createCard_def new_Card_New_OfCardProp Let_def)
  have ik: "id' (Card.prop' crd) = ?k" "Card.prop' crd = p\<lparr>id' := ?k\<rparr>" by (simp_all add: crd_def)
  show ?thesis
  proof (cases "promiseAll promises")
    case Pending
    with np show ?thesis by simp
  next
    case (Returns v)
    obtain r4 s4 where sv: "saveCard (Card.prop' crd) s2 = (r4, s4)" by fastforce
    from saveCard_settles [OF sv ns2] ik obtain es4 where
      r4: "r4 = Returns ()" and e4: "effects s4 = effects s2 @ CardIO ''updateOrCreateCardData'' ?k # es4"
      by auto
    have res: "createCard e fromObject obj s = (Returns ?k, s4)"
      using cc Returns sv r4 ik by simp
    have eff: "since s s4 = es @ CardIO ''updateOrCreateCardData'' ?k # es4"
      using e4 s2(3) s1(3) by (simp add: since_def)
    have norej: "\<not> (\<exists>m. Rejects m \<in> set (take (2 * ?n) (outcomes s)))"
    proof
      assume "\<exists>m. Rejects m \<in> set (take (2 * ?n) (outcomes s))"
      with rej m1 s1(2) obtain err where "Throws err \<in> set promises" by auto
      from promiseAll_thrown [OF this] Returns show False by simp
    qed
    have st: "nextFulfils (s\<lparr>outcomes := drop (2 * ?n) (outcomes s)\<rparr>) \<longrightarrow>
        map_of (cardStore s4) ?k = Some (p\<lparr>id' := ?k\<rparr>)"
    proof
      assume "nextFulfils (s\<lparr>outcomes := drop (2 * ?n) (outcomes s)\<rparr>)"
      then have "nextFulfils s2" using o2 by (simp add: nextFulfils_def)
      from saveCard_fulfilled [OF sv this] ik show "map_of (cardStore s4) ?k = Some (p\<lparr>id' := ?k\<rparr>)"
        by (simp add: update_conv')
    qed
    show ?thesis using res eff norej st by simp
  next
    case (Throws err)
    let ?s3 = "emit (ConsoleError (''Error in createCard: '' @ message err)) s2"
    obtain r4 s4 where sv: "saveCard (Card.prop' crd) ?s3 = (r4, s4)" by fastforce
    have ns3: "NeverSettles \<notin> set (outcomes ?s3)" using ns2 by simp
    from saveCard_settles [OF sv ns3] ik obtain es4 where
      r4: "r4 = Returns ()" and e4: "effects s4 = effects ?s3 @ CardIO ''updateOrCreateCardData'' ?k # es4"
      by auto
    have res: "createCard e fromObject obj s = (Returns ?k, s4)"
      using cc Throws sv r4 ik by simp
    have eff: "since s s4 = es @ ConsoleError (''Error in createCard: '' @ message err) #
        CardIO ''updateOrCreateCardData'' ?k # es4"
      using e4 s2(3) s1(3) by (simp add: since_def)
    have st: "nextFulfils (s\<lparr>outcomes := drop (2 * ?n) (outcomes s)\<rparr>) \<longrightarrow>
        map_of (cardStore s4) ?k = Some (p\<lparr>id' := ?k\<rparr>)"
    proof
      assume "nextFulfils (s\<lparr>outcomes := drop (2 * ?n) (outcomes s)\<rparr>)"
      then have "nextFulfils ?s3" using o2 by (simp add: nextFulfils_def)
      from saveCard_fulfilled [OF sv this] ik show "map_of (cardStore s4) ?k = Some (p\<lparr>id' := ?k\<rparr>)"
        by (simp add: update_conv')
    qed
    show ?thesis using res eff st by auto
  qed
qed

lemma createCard_logged:
  assumes h: "fromObject obj = Inr p" and w: "currentWorkspace s \<noteq> None"
    and ns: "NeverSettles \<notin> set (outcomes s)"
  shows "\<exists>pre. logged (since s (snd (createCard e fromObject obj s))) =
       pre @ (case drop (2 * length (matching e s (map fst (CardProp.avatars p)))) (outcomes s) of
                Rejects m # rest \<Rightarrow> [m] | _ \<Rightarrow> []) \<and>
     (if \<exists>m. Rejects m \<in> set (take (2 * length (matching e s (map fst (CardProp.avatars p)))) (outcomes s))
      then \<exists>m. Rejects m \<in> set (take (2 * length (matching e s (map fst (CardProp.avatars p)))) (outcomes s)) \<and>
             (pre = [''Error in createCard: '' @ ''Error in render(): '' @ m] \<or>
              pre = [''Error in createCard: '' @ m])
      else pre = [])"
proof -
  let ?k = "newCardKey s p"
  let ?locs = "map fst (CardProp.avatars p)"
  let ?n = "length (matching e s ?locs)"
  let ?wl = "case drop (2 * ?n) (outcomes s) of Rejects m # rest \<Rightarrow> [m] | _ \<Rightarrow> []"
  define crd where "crd = \<lparr>cardInitializeType = New, Card.prop' = p\<lparr>id' := ?k\<rparr>\<rparr>"
  define s0 where "s0 = (if id' p = [] then s\<lparr>uuidCount := Suc (uuidCount s)\<rparr> else s)"
  define s1 where "s1 = s0\<lparr>cards := AList.update ?k crd (cards s0)\<rparr>"
  have s1: "currentWorkspace s1 \<noteq> None" "outcomes s1 = outcomes s" "effects s1 = effects s"
    "cardStore s1 = cardStore s" "currentWorkspaceUrl s1 = currentWorkspaceUrl s"
    using w by (simp_all add: s1_def s0_def)
  have m1: "matching e s1 ?locs = matching e s ?locs"
    using s1(5) by (rule matching_cong)
  from createCard_loop_spec [OF s1(1), of e ?k ?locs "[]"] obtain promises s2 where
    l: "createCard_loop e ?k ?locs [] s1 = (Inr promises, s2)"
    and o2: "outcomes s2 = drop (2 * ?n) (outcomes s)"
    and pend: "Pending \<in> set promises \<longrightarrow> NeverSettles \<in> set (outcomes s)"
    and rej: "(\<exists>m. Rejects m \<in> set (take (2 * ?n) (outcomes s))) \<longrightarrow> (\<exists>err. Throws err \<in> set promises)"
    unfolding m1 s1(2) by auto
  from createCard_loop_thrown [OF l] obtain es where
    es: "effects s2 = effects s @ es" "logged es = []"
    and thr: "\<forall>err. Throws err \<in> set promises \<longrightarrow>
        (\<exists>m. Rejects m \<in> set (take (2 * ?n) (outcomes s)) \<and>
             (err = Error (''Error in render(): '' @ m) \<or> err = IOFailure m))"
    unfolding m1 s1(2,3) by auto
  have ns2: "NeverSettles \<notin> set (outcomes s2)"
    using ns o2 by (auto dest: in_set_dropD)
  have np: "promiseAll promises \<noteq> Pending"
    using pend ns by (intro promiseAll_settles) auto
  have cc: "createCard e fromObject obj s =
      (case promiseAll promises of
         Pending \<Rightarrow> (Pending, s2)
       | Throws err \<Rightarrow>
           (case saveCard (Card.prop' crd)
                   (emit (ConsoleError (''Error in createCard: '' @ message err)) s2) of
              (Returns v, s4) \<Rightarrow> (Returns (id' (Card.prop' crd)), s4)
            | (Throws err2, s4) \<Rightarrow> (Throws err2, s4)
            | (Pending, s4) \<Rightarrow> (Pending, s4))
       | Returns v \<Rightarrow>
           (case saveCard (Card.prop' crd) s2 of
              (Returns v, s4) \<Rightarrow> (Returns (id' (Card.prop' crd)), s4)
            | (Throws err2, s4) \<Rightarrow> (Throws err2, s4)
            | (Pending, s4) \<Rightarrow> (Pending, s4)))"
    using h l unfolding crd_def s1_def s0_def
    by (simp add: createCard_def new_Card_New_OfCardProp Let_def)
  show ?thesis
  proof (cases "promiseAll promises")
    case Pending
    with np show ?thesis by simp
  next
    case (Returns v)
    obtain r4 s4 where sv: "saveCard (Card.prop' crd) s2 = (r4, s4)" by fastforce
    from saveCard_logged [OF sv ns2] obtain es4 where
      e4: "effects s4 = effects s2 @ es4" "logged es4 = ?wl"
      unfolding o2 by blast
    have t: "snd (createCard e fromObject obj s) = s4"
      using cc Returns sv by (simp split: result.splits)
    have lg: "logged (since s s4) = [] @ ?wl"
      using e4 es by (simp add: since_def)
    have norej: "\<not> (\<exists>m. Rejects m \<in> set (take (2 * ?n) (outcomes s)))"
    proof
      assume "\<exists>m. Rejects m \<in> set (take (2 * ?n) (outcomes s))"
      with rej obtain err where "Throws err \<in> set promises" by auto
      from promiseAll_thrown [OF this] Returns show False by simp
    qed
    show ?thesis
      unfolding t using lg norej by (intro exI [of _ "[]"]) simp
  next
    case (Throws err)
    let ?s3 = "emit (ConsoleError (''Error in createCard: '' @ message err)) s2"
    obtain r4 s4 where sv: "saveCard (Card.prop' crd) ?s3 = (r4, s4)" by fastforce
    have ns3: "NeverSettles \<notin> set (outcomes ?s3)" using ns2 by simp
    from saveCard_logged [OF sv ns3] obtain es4 where
      e4: "effects s4 = effects ?s3 @ es4" "logged es4 = ?wl"
      using o2 by auto
    have t: "snd (createCard e fromObject obj s) = s4"
      using cc Throws sv by (simp split: result.splits)
    have lg: "logged (since s s4) = [''Error in createCard: '' @ message err] @ ?wl"
      using e4 es by (simp add: since_def)
    from promiseAll_member [OF Throws] thr obtain m where
      m: "Rejects m \<in> set (take (2 * ?n) (outcomes s))"
        "err = Error (''Error in render(): '' @ m) \<or> err = IOFailure m"
      by blast
    from m(2) have ms: "[''Error in createCard: '' @ message err] =
          [''Error in createCard: '' @ ''Error in render(): '' @ m] \<or>
        [''Error in createCard: '' @ message err] = [''Error in createCard: '' @ m]"
      by auto
    have ex: "\<exists>m. Rejects m \<in> set (take (2 * ?n) (outcomes s))" using m(1) by blast
    have "\<exists>m. Rejects m \<in> set (take (2 * ?n) (outcomes s)) \<and>
       ([''Error in createCard: '' @ message err] =
          [''Error in createCard: '' @ ''Error in render(): '' @ m] \<or>
        [''Error in createCard: '' @ message err] = [''Error in createCard: '' @ m])"
      using m(1) ms by blast
    then show ?thesis
      unfolding t using lg ex
      by (intro exI [of _ "[''Error in createCard: '' @ message err]"]) (simp only: if_True simp_thms)
  qed
qed

text \<open>
  Claim C5, amended. For a payload that hydrates, with a current workspace, and when every
  request of the run is answered (fulfilled or rejected): \<open>createCard\<close> returns the id of
  the card, which is registered in \<open>cards\<close>; whether or not a render or an addition to the
  placement list was rejected, \<open>saveCard\<close> asks the persistence layer to write the card,
  and when the write itself is fulfilled the record is the card's CardProp. When none of
  the renders and additions is rejected, nothing is logged for them; when one or several
  are rejected, exactly one line \<open>Error in createCard: ...\<close> is logged, with the message of
  one of the rejected requests. The only other line that the run can log is the message of
  a rejected write.
\<close>

theorem createCard_best_effort:
  assumes "fromObject obj = Inr p" and "currentWorkspace s \<noteq> None"
    and "NeverSettles \<notin> set (outcomes s)"
  shows "fst (createCard e fromObject obj s) = Returns (newCardKey s p) \<and>
     map_of (cards (snd (createCard e fromObject obj s))) (newCardKey s p) =
       Some \<lparr>cardInitializeType = New, Card.prop' = p\<lparr>id' := newCardKey s p\<rparr>\<rparr> \<and>
     CardIO ''updateOrCreateCardData'' (newCardKey s p) \<in> set (since s (snd (createCard e fromObject obj s))) \<and>
     ((\<exists>m. Rejects m \<in> set (take (2 * length (matching e s (map fst (CardProp.avatars p)))) (outcomes s))) \<longrightarrow>
        (\<exists>m. ConsoleError (''Error in createCard: '' @ m) \<in> set (since s (snd (createCard e fromObject obj s))))) \<and>
     (nextFulfils (s\<lparr>outcomes := drop (2 * length (matching e s (map fst (CardProp.avatars p)))) (outcomes s)\<rparr>) \<longrightarrow>
        map_of (cardStore (snd (createCard e fromObject obj s))) (newCardKey s p) =
          Some (p\<lparr>id' := newCardKey s p\<rparr>)) \<and>
     (\<exists>pre. logged (since s (snd (createCard e fromObject obj s))) =
        pre @ (case drop (2 * length (matching e s (map fst (CardProp.avatars p)))) (outcomes s) of
                 Rejects m # rest \<Rightarrow> [m] | _ \<Rightarrow> []) \<and>
        (if \<exists>m. Rejects m \<in> set (take (2 * length (matching e s (map fst (CardProp.avatars p)))) (outcomes s))
         then \<exists>m. Rejects m \<in> set (take (2 * length (matching e s (map fst (CardProp.avatars p)))) (outcomes s)) \<and>
                (pre = [''Error in createCard: '' @ ''Error in render(): '' @ m] \<or>
                 pre = [''Error in createCard: '' @ m])
         else pre = []))"
proof -
  have "map_of (cards (snd (createCard e fromObject obj s))) (newCardKey s p) =
       Some \<lparr>cardInitializeType = New, Card.prop' = p\<lparr>id' := newCardKey s p\<rparr>\<rparr>"
    using createCard_cards [where fromObject = fromObject and obj = obj and e = e and s = s, OF assms(1)]
    by (cases "createCard e fromObject obj s") (simp add: update_conv')
  with createCard_settled [where fromObject = fromObject and obj = obj and p = p and s = s and e = e,
      OF assms]
    createCard_logged [where fromObject = fromObject and obj = obj and p = p and s = s and e = e,
      OF assms]
  show ?thesis by blast
qed

text \<open>
  The amended C5 in the concrete state whose first request, the render of the new avatar,
  is rejected: the error is logged, in one line, the id is returned and the card is
  persisted.
\<close>

theorem createCard_best_effort_witness:
  "currentWorkspace renderFailsWorld \<noteq> None \<and>
   NeverSettles \<notin> set (outcomes renderFailsWorld) \<and>
   Rejects ''ERR_FAILED'' \<in> set (take (2 * length (matching exampleEnv renderFailsWorld
       (map fst (CardProp.avatars (exampleCardProp\<lparr>id' := []\<rparr>))))) (outcomes renderFailsWorld)) \<and>
   nextFulfils (renderFailsWorld\<lparr>outcomes := drop (2 * length (matching exampleEnv renderFailsWorld
       (map fst (CardProp.avatars (exampleCardProp\<lparr>id' := []\<rparr>))))) (outcomes renderFailsWorld)\<rparr>) \<and>
   fst (createCard exampleEnv Inr (exampleCardProp\<lparr>id' := []\<rparr>) renderFailsWorld) =
     Returns ''0f8fad5b-d9cb-469f-a165-70867728950e'' \<and>
   map_of (cardStore (snd (createCard exampleEnv Inr (exampleCardProp\<lparr>id' := []\<rparr>) renderFailsWorld)))
       ''0f8fad5b-d9cb-469f-a165-70867728950e'' =
     Some (exampleCardProp\<lparr>id' := ''0f8fad5b-d9cb-469f-a165-70867728950e''\<rparr>) \<and>
   logged (since renderFailsWorld
           (snd (createCard exampleEnv Inr (exampleCardProp\<lparr>id' := []\<rparr>) renderFailsWorld))) =
     [''Error in createCard: Error in render(): ERR_FAILED'']"
proof -
  have w: "currentWorkspace renderFailsWorld \<noteq> None"
    and ns: "NeverSettles \<notin> set (outcomes renderFailsWorld)"
    by (simp_all add: renderFailsWorld_def exampleWorld_def)
  have n: "length (matching exampleEnv renderFailsWorld
       (map fst (CardProp.avatars exampleCardProp))) = 1"
    by (simp add: renderFailsWorld_def exampleWorld_def exampleEnv_def exampleCardProp_def)
  have o: "outcomes renderFailsWorld = [Rejects ''ERR_FAILED'', Fulfils, Fulfils]"
    by (simp add: renderFailsWorld_def)
  have k: "newCardKey renderFailsWorld (exampleCardProp\<lparr>id' := []\<rparr>) =
      ''0f8fad5b-d9cb-469f-a165-70867728950e''"
    by (simp add: newCardKey_def renderFailsWorld_def exampleWorld_def)
  have l: "logged (since renderFailsWorld
           (snd (createCard exampleEnv Inr (exampleCardProp\<lparr>id' := []\<rparr>) renderFailsWorld))) =
     [''Error in createCard: Error in render(): ERR_FAILED'']"
    by (simp add: createCard_def new_Card_New_OfCardProp newCardKey_def exampleCardProp_def
        renderFailsWorld_def exampleWorld_def io_defs registry_defs exampleEnv_def Let_def
        new_AvatarProp_def since_def)
  show ?thesis
    using createCard_best_effort [where fromObject = Inr and obj = "exampleCardProp\<lparr>id' := []\<rparr>"
        and p = "exampleCardProp\<lparr>id' := []\<rparr>" and s = renderFailsWorld and e = exampleEnv, OF _ w ns]
      w ns l
    by (simp add: n o k nextFulfils_def)
qed

text \<open>
  Claim C5 as it is written has the failures of renders and of additions to the placement
  list logged. In the concrete state both requests for the one avatar of the new card are
  rejected, the render with \<open>ERR_FAILED\<close> and the addition with \<open>EIO\<close>: the id is returned
  and the record is written, and the run logs one line only, so that one of the two
  failures is logged nowhere.
\<close>

theorem createCard_logs_one_counterexample:
  "outcomes bothFailWorld = [Rejects ''ERR_FAILED'', Rejects ''EIO'', Fulfils] \<and>
   matching exampleEnv bothFailWorld (map fst (CardProp.avatars (exampleCardProp\<lparr>id' := []\<rparr>))) =
     [''ws1/''] \<and>
   fst (createCard exampleEnv Inr (exampleCardProp\<lparr>id' := []\<rparr>) bothFailWorld) =
     Returns ''0f8fad5b-d9cb-469f-a165-70867728950e'' \<and>
   map_of (cardStore (snd (createCard exampleEnv Inr (exampleCardProp\<lparr>id' := []\<rparr>) bothFailWorld)))
       ''0f8fad5b-d9cb-469f-a165-70867728950e'' =
     Some (exampleCardProp\<lparr>id' := ''0f8fad5b-d9cb-469f-a165-70867728950e''\<rparr>) \<and>
   length (logged (since bothFailWorld
           (snd (createCard exampleEnv Inr (exampleCardProp\<lparr>id' := []\<rparr>) bothFailWorld)))) = 1"
  by (simp add: createCard_def new_Card_New_OfCardProp newCardKey_def exampleCardProp_def
      bothFailWorld_def exampleWorld_def io_defs registry_defs exampleEnv_def Let_def
      new_AvatarProp_def since_def matching_def)

section \<open>Startup\<close>

text \<open>The effects of a run, read by kind.\<close>

lemma reads_simps [simp]:
  "reads [] = []"
  "reads (ev # es) =
     (case ev of CardIO c i \<Rightarrow> if c = ''getCardData'' then [i] else [] | _ \<Rightarrow> []) @ reads es"
  "reads (es @ fs) = reads es @ reads fs"
  by (simp_all add: reads_def split: effect.splits)

lemma created_simps [simp]:
  "created [] = []"
  "created (ev # es) = (case ev of WindowCreated w \<Rightarrow> [w] | _ \<Rightarrow> []) @ created es"
  "created (es @ fs) = created es @ created fs"
  by (simp_all add: created_def)

lemma raised_simps [simp]:
  "raised [] = []"
  "raised (ev # es) = (case ev of WindowMoveTop w \<Rightarrow> [w] | _ \<Rightarrow> []) @ raised es"
  "raised (es @ fs) = raised es @ raised fs"
  by (simp_all add: raised_def)


lemma loadOrCreateCardData_halves:
  "loadOrCreateCardData i s = loadOrCreateCardData_answer i (loadOrCreateCardData_request i s)"
  by (simp add: loadOrCreateCardData_def loadOrCreateCardData_answer_def
      loadOrCreateCardData_request_def CardIO_getCardData_def CardIO_getCardData_answer_def
      CardIO_getCardData_request_def)






text \<open>The avatars of the list: one window each; the keys of the registry are the urls in
  order of first occurrence; every avatar holds the content and placement found for its url.\<close>

lemma ready_avatars_fields [simp]:
  "cards (ready_avatars e urls s) = cards s"
  "cardStore (ready_avatars e urls s) = cardStore s"
  "outcomes (ready_avatars e urls s) = outcomes s"
  "destroyed (ready_avatars e urls s) = destroyed s"
  by (induction urls arbitrary: s; simp add: new_Avatar_def)+




lemma unique_fold:
  "distinct acc \<Longrightarrow>
     distinct (fold (\<lambda>v acc. if v \<in> set acc then acc else acc @ [v]) vs acc) \<and>
     set (fold (\<lambda>v acc. if v \<in> set acc then acc else acc @ [v]) vs acc) = set acc \<union> set vs"
  by (induction vs arbitrary: acc) auto

lemma distinct_unique [simp]: "distinct (unique vs)"
  and set_unique [simp]: "set (unique vs) = set vs"
  using unique_fold [of "[]" vs] by (simp_all add: unique_def)














lemma reads_getCardData [simp]: "reads (map (CardIO ''getCardData'') ids) = ids"
  "created (map (CardIO ''getCardData'') ids) = []" "raised (map (CardIO ''getCardData'') ids) = []"
  by (induction ids) simp_all









text \<open>
  Without the record of a listed card the listener goes on as soon as that read has
  failed. The read of \<open>c1\<close> is answered later: its card is registered in the end, but its
  avatar was made before, with no content.
\<close>

lemma ready_goes_on_before_late_reads:
  "atLaunch missingRecordWorld \<and> \<not> recorded exampleEnv missingRecordWorld \<and>
   fst (ready exampleEnv missingRecordWorld) = Returns () \<and>
   logged (since missingRecordWorld (snd (ready exampleEnv missingRecordWorld))) =
     [''Error while loading cards in ready event: c9''] \<and>
   map_of (cards (snd (ready exampleEnv missingRecordWorld))) ''c1'' = Some exampleCard \<and>
   map (\<lambda>(u, a). (u, AvatarProp.data (Avatar.prop' a)))
       (avatars (snd (ready exampleEnv missingRecordWorld))) =
     [(''ws1/c9'', []), (''ws1/c1'', [])]"
  by (simp add: ready_def ready_from_def ready_loadCards_def ready_windows_def loadCard_answer_def
        loadOrCreateCardData_answer_def loadOrCreateCardData_request_def
        CardIO_getCardData_answer_def CardIO_getCardData_request_def
        new_Card_Load_def unique_def backToFront_def zOf_def atLaunch_def recorded_def
        missingRecordWorld_def example_defs io_defs registry_defs urlList_def since_def Let_def
        idAfterLastSlash_def prefixToLastSlash_def)

end
